theory Spec2Isabelle
  imports Main "HOL-Library.Multiset" "HOL-Library.Char_ord" "HOL-Library.List_Lexorder"
begin

section \<open>String helpers of the Python source\<close>

text \<open>
  \<open>str.replace(old, new)\<close> for a non-empty \<open>old\<close>: every non-overlapping occurrence,
  scanning from the left, is replaced. Both call sites of \<open>dataCED.py\<close> pass
  \<open>old = '.'\<close>.
\<close>

fun str_replace :: "string \<Rightarrow> string \<Rightarrow> string \<Rightarrow> string" where
  "str_replace old new [] = []"
| "str_replace old new (c # cs) =
     (if old \<noteq> [] \<and> take (length old) (c # cs) = old
      then new @ str_replace old new (drop (length old - 1) cs)
      else c # str_replace old new cs)"

text \<open>
  \<open>str.split(sep)\<close> for a non-empty \<open>sep\<close>: the pieces between the non-overlapping
  occurrences of \<open>sep\<close>, scanning from the left. The second argument is the piece
  collected so far. (Python raises ValueError on an empty separator; the only call
  site passes \<open>'. '\<close>.)
\<close>

fun split_from :: "string \<Rightarrow> string \<Rightarrow> string \<Rightarrow> string list" where
  "split_from sep cur [] = [cur]"
| "split_from sep cur (c # cs) =
     (if sep \<noteq> [] \<and> take (length sep) (c # cs) = sep
      then cur # split_from sep [] (drop (length sep - 1) cs)
      else split_from sep (cur @ [c]) cs)"

definition str_split :: "string \<Rightarrow> string \<Rightarrow> string list" where
  "str_split sep s = split_from sep [] s"

text \<open>
  \<open>str.rsplit(sep, 1)\<close> for a one-character separator: split once, at the last
  occurrence; a string without the separator comes back as the only piece.
\<close>

definition rsplit1 :: "char \<Rightarrow> string \<Rightarrow> string list" where
  "rsplit1 c s =
     (if c \<in> set s
      then [rev (tl (dropWhile (\<lambda>x. x \<noteq> c) (rev s))), rev (takeWhile (\<lambda>x. x \<noteq> c) (rev s))]
      else [s])"

text \<open>\<open>sep.join(parts)\<close>.\<close>

fun str_join :: "string \<Rightarrow> string list \<Rightarrow> string" where
  "str_join sep [] = []"
| "str_join sep [p] = p"
| "str_join sep (p # q # ps) = p @ sep @ str_join sep (q # ps)"

subsection \<open>Output file names\<close>

text \<open>
  \<open>dataCED.py\<close>, \<open>_write_error_file\<close> / \<open>_write_success_file\<close> and \<open>main\<close>:
  \<open>original_filename.replace('.', '_error.')\<close> and \<open>replace('.', '_ok.')\<close>.
\<close>

definition ced_error_filename :: "string \<Rightarrow> string" where
  "ced_error_filename original_filename = str_replace ''.'' ''_error.'' original_filename"

definition ced_success_filename :: "string \<Rightarrow> string" where
  "ced_success_filename original_filename = str_replace ''.'' ''_ok.'' original_filename"

text \<open>
  \<open>dataXRT.py\<close>, \<open>_save_and_upload_results\<close>: \<open>rsplit('.', 1)\<close>, the suffix goes
  before the last dot, or at the end of a name without a dot.
\<close>

definition xrt_output_filename :: "string \<Rightarrow> string \<Rightarrow> string" where
  "xrt_output_filename original_filename suffix =
     (case rsplit1 (CHR ''.'') original_filename of
        [base, ext] \<Rightarrow> base @ suffix @ ''.'' @ ext
      | _ \<Rightarrow> original_filename @ suffix)"

section \<open>Data model\<close>

text \<open>
  A cell of a pandas frame read with \<open>dtype=str\<close>: a Python \<open>str\<close>, the float
  \<open>nan\<close> that \<open>read_csv\<close> puts where the token is empty or NaN-like, or \<open>None\<close>.
  A record is the list of its cells in the file's column order.
\<close>

datatype cell = Text string | NaN | PyNone

type_synonym row = "cell list"
type_synonym table = "row list"

record dataframe =
  df_columns :: "string list"
  df_rows :: table

text \<open>\<open>str(val)\<close> on a cell, as Python prints the three kinds of value.\<close>

fun py_str :: "cell \<Rightarrow> string" where
  "py_str (Text s) = s"
| "py_str NaN = ''nan''"
| "py_str PyNone = ''None''"

text \<open>
  The exception classes that the handlers of the two modules tell apart. A subclass
  is filed under the class a handler catches it by (\<open>FileNotFoundError\<close> is an
  \<open>OSError\<close>, \<open>UnicodeDecodeError\<close> a \<open>ValueError\<close>). \<open>ZeepFault d\<close> is a SOAP fault;
  \<open>d\<close> is the value of \<open>deserialize(fault.detail[0])['explanation']\<close>, or \<open>None\<close>
  where evaluating that expression raises.
\<close>

datatype exn =
    ValueError string
  | KeyError string
  | OSError string
  | PyodbcError string
  | ClientError string
  | S3OperationError string
  | FileProcessingError string
  | ZeepFault "string option"
  | RequestsTimeout
  | RequestsConnectionError
  | OtherException string

text \<open>
  Local directories and remote prefixes of the staging layout; a local path is a
  directory with the path of the file below it, an object key a prefix with the rest
  of the key. \<open>Path(...).name\<close> is the last component of a path: what follows the last
  slash (of a path that does not end in a slash, as every path here: the listings
  drop the keys that do).
\<close>

datatype ldir = LocalPending | LocalProcessed | LocalError
datatype s3dir = S3Pending | S3Processed | S3Error

type_synonym lpath = "ldir \<times> string"
type_synonym s3key = "s3dir \<times> string"

definition base_name :: "string \<Rightarrow> string" where
  "base_name s = rev (takeWhile (\<lambda>c. c \<noteq> CHR ''/'') (rev s))"

definition path_name :: "lpath \<Rightarrow> string" where
  "path_name p = base_name (snd p)"

text \<open>
  The calls the program makes on its collaborators: the object store, the local file
  system, the database driver and the web service.
\<close>

datatype event =
    S3List
  | S3Download s3key lpath
  | S3Upload lpath s3key
  | S3Delete s3key
  | LocalMkdir ldir
  | LocalWrite lpath
  | LocalMove lpath lpath
  | LocalDelete lpath
  | DbConnect
  | DbExecute row
  | DbCommit
  | WsCall string

text \<open>An entry of the trace: the call, and the exception it raised if it raised one.\<close>

type_synonym entry = "event \<times> exn option"

datatype content = Original | Artifact table

text \<open>
  The state the program acts on: the trace of calls made so far (oldest first), the
  local files, and the database (rows inserted in the open transaction, rows
  committed), and what the run has logged about each file it handled: that it
  completed, or the exception its handler caught.
\<close>

datatype file_status = Completed | Failed exn

record world =
  trace :: "entry list"
  localfs :: "lpath \<Rightarrow> content option"
  db_pending :: table
  db_committed :: table
  report :: "(string \<times> file_status) list"

text \<open>
  The environment decides what the collaborators do: \<open>fault\<close> tells, from the calls
  made so far, whether a call raises and what; \<open>read_csv\<close> is what
  \<open>detect_file_encoding\<close> followed by \<open>pd.read_csv\<close> gives for a local file;
  \<open>s3_listing\<close> is the list of object names under the pending prefix.
  \<open>sanitize\<close> stands for \<open>sanitize_error_message\<close> of \<open>dataCED.py\<close>, whose
  regular-expression redaction is kept as a parameter: nothing below depends on what
  it computes.
\<close>

record env =
  fault :: "entry list \<Rightarrow> event \<Rightarrow> exn option"
  read_csv :: "lpath \<Rightarrow> exn + dataframe"
  s3_listing :: "string list"
  sanitize :: "string \<Rightarrow> string"

subsection \<open>Actions: state passing with exceptions\<close>

type_synonym 'a action = "world \<Rightarrow> (exn + 'a) \<times> world"

definition ret :: "'a \<Rightarrow> 'a action" where
  "ret x w = (Inr x, w)"

definition throw :: "exn \<Rightarrow> 'a action" where
  "throw e w = (Inl e, w)"

definition and_then :: "'a action \<Rightarrow> ('a \<Rightarrow> 'b action) \<Rightarrow> 'b action" where
  "and_then m f w = (case m w of (Inl e, w') \<Rightarrow> (Inl e, w') | (Inr x, w') \<Rightarrow> f x w')"

text \<open>\<open>try: m  except ... as e: h e\<close>.\<close>

definition try_except :: "'a action \<Rightarrow> (exn \<Rightarrow> 'a action) \<Rightarrow> 'a action" where
  "try_except m h w = (case m w of (Inl e, w') \<Rightarrow> h e w' | (Inr x, w') \<Rightarrow> (Inr x, w'))"

text \<open>One call on a collaborator: it is logged, and raises if the environment says so.\<close>

definition perform :: "env \<Rightarrow> event \<Rightarrow> unit action" where
  "perform env ev w =
     (case fault env (trace w) ev of
        None \<Rightarrow> (Inr (), w\<lparr>trace := trace w @ [(ev, None)]\<rparr>)
      | Some e \<Rightarrow> (Inl e, w\<lparr>trace := trace w @ [(ev, Some e)]\<rparr>))"

definition modify :: "(world \<Rightarrow> world) \<Rightarrow> unit action" where
  "modify f w = (Inr (), f w)"

definition file_exists :: "lpath \<Rightarrow> world \<Rightarrow> bool" where
  "file_exists p w = (localfs w p \<noteq> None)"

text \<open>The entries a run from \<open>w\<close> to \<open>w'\<close> has added to the trace.\<close>

definition new_entries :: "world \<Rightarrow> world \<Rightarrow> entry list" where
  "new_entries w w' = drop (length (trace w)) (trace w')"

section \<open>dataCED.py: the bulk-insert pipeline\<close>

subsection \<open>Column definitions\<close>

definition COLUMNS_TO_USE :: "string list" where
  "COLUMNS_TO_USE =
    [''PID'', ''STATUS'', ''IMPORT_TS'', ''BATCH_NAME'', ''CREATION_TS'',
     ''RECORD_TYPE'', ''RECORD_UNIQUE_ID'', ''PRIM_SYS'', ''ACCESS_CODE'',
     ''BASE_COMPANY'', ''EC'', ''CURRENCY'', ''DTL_AMT'', ''AS_AT'', ''OCC_YR'',
     ''UW_YEAR'', ''AC_YEAR'', ''AC_REF_PERIOD'', ''AC_START_DATE'', ''AC_END_DATE'',
     ''DATE_OF_BOOKING'', ''BOOKING_YEAR'', ''BOOKING_YEAR_2'', ''BOOKING_YEAR_3'',
     ''BOOKING_PERIOD'', ''BOOKING_PERIOD2'', ''BOOKING_PERIOD3'', ''DTL_COMMENT'',
     ''CEDE'', ''WS_IDENTIFIER'', ''WS_TITLE'', ''IS_ESTIMATE'', ''UDF_TXT1'',
     ''UDF_TXT2'', ''UDF_TXT3'', ''POLICY_ID'', ''POLICY_TITLE'', ''POLICY_FORMER_ID'',
     ''IP_START'', ''IP_END'', ''ORIGINAL_IP_START'', ''ORIGINAL_IP_END'',
     ''AUTOMATIC_PROT_ASS'', ''REASON_FOR_MANPROT'', ''SECTION_EXT_ID'',
     ''SECTION_NAME'', ''ATT_FROM'', ''ATT_TO'', ''SEC_CURRENCY'', ''MAIN_LIMIT'',
     ''MAIN_LIMIT_TYPE'', ''TOTAL_GROSS_P'', ''SHARE_PCT'', ''COUNTRY'', ''COUNTRY_GRP'',
     ''STATE'', ''STATE_GRP'', ''MCOB'', ''COB'', ''SCOB'', ''ADDL_CLASS_1'',
     ''ADDL_CLASS_2'', ''ADDL_CLASS_3'', ''ADDL_CLASS_4'', ''ADDL_CLASS_5'',
     ''ADDL_CLASS_6'', ''ADDL_CLASS_7'', ''ADDL_CLASS_8'', ''ADDL_CLASS_9'',
     ''ADDL_CLASS_10'', ''ADDL_CLASS_11'', ''REP_UNIT_1'', ''REP_UNIT_2'',
     ''REP_UNIT_3'', ''ORIGIN_OF_BUS'', ''PERIL'', ''CLAIM_ID'', ''HL_LOSS_ID'',
     ''HL_LOSS_NAME'', ''DOL_BEGIN'', ''DOL_END'', ''INCL_IN_REC_ORDER'',
     ''ACC_AS_OF_DATE'', ''CAUSE_OF_LOSS'', ''CONSEQUENCE_OF_LOSS'', ''CLAIM_NAME'',
     ''RISKNAME'', ''CLAIM_UDF_TXT1'', ''CLAIM_UDF_TXT2'', ''CLAIM_UDF_TXT3'',
     ''PC_LIMIT_INFO1'', ''PC_LIMIT_INFO1_TYPE'', ''PC_LIMIT_INFO2'',
     ''PC_LIMIT_INFO2_TYPE'', ''PC_DECL_ID'', ''PC_DECL_NAME'', ''PC_DECL_ATT_FROM'',
     ''PC_DECL_ATT_TO'', ''PC_DECL_MAIN_L'', ''PC_DECL_CURR'', ''PC_INSURED_ID'',
     ''PC_INSURED_NAME'', ''PC_RUG'', ''PC_RUG_NAME'', ''PC_RUG_SEQUENT'', ''PC_IO_ID'',
     ''PC_IO_NAME'', ''PC_IO_TYPE'', ''PC_CLAIM_BASIS'', ''LF_TRANS_TYPE'', ''LF_SAR'',
     ''LF_XTRA_MORTAL_PCT'', ''LF_OTHER_XTRA_PREM'', ''LF_CALC_BASIS'', ''LF_AGE'',
     ''LF_RETIREMENT_AGE'', ''LF_SMOKER_STATUS'', ''LF_OCCUPATION_CLS'',
     ''LF_RISK_CLASS'', ''LF_DISABILITY_CLS'', ''LF_ESCALATION'', ''LF_IAB_IDENTIFIER'',
     ''LF_IAB_BEGIN_DATE'', ''LF_IO_PERSON_ID'', ''LF_IO_PERSON_NAME'', ''LF_IO_ALIAS'',
     ''LF_IO_DT_OF_BIRTH'', ''LF_IO_BIRTH_COUNTRY'', ''LF_IO_NATIONALITY'',
     ''LF_IO_PERSON_STATUS'', ''LF_IO_GENDER'', ''REASON_FOR_CHANGE'',
     ''CLAIM_ADVISED_DT'', ''AUTO_LGT_CL_PT_ASS'', ''REA_LGT_CL_MANPT'', ''UDF_PCT1'',
     ''UDF_PCT2'', ''UDF_PCT3'', ''UDF_PCT4'', ''UDF_TXT4'', ''FSK_UDF_REF_DATA'',
     ''FRK_UDF_REF_DATA'', ''UDF_AMT1_AMT'', ''FK_UDF_AMT1_CY'', ''UDF_AMT2_AMT'',
     ''FK_UDF_AMT2_CY'', ''UDF_AMT3_AMT'', ''FK_UDF_AMT3_CY'', ''UDF_AMT4_AMT'',
     ''FK_UDF_AMT4_CY'', ''UDF_AMT5_AMT'', ''FK_UDF_AMT5_CY'', ''CLMS_TRIG_DT'',
     ''CLAIMS_TRIG'', ''CLAIMANT'', ''PC_ASSISTANCE_KEY'', ''PC_NUM_OF_INSRD_OBJ'',
     ''CLAIM_STATUS'', ''HL_DOL_BEGIN'', ''HL_DOL_END'', ''PC_RUG_PROP_GRP'',
     ''PC_RUG_AUTOMATIC_PROT_ASS'', ''PC_RUG_TOP_LOCATION'',
     ''PC_RUG_REASON_FOR_MANPROT'', ''PC_ACCU_EXCL'', ''PC_PA_INHERIT_EXCL'',
     ''CLAIM_SHORT_DESC'', ''FK_ORDER'', ''FK_LIGHT_DETAIL'', ''VERSION'']"

definition INSERT_COLUMN_ORDER :: "string list" where
  "INSERT_COLUMN_ORDER =
    [''IMPORT_TS'', ''CREATION_TS'', ''RECORD_TYPE'', ''DTL_AMT'', ''AS_AT'', ''OCC_YR'',
     ''UW_YEAR'', ''AC_YEAR'', ''AC_START_DATE'', ''AC_END_DATE'', ''DATE_OF_BOOKING'',
     ''BOOKING_YEAR'', ''BOOKING_YEAR_2'', ''BOOKING_YEAR_3'', ''CEDE'', ''IS_ESTIMATE'',
     ''IP_START'', ''IP_END'', ''ORIGINAL_IP_START'', ''ORIGINAL_IP_END'',
     ''AUTOMATIC_PROT_ASS'', ''ATT_FROM'', ''ATT_TO'', ''MAIN_LIMIT'', ''TOTAL_GROSS_P'',
     ''SHARE_PCT'', ''DOL_BEGIN'', ''DOL_END'', ''INCL_IN_REC_ORDER'',
     ''ACC_AS_OF_DATE'', ''PC_LIMIT_INFO1'', ''PC_LIMIT_INFO2'', ''PC_DECL_ATT_FROM'',
     ''PC_DECL_ATT_TO'', ''PC_DECL_MAIN_L'', ''PC_RUG_SEQUENT'', ''LF_SAR'',
     ''LF_XTRA_MORTAL_PCT'', ''LF_OTHER_XTRA_PREM'', ''LF_AGE'', ''LF_RETIREMENT_AGE'',
     ''LF_IAB_BEGIN_DATE'', ''LF_IO_DT_OF_BIRTH'', ''CLAIM_ADVISED_DT'',
     ''AUTO_LGT_CL_PT_ASS'', ''UDF_PCT1'', ''UDF_PCT2'', ''UDF_PCT3'', ''UDF_PCT4'',
     ''FSK_UDF_REF_DATA'', ''UDF_AMT1_AMT'', ''FK_UDF_AMT1_CY'', ''UDF_AMT2_AMT'',
     ''FK_UDF_AMT2_CY'', ''UDF_AMT3_AMT'', ''FK_UDF_AMT3_CY'', ''UDF_AMT4_AMT'',
     ''FK_UDF_AMT4_CY'', ''UDF_AMT5_AMT'', ''FK_UDF_AMT5_CY'', ''CLMS_TRIG_DT'',
     ''PC_NUM_OF_INSRD_OBJ'', ''HL_DOL_BEGIN'', ''HL_DOL_END'', ''PC_RUG_PROP_GRP'',
     ''PC_RUG_AUTOMATIC_PROT_ASS'', ''PC_RUG_TOP_LOCATION'', ''PC_ACCU_EXCL'',
     ''PC_PA_INHERIT_EXCL'', ''VERSION'', ''PID'', ''STATUS'', ''BATCH_NAME'',
     ''RECORD_UNIQUE_ID'', ''PRIM_SYS'', ''ACCESS_CODE'', ''BASE_COMPANY'', ''EC'',
     ''CURRENCY'', ''AC_REF_PERIOD'', ''BOOKING_PERIOD'', ''BOOKING_PERIOD2'',
     ''BOOKING_PERIOD3'', ''DTL_COMMENT'', ''WS_IDENTIFIER'', ''WS_TITLE'', ''UDF_TXT1'',
     ''UDF_TXT2'', ''UDF_TXT3'', ''POLICY_ID'', ''POLICY_TITLE'', ''POLICY_FORMER_ID'',
     ''REASON_FOR_MANPROT'', ''SECTION_EXT_ID'', ''SECTION_NAME'', ''SEC_CURRENCY'',
     ''MAIN_LIMIT_TYPE'', ''COUNTRY'', ''COUNTRY_GRP'', ''STATE'', ''STATE_GRP'',
     ''MCOB'', ''COB'', ''SCOB'', ''ADDL_CLASS_1'', ''ADDL_CLASS_2'', ''ADDL_CLASS_3'',
     ''ADDL_CLASS_4'', ''ADDL_CLASS_5'', ''ADDL_CLASS_6'', ''ADDL_CLASS_7'',
     ''ADDL_CLASS_8'', ''ADDL_CLASS_9'', ''ADDL_CLASS_10'', ''ADDL_CLASS_11'',
     ''REP_UNIT_1'', ''REP_UNIT_2'', ''REP_UNIT_3'', ''ORIGIN_OF_BUS'', ''PERIL'',
     ''CLAIM_ID'', ''HL_LOSS_ID'', ''HL_LOSS_NAME'', ''CAUSE_OF_LOSS'',
     ''CONSEQUENCE_OF_LOSS'', ''CLAIM_NAME'', ''RISKNAME'', ''CLAIM_UDF_TXT1'',
     ''CLAIM_UDF_TXT2'', ''CLAIM_UDF_TXT3'', ''PC_LIMIT_INFO1_TYPE'',
     ''PC_LIMIT_INFO2_TYPE'', ''PC_DECL_ID'', ''PC_DECL_NAME'', ''PC_DECL_CURR'',
     ''PC_INSURED_ID'', ''PC_INSURED_NAME'', ''PC_RUG'', ''PC_RUG_NAME'', ''PC_IO_ID'',
     ''PC_IO_NAME'', ''PC_IO_TYPE'', ''PC_CLAIM_BASIS'', ''LF_TRANS_TYPE'',
     ''LF_CALC_BASIS'', ''LF_SMOKER_STATUS'', ''LF_OCCUPATION_CLS'', ''LF_RISK_CLASS'',
     ''LF_DISABILITY_CLS'', ''LF_ESCALATION'', ''LF_IAB_IDENTIFIER'',
     ''LF_IO_PERSON_ID'', ''LF_IO_PERSON_NAME'', ''LF_IO_ALIAS'',
     ''LF_IO_BIRTH_COUNTRY'', ''LF_IO_NATIONALITY'', ''LF_IO_PERSON_STATUS'',
     ''LF_IO_GENDER'', ''REASON_FOR_CHANGE'', ''REA_LGT_CL_MANPT'', ''UDF_TXT4'',
     ''FRK_UDF_REF_DATA'', ''CLAIMS_TRIG'', ''CLAIMANT'', ''PC_ASSISTANCE_KEY'',
     ''CLAIM_STATUS'', ''PC_RUG_REASON_FOR_MANPROT'', ''CLAIM_SHORT_DESC'', ''FK_ORDER'',
     ''FK_LIGHT_DETAIL'']"

subsection \<open>Validation and projection\<close>

text \<open>
  \<open>repr\<close> of a list of strings, as the f-string of \<open>validate_csv_columns\<close> prints
  \<open>sorted(missing_columns)\<close>. (Exact for names without quotes, backslashes or control
  characters, as column names are.)
\<close>

definition repr_str :: "string \<Rightarrow> string" where
  "repr_str s = [CHR 0x27] @ s @ [CHR 0x27]"

definition repr_list :: "string list \<Rightarrow> string" where
  "repr_list xs = ''['' @ str_join '', '' (map repr_str xs) @ '']''"

definition missing_columns :: "string list \<Rightarrow> string list \<Rightarrow> string list" where
  "missing_columns columns required_columns =
     sort (remdups (filter (\<lambda>c. c \<notin> set columns) required_columns))"

definition validate_csv_columns :: "dataframe \<Rightarrow> string list \<Rightarrow> unit action" where
  "validate_csv_columns dataframe required_columns =
     (if missing_columns (df_columns dataframe) required_columns \<noteq> []
      then throw (ValueError (''CSV file is missing required columns: '' @
                    repr_list (missing_columns (df_columns dataframe) required_columns)))
      else ret ())"

text \<open>\<open>dataframe.replace({np.nan: None})\<close>.\<close>

fun replace_nan_cell :: "cell \<Rightarrow> cell" where
  "replace_nan_cell NaN = PyNone"
| "replace_nan_cell c = c"

definition replace_nan :: "dataframe \<Rightarrow> dataframe" where
  "replace_nan dataframe = dataframe\<lparr>df_rows := map (map replace_nan_cell) (df_rows dataframe)\<rparr>"

text \<open>
  \<open>tuple(row[col] for col in INSERT_COLUMN_ORDER)\<close>: each column is looked up by name
  in the row; a name the frame does not have raises \<open>KeyError\<close>.
\<close>

fun build_data :: "string list \<Rightarrow> row \<Rightarrow> string list \<Rightarrow> exn + row" where
  "build_data columns row [] = Inr []"
| "build_data columns row (col # cols) =
     (case map_of (zip columns row) col of
        None \<Rightarrow> Inl (KeyError col)
      | Some v \<Rightarrow> (case build_data columns row cols of
                     Inl e \<Rightarrow> Inl e
                   | Inr vs \<Rightarrow> Inr (v # vs)))"

subsection \<open>DatabaseProcessor\<close>

text \<open>
  \<open>execute_insert\<close>: the statement is executed; a \<open>pyodbc.Error\<close> is caught and its
  sanitized message returned, any other exception propagates. An accepted statement
  adds its row to the open transaction.
\<close>

definition execute_insert :: "env \<Rightarrow> row \<Rightarrow> string option action" where
  "execute_insert env data =
     try_except
       (and_then (perform env (DbExecute data)) (\<lambda>_.
        and_then (modify (\<lambda>w. w\<lparr>db_pending := db_pending w @ [data]\<rparr>)) (\<lambda>_.
        ret None)))
       (\<lambda>error. case error of
           PyodbcError m \<Rightarrow> ret (Some (sanitize env m))
         | _ \<Rightarrow> throw error)"

text \<open>
  The loop of \<open>process_file\<close> over \<open>dataframe.iterrows()\<close>; the pair holds
  \<open>successful_records\<close> and \<open>failed_records\<close>.
\<close>

fun insert_rows :: "env \<Rightarrow> string list \<Rightarrow> string list \<Rightarrow> table \<Rightarrow> table \<times> table
    \<Rightarrow> (table \<times> table) action" where
  "insert_rows env insert_order columns [] (successful_records, failed_records) =
     ret (successful_records, failed_records)"
| "insert_rows env insert_order columns (row # rest) (successful_records, failed_records) =
     (case build_data columns row insert_order of
        Inl e \<Rightarrow> throw e
      | Inr data \<Rightarrow>
          and_then (execute_insert env data) (\<lambda>error.
            case error of
              Some msg \<Rightarrow> insert_rows env insert_order columns rest
                            (successful_records, failed_records @ [row @ [Text msg]])
            | None \<Rightarrow> insert_rows env insert_order columns rest
                            (successful_records @ [row], failed_records)))"

text \<open>
  \<open>pyodbc.connect\<close> opens a connection with a fresh transaction; \<open>connection.commit()\<close>
  makes the rows of the transaction durable. (Leaving the \<open>with\<close> block, the connection
  ends the transaction once more: a commit with nothing pending after
  \<open>connection.commit()\<close>, a rollback of what is pending when the block raises. The model
  leaves this step out; the committed rows are the same.)
\<close>

definition db_connect :: "env \<Rightarrow> unit action" where
  "db_connect env =
     and_then (perform env DbConnect) (\<lambda>_. modify (\<lambda>w. w\<lparr>db_pending := []\<rparr>))"

definition db_commit :: "env \<Rightarrow> unit action" where
  "db_commit env =
     and_then (perform env DbCommit) (\<lambda>_.
       modify (\<lambda>w. w\<lparr>db_committed := db_committed w @ db_pending w, db_pending := []\<rparr>))"

text \<open>
  \<open>pd.DataFrame(records)\<close> of a list of rows: a row shorter than the longest one is
  filled up with absent values, which \<open>to_csv\<close> writes as empty fields; the frame has
  as many columns as the longest row has cells.
\<close>

definition frame_width :: "table \<Rightarrow> nat" where
  "frame_width records = foldr (\<lambda>row n. max (length row) n) records 0"

definition pad_table :: "table \<Rightarrow> table" where
  "pad_table records =
     map (\<lambda>row. row @ replicate (frame_width records - length row) PyNone) records"

text \<open>
  \<open>_write_error_file\<close> and \<open>_write_success_file\<close>. An empty list writes nothing.
  Otherwise the header row is inserted at the front of the list (in place, so the
  caller's list has it too) and the frame made of the list is written to the file.
  The result is the list as the caller sees it afterwards.
\<close>

definition write_local :: "env \<Rightarrow> lpath \<Rightarrow> table \<Rightarrow> unit action" where
  "write_local env path t =
     and_then (perform env (LocalWrite path)) (\<lambda>_.
       modify (\<lambda>w. w\<lparr>localfs := (localfs w)(path \<mapsto> Artifact t)\<rparr>))"

definition write_error_file :: "env \<Rightarrow> string list \<Rightarrow> string \<Rightarrow> table \<Rightarrow> table action" where
  "write_error_file env display_columns original_filename records =
     (if records = [] then ret records
      else
        (let error_path = (LocalError, ced_error_filename original_filename);
             records' = map Text (display_columns @ [''ERROR'']) # records
         in and_then (write_local env error_path (pad_table records')) (\<lambda>_. ret records')))"

definition write_success_file :: "env \<Rightarrow> string list \<Rightarrow> string \<Rightarrow> table \<Rightarrow> table action" where
  "write_success_file env display_columns original_filename records =
     (if records = [] then ret records
      else
        (let success_path = (LocalProcessed, ced_success_filename original_filename);
             records' = map Text display_columns # records
         in and_then (write_local env success_path (pad_table records')) (\<lambda>_. ret records')))"

text \<open>
  \<open>process_file\<close>, with the two column lists as parameters; \<open>process_file\<close> below
  passes the module's constants. The handler \<open>except pyodbc.Error\<close> around the
  connection logs and re-raises, so it changes nothing here.
\<close>

definition connect_and_insert :: "env \<Rightarrow> string list \<Rightarrow> dataframe \<Rightarrow> (table \<times> table) action" where
  "connect_and_insert env insert_order dataframe =
     and_then (db_connect env) (\<lambda>_.
     and_then (insert_rows env insert_order (df_columns dataframe) (df_rows dataframe) ([], [])) (\<lambda>groups.
     and_then (db_commit env) (\<lambda>_.
     ret groups)))"

definition process_file_with :: "string list \<Rightarrow> string list \<Rightarrow> env \<Rightarrow> lpath \<Rightarrow> bool action" where
  "process_file_with insert_order display_columns env file_path =
     (case read_csv env file_path of
        Inl e \<Rightarrow> throw e
      | Inr dataframe0 \<Rightarrow>
          and_then (validate_csv_columns dataframe0 insert_order) (\<lambda>_.
          and_then (connect_and_insert env insert_order (replace_nan dataframe0)) (\<lambda>(successful_records, failed_records).
          and_then (write_error_file env display_columns (path_name file_path) failed_records) (\<lambda>failed_records'.
          and_then (write_success_file env display_columns (path_name file_path) successful_records) (\<lambda>_.
          ret (length failed_records' = 0))))))"

definition process_file :: "env \<Rightarrow> lpath \<Rightarrow> bool action" where
  "process_file = process_file_with INSERT_COLUMN_ORDER COLUMNS_TO_USE"

subsection \<open>S3Manager\<close>

text \<open>
  Each method logs a \<open>ClientError\<close> and re-raises it, so the handlers change nothing
  here. \<open>s3_listing\<close> gives each key by what follows the pending prefix. The prefix ends
  in a slash, so a whole key ends in a slash when the rest is empty (the entry of the
  folder itself) or ends in a slash: \<open>list_pending_files\<close> skips both.
\<close>

definition ends_with_slash :: "string \<Rightarrow> bool" where
  "ends_with_slash key = (key \<noteq> [] \<and> last key = CHR ''/'')"

definition list_pending_files :: "env \<Rightarrow> s3key list action" where
  "list_pending_files env =
     and_then (perform env S3List) (\<lambda>_.
       ret (map (\<lambda>n. (S3Pending, n))
              (filter (\<lambda>key. key \<noteq> [] \<and> \<not> ends_with_slash key) (s3_listing env))))"

definition download_file :: "env \<Rightarrow> s3key \<Rightarrow> lpath \<Rightarrow> unit action" where
  "download_file env s3_key local_path =
     and_then (perform env (S3Download s3_key local_path)) (\<lambda>_.
       modify (\<lambda>w. w\<lparr>localfs := (localfs w)(local_path \<mapsto> Original)\<rparr>))"

definition upload_file :: "env \<Rightarrow> lpath \<Rightarrow> s3key \<Rightarrow> unit action" where
  "upload_file env local_path s3_key = perform env (S3Upload local_path s3_key)"

definition delete_file :: "env \<Rightarrow> s3key \<Rightarrow> unit action" where
  "delete_file env s3_key = perform env (S3Delete s3_key)"

text \<open>
  The loop of \<open>download_all_pending_files\<close>: \<open>filename = Path(s3_key).name\<close>, and the
  file is downloaded to \<open>local_pending_dir / filename\<close>.
\<close>

fun download_each :: "env \<Rightarrow> s3key list \<Rightarrow> (lpath \<times> s3key) list action" where
  "download_each env [] = ret []"
| "download_each env (s3_key # keys) =
     (let filename = base_name (snd s3_key);
          local_path = (LocalPending, filename)
      in and_then (download_file env s3_key local_path) (\<lambda>_.
         and_then (download_each env keys) (\<lambda>downloaded.
         ret ((local_path, s3_key) # downloaded))))"

definition download_all_pending_files :: "env \<Rightarrow> (lpath \<times> s3key) list action" where
  "download_all_pending_files env =
     and_then (list_pending_files env) (\<lambda>pending_files.
       if pending_files = [] then ret []
       else and_then (perform env (LocalMkdir LocalPending)) (\<lambda>_.
            download_each env pending_files))"

definition upload_result_file :: "env \<Rightarrow> lpath \<Rightarrow> bool \<Rightarrow> unit action" where
  "upload_result_file env local_path is_error =
     upload_file env local_path ((if is_error then S3Error else S3Processed), path_name local_path)"

subsection \<open>main\<close>

text \<open>\<open>Path.unlink()\<close>: a missing file raises \<open>FileNotFoundError\<close>, an \<open>OSError\<close>.\<close>

definition unlink :: "env \<Rightarrow> lpath \<Rightarrow> unit action" where
  "unlink env path w =
     (if file_exists path w
      then and_then (perform env (LocalDelete path)) (\<lambda>_.
             modify (\<lambda>w. w\<lparr>localfs := (localfs w)(path := None)\<rparr>)) w
      else (Inl (OSError ''No such file or directory''),
            w\<lparr>trace := trace w @ [(LocalDelete path, Some (OSError ''No such file or directory''))]\<rparr>))"

definition when_exists :: "lpath \<Rightarrow> unit action \<Rightarrow> unit action" where
  "when_exists path m w = (if file_exists path w then m w else ret () w)"

text \<open>The body of the \<open>try\<close> inside the loop of \<open>main\<close>, for one downloaded file.\<close>

definition handle_file_with :: "string list \<Rightarrow> string list \<Rightarrow> env \<Rightarrow> lpath \<Rightarrow> s3key \<Rightarrow> bool action" where
  "handle_file_with insert_order display_columns env local_path s3_key =
     and_then (process_file_with insert_order display_columns env local_path) (\<lambda>all_records_succeeded.
     (let success_path = (LocalProcessed, ced_success_filename (path_name local_path));
          error_path = (LocalError, ced_error_filename (path_name local_path))
      in and_then (when_exists success_path (upload_result_file env success_path False)) (\<lambda>_.
         and_then (when_exists error_path (upload_result_file env error_path True)) (\<lambda>_.
         and_then (delete_file env s3_key) (\<lambda>_.
         and_then (unlink env local_path) (\<lambda>_.
         ret all_records_succeeded))))))"

text \<open>The four \<open>except\<close> clauses of the loop, each ending in \<open>continue\<close>.\<close>

fun caught_per_file :: "exn \<Rightarrow> bool" where
  "caught_per_file (ValueError m) = True"
| "caught_per_file (PyodbcError m) = True"
| "caught_per_file (ClientError m) = True"
| "caught_per_file (OSError m) = True"
| "caught_per_file e = False"

definition log_file :: "string \<Rightarrow> file_status \<Rightarrow> unit action" where
  "log_file name st = modify (\<lambda>w. w\<lparr>report := report w @ [(name, st)]\<rparr>)"

fun process_files_with :: "string list \<Rightarrow> string list \<Rightarrow> env \<Rightarrow> (lpath \<times> s3key) list \<Rightarrow> unit action" where
  "process_files_with insert_order display_columns env [] = ret ()"
| "process_files_with insert_order display_columns env ((local_path, s3_key) # rest) =
     and_then
       (try_except
          (and_then (handle_file_with insert_order display_columns env local_path s3_key) (\<lambda>_.
             log_file (path_name local_path) Completed))
          (\<lambda>e. if caught_per_file e then log_file (path_name local_path) (Failed e) else throw e))
       (\<lambda>_. process_files_with insert_order display_columns env rest)"

text \<open>
  \<open>main\<close>: the outer handler \<open>except Exception\<close> logs the error and lets the function
  return, so \<open>main\<close> itself never raises.
\<close>

datatype run_status = NoFiles | Finished | FinishedWithError exn

definition main_with :: "string list \<Rightarrow> string list \<Rightarrow> env \<Rightarrow> world \<Rightarrow> run_status \<times> world" where
  "main_with insert_order display_columns env w =
     (case and_then (download_all_pending_files env) (\<lambda>downloaded_files.
             if downloaded_files = [] then ret NoFiles
             else and_then (process_files_with insert_order display_columns env downloaded_files) (\<lambda>_.
                  ret Finished)) w of
        (Inr st, w') \<Rightarrow> (st, w')
      | (Inl error, w') \<Rightarrow> (FinishedWithError error, w'))"

definition main :: "env \<Rightarrow> world \<Rightarrow> run_status \<times> world" where
  "main = main_with INSERT_COLUMN_ORDER COLUMNS_TO_USE"

section \<open>dataXRT.py: the web-service pipeline\<close>

subsection \<open>S3Handler and file operations\<close>

text \<open>\<open>except ClientError as error: raise S3OperationError(msg) from error\<close>.\<close>

definition client_error_as :: "string \<Rightarrow> 'a action \<Rightarrow> 'a action" where
  "client_error_as msg m =
     try_except m (\<lambda>error. case error of
                       ClientError _ \<Rightarrow> throw (S3OperationError msg)
                     | _ \<Rightarrow> throw error)"

text \<open>\<open>except Exception as error: raise FileProcessingError(msg) from error\<close>.\<close>

definition any_error_as :: "string \<Rightarrow> 'a action \<Rightarrow> 'a action" where
  "any_error_as msg m = try_except m (\<lambda>error. throw (FileProcessingError msg))"

text \<open>
  \<open>list_files\<close>: folder entries and empty names are skipped. The message of the
  \<open>S3OperationError\<close> names the prefix, which the model does not spell out.
\<close>

definition xrt_list_files :: "env \<Rightarrow> string list action" where
  "xrt_list_files env =
     client_error_as ''Failed to list files''
       (and_then (perform env S3List) (\<lambda>_.
          ret (filter (\<lambda>key. key \<noteq> [] \<and> \<not> ends_with_slash key) (s3_listing env))))"

definition xrt_download_file :: "env \<Rightarrow> s3dir \<Rightarrow> string \<Rightarrow> ldir \<Rightarrow> lpath action" where
  "xrt_download_file env s3_folder filename local_dir =
     client_error_as (''Failed to download '' @ filename)
       (and_then (perform env (LocalMkdir local_dir)) (\<lambda>_.
        and_then (download_file env (s3_folder, filename) (local_dir, filename)) (\<lambda>_.
        ret (local_dir, filename))))"

definition xrt_upload_file :: "env \<Rightarrow> lpath \<Rightarrow> s3dir \<Rightarrow> s3key action" where
  "xrt_upload_file env local_path s3_folder =
     client_error_as (''Failed to upload '' @ path_name local_path)
       (and_then (perform env (S3Upload local_path (s3_folder, path_name local_path))) (\<lambda>_.
        ret (s3_folder, path_name local_path)))"

definition xrt_delete_file :: "env \<Rightarrow> s3dir \<Rightarrow> string \<Rightarrow> unit action" where
  "xrt_delete_file env s3_folder filename =
     client_error_as (''Failed to delete '' @ filename @ '' from S3'')
       (perform env (S3Delete (s3_folder, filename)))"

text \<open>\<open>move_file\<close>: a source that does not exist is not moved and \<open>None\<close> is returned.\<close>

definition move_file :: "env \<Rightarrow> lpath \<Rightarrow> ldir \<Rightarrow> lpath option action" where
  "move_file env source_path dest_dir =
     any_error_as (''Failed to move '' @ path_name source_path)
       (and_then (perform env (LocalMkdir dest_dir)) (\<lambda>_.
        (let dest_path = (dest_dir, path_name source_path)
         in (\<lambda>w. if file_exists source_path w
                  then and_then (perform env (LocalMove source_path dest_path)) (\<lambda>_.
                       and_then (modify (\<lambda>w. w\<lparr>localfs := (localfs w)(dest_path := localfs w source_path,
                                                                       source_path := None)\<rparr>)) (\<lambda>_.
                       ret (Some dest_path))) w
                  else ret None w))))"

text \<open>
  \<open>delete_local_file\<close>: only an existing file is unlinked. (The message of the
  source prints the whole path; the model keeps the file name.)
\<close>

definition delete_local_file :: "env \<Rightarrow> lpath \<Rightarrow> unit action" where
  "delete_local_file env file_path =
     any_error_as (''Failed to delete '' @ snd file_path)
       (when_exists file_path (unlink env file_path))"

subsection \<open>Web service\<close>

text \<open>
  \<open>call_exchange_rate_service\<close>: \<open>None\<close> on success, the explanation of a SOAP fault,
  the fixed message on a timeout or connection error. Any other exception, and a
  fault whose explanation cannot be read, leave the function as an exception.
\<close>

definition connection_failed_message :: string where
  "connection_failed_message = ''SICS server connection attempt has failed. Please try again.''"

definition call_exchange_rate_service :: "env \<Rightarrow> string \<Rightarrow> string option action" where
  "call_exchange_rate_service env csv_record =
     try_except
       (and_then (perform env (WsCall csv_record)) (\<lambda>_. ret None))
       (\<lambda>error. case error of
           ZeepFault (Some explanation) \<Rightarrow> ret (Some explanation)
         | ZeepFault None \<Rightarrow> throw (OtherException ''fault without explanation'')
         | RequestsTimeout \<Rightarrow> ret (Some connection_failed_message)
         | RequestsConnectionError \<Rightarrow> ret (Some connection_failed_message)
         | _ \<Rightarrow> throw error)"

subsection \<open>Processing one file\<close>

record processing_result =
  success_count :: nat
  error_count :: nat
  success_file :: "lpath option"
  error_file :: "lpath option"

text \<open>
  \<open>_save_and_upload_results\<close>: write the frame made of the records to the pending
  directory, upload, move.
\<close>

definition save_and_upload_results ::
    "env \<Rightarrow> table \<Rightarrow> string \<Rightarrow> string \<Rightarrow> ldir \<Rightarrow> ldir \<Rightarrow> s3dir \<Rightarrow> lpath option action" where
  "save_and_upload_results env records original_filename suffix local_pending_dir local_dest_dir s3_folder =
     (let output_path = (local_pending_dir, xrt_output_filename original_filename suffix)
      in and_then (write_local env output_path (pad_table records)) (\<lambda>_.
         and_then (xrt_upload_file env output_path s3_folder) (\<lambda>_.
         move_file env output_path local_dest_dir)))"

text \<open>
  The loop over \<open>df.iterrows()\<close>; the pair holds \<open>success_records\<close> and
  \<open>error_records\<close>. \<open>if error_message:\<close> is true for a non-empty string.
\<close>

definition error_reason :: "string \<Rightarrow> string" where
  "error_reason error_message = hd (str_split ''. '' error_message)"

fun truthy :: "string option \<Rightarrow> bool" where
  "truthy None = False"
| "truthy (Some s) = (s \<noteq> [])"

fun submit_rows :: "env \<Rightarrow> table \<Rightarrow> table \<times> table \<Rightarrow> (table \<times> table) action" where
  "submit_rows env [] (success_records, error_records) = ret (success_records, error_records)"
| "submit_rows env (row # rest) (success_records, error_records) =
     (let csv_record = str_join '','' (map py_str row)
      in and_then (call_exchange_rate_service env csv_record) (\<lambda>error_message.
           if truthy error_message
           then submit_rows env rest
                  (success_records, error_records @ [row @ [Text (error_reason (the error_message))]])
           else submit_rows env rest (success_records @ [row], error_records)))"

text \<open>
  One of the two blocks \<open>if records: result.count = len(records); result.file =
  _save_and_upload_results(...)\<close>; the count and the file keep their defaults
  \<open>0\<close> and \<open>None\<close> when the list is empty.
\<close>

definition save_group ::
    "env \<Rightarrow> table \<Rightarrow> string \<Rightarrow> string \<Rightarrow> ldir \<Rightarrow> s3dir \<Rightarrow> (nat \<times> lpath option) action" where
  "save_group env records original_filename suffix local_dest_dir s3_folder =
     (if records \<noteq> []
      then and_then (save_and_upload_results env records original_filename suffix
                       LocalPending local_dest_dir s3_folder) (\<lambda>f.
           ret (length records, f))
      else ret (0, None))"

definition process_exchange_rate_file :: "env \<Rightarrow> lpath \<Rightarrow> processing_result action" where
  "process_exchange_rate_file env file_path =
     any_error_as (''Failed to process '' @ path_name file_path)
       (case read_csv env file_path of
          Inl e \<Rightarrow> throw e
        | Inr df \<Rightarrow>
            and_then (submit_rows env (df_rows df) ([], [])) (\<lambda>(success_records, error_records).
            and_then (save_group env error_records (path_name file_path) ''_error'' LocalError S3Error) (\<lambda>(n_err, f_err).
            and_then (save_group env success_records (path_name file_path) ''_ok'' LocalProcessed S3Processed) (\<lambda>(n_ok, f_ok).
            ret \<lparr>success_count = n_ok, error_count = n_err, success_file = f_ok, error_file = f_err\<rparr>))))"

subsection \<open>run_exchange_rate_pipeline\<close>

fun xrt_download_each :: "env \<Rightarrow> string list \<Rightarrow> (string \<times> lpath) list action" where
  "xrt_download_each env [] = ret []"
| "xrt_download_each env (filename # files) =
     and_then (xrt_download_file env S3Pending filename LocalPending) (\<lambda>local_path.
     and_then (xrt_download_each env files) (\<lambda>downloaded.
     ret ((filename, local_path) # downloaded)))"

text \<open>
  The body of the loop of step 3, for one downloaded file, and the loop. There is no
  handler inside the loop: an exception raised for one file leaves the loop.
\<close>

definition xrt_handle_file :: "env \<Rightarrow> string \<Rightarrow> lpath \<Rightarrow> unit action" where
  "xrt_handle_file env filename local_path =
     and_then (process_exchange_rate_file env local_path) (\<lambda>result.
     and_then (log_file filename Completed) (\<lambda>_.
     and_then (xrt_delete_file env S3Pending filename) (\<lambda>_.
     delete_local_file env local_path)))"

fun xrt_process_files :: "env \<Rightarrow> (string \<times> lpath) list \<Rightarrow> unit action" where
  "xrt_process_files env [] = ret ()"
| "xrt_process_files env ((filename, local_path) # rest) =
     and_then (xrt_handle_file env filename local_path) (\<lambda>_.
     xrt_process_files env rest)"

text \<open>
  \<open>run_exchange_rate_pipeline\<close>: the handler \<open>except Exception\<close> around the whole
  body logs the error and re-raises it.
\<close>

definition run_exchange_rate_pipeline :: "env \<Rightarrow> unit action" where
  "run_exchange_rate_pipeline env =
     try_except
       (and_then (xrt_list_files env) (\<lambda>files_to_process.
          if files_to_process = [] then ret ()
          else and_then (xrt_download_each env files_to_process) (\<lambda>downloaded_files.
               xrt_process_files env downloaded_files)))
       (\<lambda>error. throw error)"

section \<open>Vocabulary of the properties\<close>

text \<open>
  A split of a list by one flag per position: the elements whose flag is set, and
  the others, each in the order of the list. Every position goes to exactly one side.
\<close>

definition picked :: "'a list \<Rightarrow> bool list \<Rightarrow> 'a list" where
  "picked xs flags = map fst (filter snd (zip xs flags))"

definition unpicked :: "'a list \<Rightarrow> bool list \<Rightarrow> 'a list" where
  "unpicked xs flags = map fst (filter (\<lambda>p. \<not> snd p) (zip xs flags))"

text \<open>
  Where a separator occurs in a string, the position of its first occurrence (as
  \<open>str.find\<close> computes it), and the string cut off at that position, or whole
  when the separator does not occur.
\<close>

definition occurs_at :: "string \<Rightarrow> nat \<Rightarrow> string \<Rightarrow> bool" where
  "occurs_at sep i s = (i + length sep \<le> length s \<and> take (length sep) (drop i s) = sep)"

fun first_occurrence :: "string \<Rightarrow> string \<Rightarrow> nat option" where
  "first_occurrence sep [] = (if sep = [] then Some 0 else None)"
| "first_occurrence sep (c # cs) =
     (if take (length sep) (c # cs) = sep then Some 0
      else map_option Suc (first_occurrence sep cs))"

definition truncate_at_first :: "string \<Rightarrow> string \<Rightarrow> string" where
  "truncate_at_first sep s = (case first_occurrence sep s of None \<Rightarrow> s | Some i \<Rightarrow> take i s)"

text \<open>
  What \<open>call_exchange_rate_service\<close> returns for the records of a batch, in order, up
  to the first call that raises; and the failure group the claim describes: the
  records with a non-empty message, each with its message cut at the first
  \<open>'. '\<close>.
\<close>

fun ws_replies :: "env \<Rightarrow> table \<Rightarrow> world \<Rightarrow> string option list" where
  "ws_replies env [] w = []"
| "ws_replies env (row # rest) w =
     (case call_exchange_rate_service env (str_join '','' (map py_str row)) w of
        (Inl e, w') \<Rightarrow> []
      | (Inr error_message, w') \<Rightarrow> error_message # ws_replies env rest w')"

definition truncated_failures :: "table \<Rightarrow> string option list \<Rightarrow> table" where
  "truncated_failures batch replies =
     map (\<lambda>(row, m). row @ [Text (truncate_at_first ''. '' (the m))])
       (filter (\<lambda>(row, m). truthy m) (zip batch replies))"

text \<open>
  Kinds of call: uploads to the object store, deletions (of an object or of a local
  file), and submissions of a record to the sink.
\<close>

fun is_upload :: "event \<Rightarrow> bool" where
  "is_upload (S3Upload p k) = True"
| "is_upload ev = False"

fun is_delete :: "event \<Rightarrow> bool" where
  "is_delete (S3Delete k) = True"
| "is_delete (LocalDelete p) = True"
| "is_delete ev = False"

fun is_sink_call :: "event \<Rightarrow> bool" where
  "is_sink_call (DbExecute d) = True"
| "is_sink_call (WsCall r) = True"
| "is_sink_call ev = False"

abbreviation quiet :: "entry \<Rightarrow> bool" where
  "quiet e \<equiv> \<not> is_delete (fst e) \<and> \<not> is_upload (fst e)"

abbreviation anything :: "entry \<Rightarrow> bool" where
  "anything e \<equiv> True"

abbreviation no_delete :: "entry \<Rightarrow> bool" where
  "no_delete e \<equiv> \<not> is_delete (fst e)"

abbreviation upload_done :: "entry \<Rightarrow> bool" where
  "upload_done e \<equiv> is_upload (fst e) \<longrightarrow> snd e = None"

text \<open>
  \<open>adds P Q m\<close>: whatever \<open>m\<close> does, it only appends entries to the trace, each of them
  satisfies \<open>P\<close>, and each satisfies \<open>Q\<close> when \<open>m\<close> returns without raising.
\<close>

definition adds :: "(entry \<Rightarrow> bool) \<Rightarrow> (entry \<Rightarrow> bool) \<Rightarrow> 'a action \<Rightarrow> bool" where
  "adds P Q m = (\<forall>w r w'. m w = (r, w') \<longrightarrow>
      (\<exists>ext. trace w' = trace w @ ext \<and> list_all P ext \<and> ((\<exists>x. r = Inr x) \<longrightarrow> list_all Q ext)))"

text \<open>
  The end of the handling of one file: nothing, or the deletion of the original
  object (completed or not), or the completed deletion of the object followed by the
  deletion of the local copy.
\<close>

definition delete_phase :: "s3key \<Rightarrow> lpath \<Rightarrow> entry list \<Rightarrow> bool" where
  "delete_phase k p D =
     (D = [] \<or> (\<exists>x. D = [(S3Delete k, x)]) \<or> (\<exists>r. D = [(S3Delete k, None), (LocalDelete p, r)]))"

text \<open>An entry that is not a statement with a \<open>nan\<close> among its values.\<close>

definition clean_statement :: "entry \<Rightarrow> bool" where
  "clean_statement en = (case fst en of DbExecute data \<Rightarrow> NaN \<notin> set data | _ \<Rightarrow> True)"

text \<open>\<open>keeps f m\<close>: whatever \<open>m\<close> does, it leaves the component \<open>f\<close> of the world as it was.\<close>

definition keeps :: "(world \<Rightarrow> 'b) \<Rightarrow> 'a action \<Rightarrow> bool" where
  "keeps f m = (\<forall>w r w'. m w = (r, w') \<longrightarrow> f w' = f w)"

text \<open>
  The exception classes that the two submit functions catch: \<open>execute_insert\<close> has
  \<open>except pyodbc.Error\<close>; \<open>call_exchange_rate_service\<close> has \<open>except
  zeep.exceptions.Fault\<close> and \<open>except (requests.exceptions.Timeout,
  requests.exceptions.ConnectionError)\<close>.
\<close>

fun caught_by_execute_insert :: "exn \<Rightarrow> bool" where
  "caught_by_execute_insert (PyodbcError m) = True"
| "caught_by_execute_insert e = False"

fun caught_by_call_exchange_rate_service :: "exn \<Rightarrow> bool" where
  "caught_by_call_exchange_rate_service (ZeepFault d) = True"
| "caught_by_call_exchange_rate_service RequestsTimeout = True"
| "caught_by_call_exchange_rate_service RequestsConnectionError = True"
| "caught_by_call_exchange_rate_service e = False"

text \<open>
  \<open>passes_on m\<close>: whatever \<open>m\<close> does, it only appends entries to the trace, and when one
  of them is a statement that raised an exception that \<open>execute_insert\<close> does not
  catch, \<open>m\<close> raises that exception.
\<close>

definition passes_on :: "'a action \<Rightarrow> bool" where
  "passes_on m = (\<forall>w r w'. m w = (r, w') \<longrightarrow>
      (\<exists>ext. trace w' = trace w @ ext \<and>
         (\<forall>d e. (DbExecute d, Some e) \<in> set ext \<and> \<not> caught_by_execute_insert e \<longrightarrow> r = Inl e)))"

text \<open>
  The statements a run had accepted, in the order of the calls, and the values of the
  statement for a row of a frame with the given columns.
\<close>

fun accepted_statements :: "entry list \<Rightarrow> table" where
  "accepted_statements [] = []"
| "accepted_statements ((DbExecute data, None) # entries) = data # accepted_statements entries"
| "accepted_statements (en # entries) = accepted_statements entries"


subsection \<open>A small run\<close>

text \<open>
  The scenario of the specification: a file \<open>ID;AMOUNT\<close> with the rows \<open>1;100\<close> and
  \<open>2;BAD\<close>, and a sink that rejects \<open>BAD\<close>. The database rejects the statement with
  a \<open>pyodbc.Error\<close>, the web service with a SOAP fault. Three more records meet a
  timeout, a refused connection, and an HTTP error that \<open>requests\<close> raises as
  \<open>HTTPError\<close> (neither a \<open>Timeout\<close> nor a \<open>ConnectionError\<close>); one more meets a fault
  whose explanation cannot be read. The statement for the amount \<open>ODD\<close> raises a
  \<open>TypeError\<close>, which is not a \<open>pyodbc.Error\<close>. The object store refuses the upload of
  \<open>full_ok.csv\<close>.
\<close>

definition scenario_rows :: table where
  "scenario_rows = [[Text ''1'', Text ''100''], [Text ''2'', Text ''BAD'']]"

definition scenario_fault :: "entry list \<Rightarrow> event \<Rightarrow> exn option" where
  "scenario_fault history ev =
     (case ev of
        DbExecute data \<Rightarrow>
          if Text ''BAD'' \<in> set data then Some (PyodbcError ''invalid amount'')
          else if Text ''ODD'' \<in> set data then Some (OtherException ''TypeError: bad parameter'')
          else None
      | WsCall csv_record \<Rightarrow>
          if csv_record = ''2,BAD'' then Some (ZeepFault (Some ''invalid amount. Check the rate.''))
          else if csv_record = ''ID,AMOUNT'' then Some (ZeepFault (Some ''not a rate''))
          else if csv_record = ''3,DOWN'' then Some RequestsTimeout
          else if csv_record = ''4,REFUSED'' then Some RequestsConnectionError
          else if csv_record = ''5,DENIED'' then Some (OtherException ''HTTPError: 401 Client Error'')
          else if csv_record = ''6,VAGUE'' then Some (ZeepFault None)
          else None
      | S3Upload p k \<Rightarrow>
          if k = (S3Processed, ''full_ok.csv'') then Some (ClientError ''AccessDenied'') else None
      | _ \<Rightarrow> None)"

text \<open>
  What reading gives for the files of the scenario: \<open>short.csv\<close> has the header \<open>ID\<close>
  only, \<open>gaps.csv\<close> has an empty \<open>ID\<close>, \<open>denied.csv\<close> holds the record that meets the
  HTTP error. \<open>headed.csv\<close> is the scenario's file as \<open>dataXRT.py\<close> reads it, with
  \<open>header=None\<close>: the header line is the first row; \<open>idonly.csv\<close> is a file with the
  header line \<open>ID\<close> and the line \<open>1\<close>, read in the same way, and so is \<open>blank.csv\<close>,
  which has the one line \<open>,7\<close> with an empty first field; \<open>good.csv\<close> has the one
  row \<open>1;100\<close>; \<open>wide.csv\<close> has a third column \<open>NOTE\<close> and the one row \<open>2;BAD;late\<close>;
  \<open>odd.csv\<close> has the one row \<open>3;ODD\<close>.
  Any other name is the scenario's file, its header taken off.
\<close>

definition scenario_read_csv :: "lpath \<Rightarrow> exn + dataframe" where
  "scenario_read_csv p =
     (if snd p = ''short.csv''
      then Inr \<lparr>df_columns = [''ID''], df_rows = [[Text ''1'']]\<rparr>
      else if snd p = ''gaps.csv''
      then Inr \<lparr>df_columns = [''ID'', ''AMOUNT''], df_rows = [[NaN, Text ''7'']]\<rparr>
      else if snd p = ''denied.csv''
      then Inr \<lparr>df_columns = [''ID'', ''AMOUNT''], df_rows = [[Text ''5'', Text ''DENIED'']]\<rparr>
      else if snd p = ''headed.csv''
      then Inr \<lparr>df_columns = [''0'', ''1''],
                df_rows = [[Text ''ID'', Text ''AMOUNT''], [Text ''1'', Text ''100'']]\<rparr>
      else if snd p = ''idonly.csv''
      then Inr \<lparr>df_columns = [''0''], df_rows = [[Text ''ID''], [Text ''1'']]\<rparr>
      else if snd p = ''blank.csv''
      then Inr \<lparr>df_columns = [''0'', ''1''], df_rows = [[NaN, Text ''7'']]\<rparr>
      else if snd p = ''good.csv''
      then Inr \<lparr>df_columns = [''ID'', ''AMOUNT''], df_rows = [[Text ''1'', Text ''100'']]\<rparr>
      else if snd p = ''wide.csv''
      then Inr \<lparr>df_columns = [''ID'', ''AMOUNT'', ''NOTE''],
                df_rows = [[Text ''2'', Text ''BAD'', Text ''late'']]\<rparr>
      else if snd p = ''odd.csv''
      then Inr \<lparr>df_columns = [''ID'', ''AMOUNT''], df_rows = [[Text ''3'', Text ''ODD'']]\<rparr>
      else Inr \<lparr>df_columns = [''ID'', ''AMOUNT''], df_rows = scenario_rows\<rparr>)"

definition scenario_env :: env where
  "scenario_env =
     \<lparr>fault = scenario_fault,
      read_csv = scenario_read_csv,
      s3_listing = [''short.csv'', ''rates.csv''],
      sanitize = (\<lambda>m. m)\<rparr>"

definition empty_world :: world where
  "empty_world = \<lparr>trace = [], localfs = (\<lambda>p. None), db_pending = [], db_committed = [], report = []\<rparr>"

text \<open>The world after the download of a file into the local pending directory.\<close>

definition downloaded :: "string \<Rightarrow> world" where
  "downloaded name =
     empty_world\<lparr>localfs := (\<lambda>p. if p = (LocalPending, name) then Some Original else None)\<rparr>"

text \<open>
  The calls made while one file of the scenario is handled, by the loop body of
  \<open>dataCED.py\<close> and by that of \<open>dataXRT.py\<close>, starting from the world in which the
  file has been downloaded.
\<close>

definition ced_run :: "string \<Rightarrow> entry list" where
  "ced_run name =
     new_entries (downloaded name)
       (snd (handle_file_with [''AMOUNT'', ''ID''] [''ID'', ''AMOUNT''] scenario_env
               (LocalPending, name) (S3Pending, name) (downloaded name)))"

definition xrt_run :: "string \<Rightarrow> entry list" where
  "xrt_run name =
     new_entries (downloaded name)
       (snd (xrt_handle_file scenario_env name (LocalPending, name) (downloaded name)))"

text \<open>
  The world of \<open>dataCED.py\<close> after its download step, the files it has downloaded,
  and the message of the \<open>ValueError\<close> for \<open>short.csv\<close>:
  \<open>CSV file is missing required columns: ['AMOUNT']\<close>.
\<close>

definition after_download :: world where
  "after_download = snd (download_all_pending_files scenario_env empty_world)"

definition scenario_files :: "(lpath \<times> s3key) list" where
  "scenario_files =
     [((LocalPending, ''short.csv''), (S3Pending, ''short.csv'')),
      ((LocalPending, ''rates.csv''), (S3Pending, ''rates.csv''))]"

definition missing_amount_message :: string where
  "missing_amount_message =
     ''CSV file is missing required columns: ['' @ [CHR 0x27] @ ''AMOUNT'' @ [CHR 0x27] @ '']''"


section \<open>Properties\<close>

subsection \<open>Rules for actions\<close>

lemma ret_eq [simp]: "ret x w = (r, w') \<longleftrightarrow> r = Inr x \<and> w' = w"
  by (auto simp: ret_def)

lemma throw_eq [simp]: "throw e w = (r, w') \<longleftrightarrow> r = Inl e \<and> w' = w"
  by (auto simp: throw_def)

lemma and_then_Inr:
  "and_then m f w = (Inr y, w') \<longleftrightarrow> (\<exists>x w1. m w = (Inr x, w1) \<and> f x w1 = (Inr y, w'))"
  by (auto simp: and_then_def split: prod.splits sum.splits)

lemma and_then_Inl:
  "and_then m f w = (Inl e, w') \<longleftrightarrow>
     m w = (Inl e, w') \<or> (\<exists>x w1. m w = (Inr x, w1) \<and> f x w1 = (Inl e, w'))"
  by (auto simp: and_then_def split: prod.splits sum.splits)

lemma try_except_Inr:
  "try_except m h w = (Inr y, w') \<longleftrightarrow>
     m w = (Inr y, w') \<or> (\<exists>e w1. m w = (Inl e, w1) \<and> h e w1 = (Inr y, w'))"
  by (auto simp: try_except_def split: prod.splits sum.splits)

lemma any_error_as_Inr:
  "any_error_as msg m w = (Inr y, w') \<longleftrightarrow> m w = (Inr y, w')"
  by (auto simp: any_error_as_def try_except_Inr)

subsection \<open>File names\<close>

lemma base_name_no_slash: "CHR ''/'' \<notin> set (base_name s)"
  by (auto simp: base_name_def dest: set_takeWhileD)

lemma base_name_id: "CHR ''/'' \<notin> set s \<Longrightarrow> base_name s = s"
proof -
  assume "CHR ''/'' \<notin> set s"
  then have "takeWhile (\<lambda>c. c \<noteq> CHR ''/'') (rev s) = rev s"
    by (auto simp: takeWhile_eq_all_conv)
  then show ?thesis by (simp only: base_name_def rev_rev_ident)
qed

lemma path_name_no_slash: "CHR ''/'' \<notin> set (path_name p)"
  by (simp add: path_name_def base_name_no_slash)

lemma path_name_id: "CHR ''/'' \<notin> set n \<Longrightarrow> path_name (d, n) = n"
  by (simp add: path_name_def base_name_id)

lemma str_replace_set: "set (str_replace old new s) \<subseteq> set new \<union> set s"
proof (induction old new s rule: str_replace.induct)
  case (1 old new)
  show ?case by simp
next
  case (2 old new c cs)
  have "set (drop (length old - 1) cs) \<subseteq> set cs" by (rule set_drop_subset)
  with 2 show ?case by auto
qed

lemma rsplit1_set: "x \<in> set (rsplit1 c s) \<Longrightarrow> set x \<subseteq> set s"
proof -
  assume a: "x \<in> set (rsplit1 c s)"
  have t: "set (takeWhile (\<lambda>x. x \<noteq> c) (rev s)) \<subseteq> set s"
    using set_takeWhileD by fastforce
  have "set (tl (dropWhile (\<lambda>x. x \<noteq> c) (rev s))) \<subseteq> set (dropWhile (\<lambda>x. x \<noteq> c) (rev s))"
    by (metis list.sel(2) list.set_sel(2) subsetI)
  moreover have "set (dropWhile (\<lambda>x. x \<noteq> c) (rev s)) \<subseteq> set s"
    using set_dropWhileD by fastforce
  ultimately have d: "set (tl (dropWhile (\<lambda>x. x \<noteq> c) (rev s))) \<subseteq> set s" by blast
  from a t d show ?thesis by (auto simp: rsplit1_def split: if_splits)
qed

lemma xrt_output_filename_set:
  "set (xrt_output_filename n suffix) \<subseteq> set n \<union> set suffix \<union> {CHR ''.''}"
proof (cases "CHR ''.'' \<in> set n")
  case False
  then show ?thesis by (auto simp: xrt_output_filename_def rsplit1_def)
next
  case True
  then obtain a b where r: "rsplit1 (CHR ''.'') n = [a, b]" by (simp add: rsplit1_def)
  then have "a \<in> set (rsplit1 (CHR ''.'') n)" "b \<in> set (rsplit1 (CHR ''.'') n)" by simp_all
  then have "set a \<subseteq> set n" "set b \<subseteq> set n" by (auto dest: rsplit1_set)
  with r show ?thesis by (auto simp: xrt_output_filename_def)
qed

lemma ced_result_names [simp]:
  "path_name (d, ced_success_filename (path_name p)) = ced_success_filename (path_name p)"
  "path_name (d, ced_error_filename (path_name p)) = ced_error_filename (path_name p)"
proof -
  have "CHR ''/'' \<notin> set (ced_success_filename (path_name p))"
    using str_replace_set[of "''.''" "''_ok.''" "path_name p"] path_name_no_slash[of p]
    by (auto simp: ced_success_filename_def)
  then show "path_name (d, ced_success_filename (path_name p)) = ced_success_filename (path_name p)"
    by (rule path_name_id)
  have "CHR ''/'' \<notin> set (ced_error_filename (path_name p))"
    using str_replace_set[of "''.''" "''_error.''" "path_name p"] path_name_no_slash[of p]
    by (auto simp: ced_error_filename_def)
  then show "path_name (d, ced_error_filename (path_name p)) = ced_error_filename (path_name p)"
    by (rule path_name_id)
qed

lemma xrt_result_names [simp]:
  "path_name (d, xrt_output_filename (path_name p) ''_ok'') = xrt_output_filename (path_name p) ''_ok''"
  "path_name (d, xrt_output_filename (path_name p) ''_error'') = xrt_output_filename (path_name p) ''_error''"
proof -
  have "CHR ''/'' \<notin> set (xrt_output_filename (path_name p) ''_ok'')"
    using xrt_output_filename_set[of "path_name p" "''_ok''"] path_name_no_slash[of p] by auto
  then show "path_name (d, xrt_output_filename (path_name p) ''_ok'') = xrt_output_filename (path_name p) ''_ok''"
    by (rule path_name_id)
  have "CHR ''/'' \<notin> set (xrt_output_filename (path_name p) ''_error'')"
    using xrt_output_filename_set[of "path_name p" "''_error''"] path_name_no_slash[of p] by auto
  then show "path_name (d, xrt_output_filename (path_name p) ''_error'') = xrt_output_filename (path_name p) ''_error''"
    by (rule path_name_id)
qed

text \<open>A frame of rows of one length is the list of rows itself.\<close>

lemma pad_table_same_length:
  assumes "\<forall>row\<in>set t. length row = n"
  shows "pad_table t = t"
proof -
  have m: "frame_width t \<le> n"
    unfolding frame_width_def using assms by (induction t) auto
  have "\<And>row. row \<in> set t \<Longrightarrow> row @ replicate (frame_width t - length row) PyNone = row"
    using assms m by simp
  then show ?thesis by (simp add: pad_table_def map_idI)
qed

lemma pad_table_hd:
  "hd (pad_table (header # records))
     = header @ replicate (frame_width (header # records) - length header) PyNone"
  by (simp add: pad_table_def)

lemma length_pad_table [simp]: "length (pad_table t) = length t"
  by (simp add: pad_table_def)

lemma pad_table_Nil [simp]: "pad_table t = [] \<longleftrightarrow> t = []"
  by (simp add: pad_table_def)

lemma pad_table_nth:
  "i < length t \<Longrightarrow> \<exists>k. pad_table t ! i = t ! i @ replicate k PyNone"
  by (auto simp: pad_table_def)

subsection \<open>Partition of a batch\<close>

lemma picked_unpicked_length:
  "length flags = length xs \<Longrightarrow> length (picked xs flags) + length (unpicked xs flags) = length xs"
  unfolding picked_def unpicked_def
  by (induction xs flags rule: list_induct2') auto

lemma insert_rows_partition:
  "insert_rows env io cols rows (s0, f0) w = (Inr (s, f), w') \<Longrightarrow>
     \<exists>flags. length flags = length rows \<and> s = s0 @ picked rows flags
        \<and> map butlast f = map butlast f0 @ unpicked rows flags"
proof (induction rows arbitrary: s0 f0 w)
  case Nil
  then show ?case by (simp add: picked_def unpicked_def)
next
  case (Cons row rest)
  from Cons.prems obtain error :: "string option" and w1 where
    step: "insert_rows env io cols rest
             (case error of Some msg \<Rightarrow> (s0, f0 @ [row @ [Text msg]]) | None \<Rightarrow> (s0 @ [row], f0)) w1
           = (Inr (s, f), w')"
    by (fastforce simp: and_then_Inr split: sum.splits option.splits)
  show ?case
  proof (cases error)
    case None
    with step Cons.IH[of "s0 @ [row]" f0 w1] obtain flags where
      "length flags = length rest" "s = (s0 @ [row]) @ picked rest flags"
      "map butlast f = map butlast f0 @ unpicked rest flags" by auto
    then show ?thesis
      by (intro exI[of _ "True # flags"]) (simp add: picked_def unpicked_def)
  next
    case (Some msg)
    with step Cons.IH[of s0 "f0 @ [row @ [Text msg]]" w1] obtain flags where
      "length flags = length rest" "s = s0 @ picked rest flags"
      "map butlast f = map butlast (f0 @ [row @ [Text msg]]) @ unpicked rest flags" by auto
    then show ?thesis
      by (intro exI[of _ "False # flags"]) (simp add: picked_def unpicked_def)
  qed
qed

lemma submit_rows_partition:
  "submit_rows env rows (s0, f0) w = (Inr (s, f), w') \<Longrightarrow>
     \<exists>flags. length flags = length rows \<and> s = s0 @ picked rows flags
        \<and> map butlast f = map butlast f0 @ unpicked rows flags"
proof (induction rows arbitrary: s0 f0 w)
  case Nil
  then show ?case by (simp add: picked_def unpicked_def)
next
  case (Cons row rest)
  from Cons.prems obtain error :: "string option" and w1 where
    step: "submit_rows env rest
             (if truthy error then (s0, f0 @ [row @ [Text (error_reason (the error))]])
              else (s0 @ [row], f0)) w1
           = (Inr (s, f), w')"
    by (fastforce simp: and_then_Inr Let_def split: if_splits)
  show ?case
  proof (cases "truthy error")
    case False
    with step Cons.IH[of "s0 @ [row]" f0 w1] obtain flags where
      "length flags = length rest" "s = (s0 @ [row]) @ picked rest flags"
      "map butlast f = map butlast f0 @ unpicked rest flags" by auto
    then show ?thesis
      by (intro exI[of _ "True # flags"]) (simp add: picked_def unpicked_def)
  next
    case True
    with step Cons.IH[of s0 "f0 @ [row @ [Text (error_reason (the error))]]" w1] obtain flags where
      "length flags = length rest" "s = s0 @ picked rest flags"
      "map butlast f = map butlast (f0 @ [row @ [Text (error_reason (the error))]]) @ unpicked rest flags"
      by auto
    then show ?thesis
      by (intro exI[of _ "False # flags"]) (simp add: picked_def unpicked_def)
  qed
qed

lemma save_group_count:
  "save_group env records name suffix d k w = (Inr (n, f), w') \<Longrightarrow> n = length records"
  by (auto simp: save_group_def and_then_Inr split: if_splits)

lemma process_exchange_rate_file_counts:
  assumes "process_exchange_rate_file env p w = (Inr result, w')"
  shows "\<exists>df s f w1. read_csv env p = Inr df
           \<and> submit_rows env (df_rows df) ([], []) w = (Inr (s, f), w1)
           \<and> success_count result = length s \<and> error_count result = length f"
proof (cases "read_csv env p")
  case (Inl e)
  with assms show ?thesis
    by (simp add: process_exchange_rate_file_def any_error_as_Inr)
next
  case (Inr df)
  with assms obtain s f w1 n_err f_err w2 n_ok f_ok w3 where
    sub: "submit_rows env (df_rows df) ([], []) w = (Inr (s, f), w1)" and
    g1: "save_group env f (path_name p) ''_error'' LocalError S3Error w1 = (Inr (n_err, f_err), w2)" and
    g2: "save_group env s (path_name p) ''_ok'' LocalProcessed S3Processed w2 = (Inr (n_ok, f_ok), w3)" and
    res: "result = \<lparr>success_count = n_ok, error_count = n_err, success_file = f_ok, error_file = f_err\<rparr>"
    unfolding process_exchange_rate_file_def any_error_as_Inr
    by (simp add: and_then_Inr split: prod.splits) blast
  from save_group_count[OF g1] save_group_count[OF g2] sub res Inr show ?thesis by simp
qed

text \<open>
  Claim C1. When the loop over a batch has run to its end, in either module, the
  records are split by one flag per position of the batch: the success group is the
  records flagged as accepted, the failure group (without the appended reason) is the
  others, both in batch order. So every record is in exactly one group, and the sizes
  of the two groups add up to the size of the batch; the counts that
  \<open>process_exchange_rate_file\<close> reports add up to the number of records read.
\<close>

theorem C1_every_record_in_exactly_one_group:
  "(fst (insert_rows env insert_order columns batch ([], []) w) = Inr (successful_records, failed_records) \<longrightarrow>
      length successful_records + length failed_records = length batch \<and>
      (\<exists>flags. length flags = length batch \<and> successful_records = picked batch flags \<and>
         map butlast failed_records = unpicked batch flags))
   \<and> (fst (submit_rows env batch ([], []) w) = Inr (success_records, error_records) \<longrightarrow>
      length success_records + length error_records = length batch \<and>
      (\<exists>flags. length flags = length batch \<and> success_records = picked batch flags \<and>
         map butlast error_records = unpicked batch flags))
   \<and> (fst (process_exchange_rate_file env file_path w) = Inr result \<and> read_csv env file_path = Inr df \<longrightarrow>
      success_count result + error_count result = length (df_rows df))"
proof (intro conjI impI)
  assume "fst (insert_rows env insert_order columns batch ([], []) w) = Inr (successful_records, failed_records)"
  then obtain w' where
    "insert_rows env insert_order columns batch ([], []) w = (Inr (successful_records, failed_records), w')"
    by (cases "insert_rows env insert_order columns batch ([], []) w") simp
  from insert_rows_partition[OF this] obtain flags where
    fl: "length flags = length batch" "successful_records = picked batch flags"
        "map butlast failed_records = unpicked batch flags" by auto
  from fl(3) have "length failed_records = length (unpicked batch flags)"
    by (metis length_map)
  with fl picked_unpicked_length[OF fl(1)]
  show "length successful_records + length failed_records = length batch" by simp
  from fl show "\<exists>flags. length flags = length batch \<and> successful_records = picked batch flags \<and>
         map butlast failed_records = unpicked batch flags" by blast
next
  assume "fst (submit_rows env batch ([], []) w) = Inr (success_records, error_records)"
  then obtain w' where
    "submit_rows env batch ([], []) w = (Inr (success_records, error_records), w')"
    by (cases "submit_rows env batch ([], []) w") simp
  from submit_rows_partition[OF this] obtain flags where
    fl: "length flags = length batch" "success_records = picked batch flags"
        "map butlast error_records = unpicked batch flags" by auto
  from fl(3) have "length error_records = length (unpicked batch flags)"
    by (metis length_map)
  with fl picked_unpicked_length[OF fl(1)]
  show "length success_records + length error_records = length batch" by simp
  from fl show "\<exists>flags. length flags = length batch \<and> success_records = picked batch flags \<and>
         map butlast error_records = unpicked batch flags" by blast
next
  assume a: "fst (process_exchange_rate_file env file_path w) = Inr result \<and> read_csv env file_path = Inr df"
  then obtain w' where "process_exchange_rate_file env file_path w = (Inr result, w')"
    by (cases "process_exchange_rate_file env file_path w") simp
  from process_exchange_rate_file_counts[OF this] a obtain s f w1 where
    sub: "submit_rows env (df_rows df) ([], []) w = (Inr (s, f), w1)" and
    cnt: "success_count result = length s" "error_count result = length f" by auto
  from submit_rows_partition[OF sub] obtain flags where
    fl: "length flags = length (df_rows df)" "s = picked (df_rows df) flags"
        "map butlast f = unpicked (df_rows df) flags" by auto
  from fl(3) have "length f = length (unpicked (df_rows df) flags)"
    by (metis length_map)
  with fl cnt picked_unpicked_length[OF fl(1)]
  show "success_count result + error_count result = length (df_rows df)" by simp
qed

theorem C1_every_record_in_exactly_one_group_witness:
  "fst (insert_rows scenario_env [''AMOUNT'', ''ID''] [''ID'', ''AMOUNT''] scenario_rows ([], []) empty_world)
     = Inr ([[Text ''1'', Text ''100'']], [[Text ''2'', Text ''BAD'', Text ''invalid amount'']])
   \<and> fst (submit_rows scenario_env scenario_rows ([], []) empty_world)
     = Inr ([[Text ''1'', Text ''100'']], [[Text ''2'', Text ''BAD'', Text ''invalid amount'']])
   \<and> fst (process_exchange_rate_file scenario_env (LocalPending, ''rates.csv'') empty_world)
     = Inr \<lparr>success_count = 1, error_count = 1,
            success_file = Some (LocalProcessed, ''rates_ok.csv''),
            error_file = Some (LocalError, ''rates_error.csv'')\<rparr>
   \<and> read_csv scenario_env (LocalPending, ''rates.csv'')
     = Inr \<lparr>df_columns = [''ID'', ''AMOUNT''], df_rows = scenario_rows\<rparr>
   \<and> length [[Text ''1'', Text ''100'']] + length [[Text ''2'', Text ''BAD'', Text ''invalid amount'']]
     = length scenario_rows
   \<and> (\<exists>flags. length flags = length scenario_rows
         \<and> [[Text ''1'', Text ''100'']] = picked scenario_rows flags
         \<and> map butlast [[Text ''2'', Text ''BAD'', Text ''invalid amount'']] = unpicked scenario_rows flags)
   \<and> success_count \<lparr>success_count = 1, error_count = 1,
            success_file = Some (LocalProcessed, ''rates_ok.csv''),
            error_file = Some (LocalError, ''rates_error.csv'')\<rparr>
     + error_count \<lparr>success_count = 1, error_count = 1,
            success_file = Some (LocalProcessed, ''rates_ok.csv''),
            error_file = Some (LocalError, ''rates_error.csv'')\<rparr>
     = length (df_rows \<lparr>df_columns = [''ID'', ''AMOUNT''], df_rows = scenario_rows\<rparr>)"
proof -
  have h1: "fst (insert_rows scenario_env [''AMOUNT'', ''ID''] [''ID'', ''AMOUNT''] scenario_rows ([], []) empty_world)
     = Inr ([[Text ''1'', Text ''100'']], [[Text ''2'', Text ''BAD'', Text ''invalid amount'']])"
    by code_simp
  have h2: "fst (submit_rows scenario_env scenario_rows ([], []) empty_world)
     = Inr ([[Text ''1'', Text ''100'']], [[Text ''2'', Text ''BAD'', Text ''invalid amount'']])"
    by code_simp
  have h3: "fst (process_exchange_rate_file scenario_env (LocalPending, ''rates.csv'') empty_world)
     = Inr \<lparr>success_count = 1, error_count = 1,
            success_file = Some (LocalProcessed, ''rates_ok.csv''),
            error_file = Some (LocalError, ''rates_error.csv'')\<rparr>"
    by code_simp
  have h4: "read_csv scenario_env (LocalPending, ''rates.csv'')
     = Inr \<lparr>df_columns = [''ID'', ''AMOUNT''], df_rows = scenario_rows\<rparr>"
    by (simp add: scenario_env_def scenario_read_csv_def)
  from h1 h2 h3 h4
    C1_every_record_in_exactly_one_group
      [where env = scenario_env and insert_order = "[''AMOUNT'', ''ID'']"
         and columns = "[''ID'', ''AMOUNT'']" and batch = scenario_rows and w = empty_world
         and successful_records = "[[Text ''1'', Text ''100'']]"
         and failed_records = "[[Text ''2'', Text ''BAD'', Text ''invalid amount'']]"
         and success_records = "[[Text ''1'', Text ''100'']]"
         and error_records = "[[Text ''2'', Text ''BAD'', Text ''invalid amount'']]"
         and file_path = "(LocalPending, ''rates.csv'')"
         and result = "\<lparr>success_count = 1, error_count = 1,
            success_file = Some (LocalProcessed, ''rates_ok.csv''),
            error_file = Some (LocalError, ''rates_error.csv'')\<rparr>"
         and df = "\<lparr>df_columns = [''ID'', ''AMOUNT''], df_rows = scenario_rows\<rparr>"]
  show ?thesis by blast
qed

subsection \<open>Strings\<close>

lemma take_eq_length: "take (length sep) xs = sep \<Longrightarrow> length sep \<le> length xs"
proof -
  assume "take (length sep) xs = sep"
  then have "length (take (length sep) xs) = length sep" by simp
  then show ?thesis by simp
qed

lemma occurs_at_0: "occurs_at sep 0 s \<longleftrightarrow> take (length sep) s = sep"
  using take_eq_length[of sep s] by (auto simp: occurs_at_def)

lemma occurs_at_Suc: "occurs_at sep (Suc j) (c # cs) = occurs_at sep j cs"
  by (simp add: occurs_at_def)

text \<open>\<open>first_occurrence\<close> is the least position at which the separator occurs.\<close>

lemma first_occurrence_Some:
  "first_occurrence sep s = Some i \<longleftrightarrow> occurs_at sep i s \<and> (\<forall>j<i. \<not> occurs_at sep j s)"
proof (induction s arbitrary: i)
  case Nil
  then show ?case by (auto simp: occurs_at_def)
next
  case (Cons c cs)
  show ?case
  proof (cases "take (length sep) (c # cs) = sep")
    case True
    then have o: "occurs_at sep 0 (c # cs)" by (simp only: occurs_at_0)
    show ?thesis
    proof (cases i)
      case 0
      with True o show ?thesis by simp
    next
      case (Suc k)
      with True o show ?thesis by auto
    qed
  next
    case False
    then have no0: "\<not> occurs_at sep 0 (c # cs)" by (simp only: occurs_at_0) simp
    show ?thesis
    proof (cases i)
      case 0
      with False no0 show ?thesis by simp
    next
      case (Suc k)
      have "(\<forall>j<Suc k. \<not> occurs_at sep j (c # cs)) \<longleftrightarrow> (\<forall>j<k. \<not> occurs_at sep j cs)"
      proof
        assume h: "\<forall>j<Suc k. \<not> occurs_at sep j (c # cs)"
        show "\<forall>j<k. \<not> occurs_at sep j cs"
        proof (intro allI impI)
          fix j assume "j < k"
          then have "Suc j < Suc k" by simp
          with h have "\<not> occurs_at sep (Suc j) (c # cs)" by blast
          then show "\<not> occurs_at sep j cs" by (simp add: occurs_at_Suc)
        qed
      next
        assume h: "\<forall>j<k. \<not> occurs_at sep j cs"
        show "\<forall>j<Suc k. \<not> occurs_at sep j (c # cs)"
        proof (intro allI impI)
          fix j assume jk: "j < Suc k"
          show "\<not> occurs_at sep j (c # cs)"
          proof (cases j)
            case 0
            with no0 show ?thesis by simp
          next
            case (Suc m)
            with jk h have "\<not> occurs_at sep m cs" by simp
            with Suc show ?thesis by (simp add: occurs_at_Suc)
          qed
        qed
      qed
      moreover have "first_occurrence sep (c # cs) = Some (Suc k) \<longleftrightarrow> first_occurrence sep cs = Some k"
        using False by auto
      ultimately show ?thesis
        using Suc Cons.IH[of k] by (simp add: occurs_at_Suc)
    qed
  qed
qed

lemma first_occurrence_None:
  "first_occurrence sep s = None \<longleftrightarrow> (\<forall>j. \<not> occurs_at sep j s)"
proof
  assume n: "first_occurrence sep s = None"
  show "\<forall>j. \<not> occurs_at sep j s"
  proof (rule ccontr)
    assume "\<not> (\<forall>j. \<not> occurs_at sep j s)"
    then obtain j where "occurs_at sep j s" by blast
    then have "\<exists>i. occurs_at sep i s \<and> (\<forall>k<i. \<not> occurs_at sep k s)"
      using exists_least_iff[of "\<lambda>i. occurs_at sep i s"] by blast
    then obtain i where "occurs_at sep i s" "\<forall>k<i. \<not> occurs_at sep k s"
      by blast
    with first_occurrence_Some[of sep s i] n show False by simp
  qed
next
  assume "\<forall>j. \<not> occurs_at sep j s"
  with first_occurrence_Some[of sep s] show "first_occurrence sep s = None"
    by (cases "first_occurrence sep s") auto
qed

lemma hd_split_from:
  "sep \<noteq> [] \<Longrightarrow> hd (split_from sep cur s) = cur @ truncate_at_first sep s"
  by (induction s arbitrary: cur) (auto simp: truncate_at_first_def split: option.splits)

lemma error_reason_eq: "error_reason msg = truncate_at_first ''. '' msg"
  by (simp add: error_reason_def str_split_def hd_split_from)

lemma rsplit1_ext:
  "c \<notin> set ext \<Longrightarrow> rsplit1 c (base @ c # ext) = [base, ext]"
proof -
  assume n: "c \<notin> set ext"
  have r: "rev (base @ c # ext) = rev ext @ c # rev base" by simp
  have t: "takeWhile (\<lambda>x. x \<noteq> c) (rev ext @ c # rev base) = rev ext"
    using n by (auto simp: takeWhile_tail)
  have d: "dropWhile (\<lambda>x. x \<noteq> c) (rev ext @ c # rev base) = c # rev base"
    using n by (auto simp: dropWhile_append3)
  show ?thesis unfolding rsplit1_def r t d by simp
qed

text \<open>
  \<open>dataXRT.py\<close> puts the suffix before the last dot, whatever the base contains.
\<close>

lemma xrt_output_filename_ext:
  "CHR ''.'' \<notin> set ext \<Longrightarrow>
     xrt_output_filename (base @ ''.'' @ ext) suffix = base @ suffix @ ''.'' @ ext"
  using rsplit1_ext[of "CHR ''.''" ext base] by (simp add: xrt_output_filename_def)

lemma str_replace_no_dot:
  "c \<notin> set s \<Longrightarrow> str_replace [c] new s = s"
  by (induction s) auto

lemma str_replace_one_dot:
  "c \<notin> set base \<Longrightarrow> c \<notin> set ext \<Longrightarrow> str_replace [c] new (base @ c # ext) = base @ new @ ext"
  by (induction base) (auto simp: str_replace_no_dot)

text \<open>
  \<open>dataCED.py\<close> gives the promised names when the file name has exactly one dot.
\<close>

lemma ced_filename_one_dot:
  "CHR ''.'' \<notin> set base \<Longrightarrow> CHR ''.'' \<notin> set ext \<Longrightarrow>
     ced_success_filename (base @ ''.'' @ ext) = base @ ''_ok'' @ ''.'' @ ext
     \<and> ced_error_filename (base @ ''.'' @ ext) = base @ ''_error'' @ ''.'' @ ext"
  using str_replace_one_dot[of "CHR ''.''" base ext]
  by (simp add: ced_success_filename_def ced_error_filename_def)

text \<open>
  Claim C7. The claim asks for the suffix exactly once, before the extension, also
  for names with more than one dot. \<open>dataCED.py\<close> replaces every dot: for
  \<open>rates.2024.csv\<close> it derives \<open>rates_ok.2024_ok.csv\<close> and
  \<open>rates_error.2024_error.csv\<close>, not \<open>rates.2024_ok.csv\<close> and
  \<open>rates.2024_error.csv\<close>. \<open>dataXRT.py\<close> derives the promised name.
\<close>

theorem C7_ced_suffix_repeated_at_every_dot:
  "ced_success_filename ''rates.2024.csv'' = ''rates_ok.2024_ok.csv''
   \<and> ced_success_filename ''rates.2024.csv'' \<noteq> ''rates.2024_ok.csv''
   \<and> ced_error_filename ''rates.2024.csv'' = ''rates_error.2024_error.csv''
   \<and> ced_error_filename ''rates.2024.csv'' \<noteq> ''rates.2024_error.csv''
   \<and> xrt_output_filename ''rates.2024.csv'' ''_ok'' = ''rates.2024_ok.csv''"
  by (simp add: ced_success_filename_def ced_error_filename_def xrt_output_filename_def rsplit1_def)

subsection \<open>Failure reasons of the web-service variant\<close>

lemma submit_rows_failures:
  "submit_rows env rows (s0, f0) w = (Inr (s, f), w') \<Longrightarrow>
     f = f0 @ truncated_failures rows (ws_replies env rows w)
     \<and> length (ws_replies env rows w) = length rows"
proof (induction rows arbitrary: s0 f0 w)
  case Nil
  then show ?case by (simp add: truncated_failures_def)
next
  case (Cons row rest)
  from Cons.prems obtain error :: "string option" and w1 where
    call: "call_exchange_rate_service env (str_join '','' (map py_str row)) w = (Inr error, w1)" and
    step: "submit_rows env rest
             (if truthy error then (s0, f0 @ [row @ [Text (error_reason (the error))]])
              else (s0 @ [row], f0)) w1
           = (Inr (s, f), w')"
    by (fastforce simp: and_then_Inr Let_def split: if_splits)
  from call have rep: "ws_replies env (row # rest) w = error # ws_replies env rest w1" by simp
  show ?case
  proof (cases "truthy error")
    case False
    with step Cons.IH[of "s0 @ [row]" f0 w1] rep show ?thesis
      by (simp add: truncated_failures_def)
  next
    case True
    with step Cons.IH[of s0 "f0 @ [row @ [Text (error_reason (the error))]]" w1] rep show ?thesis
      by (simp add: truncated_failures_def error_reason_eq)
  qed
qed

lemma call_timeout:
  "fault env (trace w) (WsCall r) = Some RequestsTimeout \<or>
   fault env (trace w) (WsCall r) = Some RequestsConnectionError \<Longrightarrow>
   fst (call_exchange_rate_service env r w) = Inr (Some connection_failed_message)"
  by (auto simp: call_exchange_rate_service_def try_except_def and_then_def perform_def ret_def)

lemma submit_one_timeout:
  assumes "fault env (trace w) (WsCall (str_join '','' (map py_str row))) = Some RequestsTimeout \<or>
   fault env (trace w) (WsCall (str_join '','' (map py_str row))) = Some RequestsConnectionError"
  shows "fst (submit_rows env [row] ([], []) w)
           = Inr ([], [row @ [Text ''SICS server connection attempt has failed'']])"
proof -
  have t: "truncate_at_first ''. '' connection_failed_message = ''SICS server connection attempt has failed''"
    by code_simp
  have ne: "connection_failed_message \<noteq> []" by (simp add: connection_failed_message_def)
  obtain w1 where c: "call_exchange_rate_service env (str_join '','' (map py_str row)) w
                       = (Inr (Some connection_failed_message), w1)"
    using call_timeout[OF assms]
    by (cases "call_exchange_rate_service env (str_join '','' (map py_str row)) w") auto
  show ?thesis
    using c ne t by (simp add: and_then_def error_reason_eq ret_def)
qed

text \<open>
  Claim C10. In \<open>dataXRT.py\<close>, when the loop over a batch has run to its end, the
  failure group is the records whose call returned a non-empty message, in batch
  order, each with that message cut at the first \<open>'. '\<close> appended; and a batch of
  one record whose call meets a timeout or a connection error has the failure group
  of that record with \<open>SICS server connection attempt has failed\<close> appended, the
  first sentence of the fixed message.
\<close>

theorem C10_failure_reason_is_first_sentence:
  "(fst (submit_rows env batch ([], []) w) = Inr (success_records, error_records) \<longrightarrow>
      error_records = truncated_failures batch (ws_replies env batch w)
      \<and> length (ws_replies env batch w) = length batch)
   \<and> (fault env (trace w) (WsCall (str_join '','' (map py_str row))) = Some RequestsTimeout \<or>
      fault env (trace w) (WsCall (str_join '','' (map py_str row))) = Some RequestsConnectionError \<longrightarrow>
      fst (submit_rows env [row] ([], []) w)
        = Inr ([], [row @ [Text ''SICS server connection attempt has failed'']]))"
proof (intro conjI impI)
  assume "fst (submit_rows env batch ([], []) w) = Inr (success_records, error_records)"
  then obtain w' where
    "submit_rows env batch ([], []) w = (Inr (success_records, error_records), w')"
    by (cases "submit_rows env batch ([], []) w") simp
  from submit_rows_failures[OF this]
  show "error_records = truncated_failures batch (ws_replies env batch w)"
    and "length (ws_replies env batch w) = length batch" by simp_all
next
  assume "fault env (trace w) (WsCall (str_join '','' (map py_str row))) = Some RequestsTimeout \<or>
      fault env (trace w) (WsCall (str_join '','' (map py_str row))) = Some RequestsConnectionError"
  then show "fst (submit_rows env [row] ([], []) w)
        = Inr ([], [row @ [Text ''SICS server connection attempt has failed'']])"
    by (rule submit_one_timeout)
qed

theorem C10_failure_reason_is_first_sentence_witness:
  "fst (submit_rows scenario_env scenario_rows ([], []) empty_world)
     = Inr ([[Text ''1'', Text ''100'']], [[Text ''2'', Text ''BAD'', Text ''invalid amount'']])
   \<and> fault scenario_env (trace empty_world) (WsCall (str_join '','' (map py_str [Text ''3'', Text ''DOWN''])))
     = Some RequestsTimeout
   \<and> [[Text ''2'', Text ''BAD'', Text ''invalid amount'']]
     = truncated_failures scenario_rows (ws_replies scenario_env scenario_rows empty_world)
   \<and> ws_replies scenario_env scenario_rows empty_world = [None, Some ''invalid amount. Check the rate.'']
   \<and> fst (submit_rows scenario_env [[Text ''3'', Text ''DOWN'']] ([], []) empty_world)
     = Inr ([], [[Text ''3'', Text ''DOWN''] @ [Text ''SICS server connection attempt has failed'']])"
proof -
  have h1: "fst (submit_rows scenario_env scenario_rows ([], []) empty_world)
     = Inr ([[Text ''1'', Text ''100'']], [[Text ''2'', Text ''BAD'', Text ''invalid amount'']])"
    by code_simp
  have h2: "fault scenario_env (trace empty_world) (WsCall (str_join '','' (map py_str [Text ''3'', Text ''DOWN''])))
     = Some RequestsTimeout"
    by code_simp
  have h3: "ws_replies scenario_env scenario_rows empty_world = [None, Some ''invalid amount. Check the rate.'']"
    by code_simp
  from h1 h2 h3
    C10_failure_reason_is_first_sentence
      [where env = scenario_env and batch = scenario_rows and w = empty_world
         and success_records = "[[Text ''1'', Text ''100'']]"
         and error_records = "[[Text ''2'', Text ''BAD'', Text ''invalid amount'']]"
         and row = "[Text ''3'', Text ''DOWN'']"]
  show ?thesis by blast
qed

subsection \<open>What the actions add to the trace\<close>

lemma addsD:
  "adds P Q m \<Longrightarrow> m w = (r, w') \<Longrightarrow>
     \<exists>ext. trace w' = trace w @ ext \<and> list_all P ext \<and> ((\<exists>x. r = Inr x) \<longrightarrow> list_all Q ext)"
  unfolding adds_def by (erule allE[of _ w], erule allE[of _ r], erule allE[of _ w']) simp

lemma adds_ret [simp]: "adds P Q (ret x)"
  by (simp add: adds_def)

lemma adds_throw [simp]: "adds P Q (throw e)"
  by (simp add: adds_def)

lemma adds_modify: "(\<And>w. trace (f w) = trace w) \<Longrightarrow> adds P Q (modify f)"
  by (simp add: adds_def modify_def)

lemma adds_perform: "(\<And>r. P (ev, r)) \<Longrightarrow> Q (ev, None) \<Longrightarrow> adds P Q (perform env ev)"
  by (auto simp: adds_def perform_def split: option.splits)

lemma adds_and_then:
  assumes "adds P Q m" and "\<And>x. adds P Q (f x)"
  shows "adds P Q (and_then m f)"
  unfolding adds_def
proof (intro allI impI)
  fix w r w'
  assume a: "and_then m f w = (r, w')"
  obtain r1 w1 where m: "m w = (r1, w1)" by (cases "m w")
  from addsD[OF assms(1) m] obtain e1 where
    e1: "trace w1 = trace w @ e1" "list_all P e1" "(\<exists>x. r1 = Inr x) \<longrightarrow> list_all Q e1" by blast
  show "\<exists>ext. trace w' = trace w @ ext \<and> list_all P ext \<and> ((\<exists>x. r = Inr x) \<longrightarrow> list_all Q ext)"
  proof (cases r1)
    case (Inl e)
    with a m have "r = Inl e" "w' = w1" by (simp_all add: and_then_def)
    with e1 show ?thesis by auto
  next
    case (Inr x)
    with a m have f: "f x w1 = (r, w')" by (simp add: and_then_def)
    from addsD[OF assms(2) f] obtain e2 where
      e2: "trace w' = trace w1 @ e2" "list_all P e2" "(\<exists>x. r = Inr x) \<longrightarrow> list_all Q e2" by blast
    from e1 e2 Inr show ?thesis by (intro exI[of _ "e1 @ e2"]) auto
  qed
qed

text \<open>A handler that may return: every entry has to satisfy \<open>Q\<close> whatever the result.\<close>

lemma adds_try_except:
  assumes "adds (\<lambda>e. P e \<and> Q e) (\<lambda>e. True) m" and "\<And>e. adds (\<lambda>e. P e \<and> Q e) (\<lambda>e. True) (h e)"
  shows "adds P Q (try_except m h)"
  unfolding adds_def
proof (intro allI impI)
  fix w r w'
  assume a: "try_except m h w = (r, w')"
  obtain r1 w1 where m: "m w = (r1, w1)" by (cases "m w")
  from addsD[OF assms(1) m] obtain e1 where
    e1: "trace w1 = trace w @ e1" "list_all (\<lambda>e. P e \<and> Q e) e1" by blast
  show "\<exists>ext. trace w' = trace w @ ext \<and> list_all P ext \<and> ((\<exists>x. r = Inr x) \<longrightarrow> list_all Q ext)"
  proof (cases r1)
    case (Inr x)
    with a m have "r = Inr x" "w' = w1" by (simp_all add: try_except_def)
    with e1 show ?thesis by (auto simp: list_all_iff)
  next
    case (Inl e)
    with a m have f: "h e w1 = (r, w')" by (simp add: try_except_def)
    from addsD[OF assms(2) f] obtain e2 where
      e2: "trace w' = trace w1 @ e2" "list_all (\<lambda>e. P e \<and> Q e) e2" by blast
    from e1 e2 show ?thesis by (intro exI[of _ "e1 @ e2"]) (auto simp: list_all_iff)
  qed
qed

text \<open>A handler that only re-raises.\<close>

lemma adds_reraise:
  assumes "adds P Q m" and "\<And>e w. \<exists>e'. h e w = (Inl e', w)"
  shows "adds P Q (try_except m h)"
  unfolding adds_def
proof (intro allI impI)
  fix w r w'
  assume a: "try_except m h w = (r, w')"
  obtain r1 w1 where m: "m w = (r1, w1)" by (cases "m w")
  from addsD[OF assms(1) m] obtain e1 where
    e1: "trace w1 = trace w @ e1" "list_all P e1" "(\<exists>x. r1 = Inr x) \<longrightarrow> list_all Q e1" by blast
  show "\<exists>ext. trace w' = trace w @ ext \<and> list_all P ext \<and> ((\<exists>x. r = Inr x) \<longrightarrow> list_all Q ext)"
  proof (cases r1)
    case (Inr x)
    with a m have "r = Inr x" "w' = w1" by (simp_all add: try_except_def)
    with e1 Inr show ?thesis by auto
  next
    case (Inl e)
    from assms(2)[of e w1] obtain e' where "h e w1 = (Inl e', w1)" by blast
    with Inl a m have "r = Inl e'" "w' = w1" by (simp_all add: try_except_def)
    with e1 show ?thesis by auto
  qed
qed

lemma adds_weaken:
  assumes "adds P Q m" and "\<And>e. P e \<Longrightarrow> P' e" and "\<And>e. Q e \<Longrightarrow> Q' e"
  shows "adds P' Q' m"
  unfolding adds_def
proof (intro allI impI)
  fix w r w'
  assume m: "m w = (r, w')"
  from addsD[OF assms(1) m] obtain ext where
    e: "trace w' = trace w @ ext" "list_all P ext" "(\<exists>x. r = Inr x) \<longrightarrow> list_all Q ext" by blast
  from e(2) assms(2) have "list_all P' ext" by (simp add: list_all_iff)
  moreover from e(3) assms(3) have "(\<exists>x. r = Inr x) \<longrightarrow> list_all Q' ext" by (simp add: list_all_iff)
  ultimately show "\<exists>ext. trace w' = trace w @ ext \<and> list_all P' ext \<and> ((\<exists>x. r = Inr x) \<longrightarrow> list_all Q' ext)"
    using e(1) by blast
qed

lemma adds_self:
  assumes "adds P Q m"
  shows "adds P P m"
  unfolding adds_def
proof (intro allI impI)
  fix w r w'
  assume m: "m w = (r, w')"
  from addsD[OF assms m] obtain ext where "trace w' = trace w @ ext" "list_all P ext" by blast
  then show "\<exists>ext. trace w' = trace w @ ext \<and> list_all P ext \<and> ((\<exists>x. r = Inr x) \<longrightarrow> list_all P ext)"
    by blast
qed

lemma adds_if: "adds P Q m \<Longrightarrow> adds P Q n \<Longrightarrow> adds P Q (if b then m else n)"
  by simp

lemma adds_when_exists: "adds P Q m \<Longrightarrow> adds P Q (when_exists p m)"
  by (auto simp: adds_def when_exists_def)

lemma adds_execute_insert: "adds quiet (\<lambda>e. True) (execute_insert env data)"
  unfolding execute_insert_def
  by (intro adds_try_except adds_and_then adds_perform adds_modify adds_ret)
     (auto split: exn.splits)

lemma adds_insert_rows: "adds quiet (\<lambda>e. True) (insert_rows env io cols rows acc)"
proof (induction rows arbitrary: acc)
  case Nil
  show ?case by (cases acc) simp
next
  case (Cons row rest)
  show ?case
    by (cases acc) (auto split: sum.splits option.splits intro!: adds_and_then adds_execute_insert Cons.IH)
qed

lemma adds_write_local: "adds quiet (\<lambda>e. True) (write_local env p t)"
  unfolding write_local_def
  by (intro adds_and_then adds_perform adds_modify) auto

lemma adds_process_file: "adds quiet (\<lambda>e. True) (process_file_with io dc env p)"
  unfolding process_file_with_def connect_and_insert_def db_connect_def db_commit_def
    validate_csv_columns_def write_error_file_def write_success_file_def Let_def
  by (auto split: sum.splits prod.splits
        intro!: adds_and_then adds_perform adds_modify adds_insert_rows adds_write_local)


lemma adds_upload_step:
  "adds no_delete upload_done (when_exists p (upload_result_file env p b))"
  unfolding upload_result_file_def upload_file_def
  by (intro adds_when_exists adds_perform) auto

lemma adds_ced_before_delete:
  "adds no_delete upload_done
     (and_then (process_file_with io dc env lp) (\<lambda>ok.
      and_then (when_exists p1 (upload_result_file env p1 False)) (\<lambda>_.
      and_then (when_exists p2 (upload_result_file env p2 True)) (\<lambda>_. ret ok))))"
  by (intro adds_and_then adds_upload_step adds_ret adds_weaken[OF adds_self[OF adds_process_file]]) auto

lemma and_then_assoc: "and_then (and_then m f) g = and_then m (\<lambda>x. and_then (f x) g)"
  by (auto simp: and_then_def fun_eq_iff split: prod.splits sum.splits)

lemma delete_file_trace:
  "delete_file env k w = (r, w') \<Longrightarrow>
     (r = Inr () \<and> trace w' = trace w @ [(S3Delete k, None)]) \<or>
     (\<exists>e. r = Inl e \<and> trace w' = trace w @ [(S3Delete k, Some e)])"
  by (auto simp: delete_file_def perform_def split: option.splits)

lemma unlink_trace:
  "unlink env p w = (r, w') \<Longrightarrow> \<exists>res. trace w' = trace w @ [(LocalDelete p, res)]"
  by (auto simp: unlink_def and_then_def perform_def modify_def split: option.splits if_splits)

text \<open>The general shape: work without deletes, then the two deletes.\<close>

lemma staged_shape:
  assumes pre: "adds no_delete upload_done pre"
    and d1: "\<forall>w r w'. del1 w = (r, w') \<longrightarrow>
               (r = Inr () \<and> trace w' = trace w @ [(S3Delete k, None)]) \<or>
               (\<exists>e e'. r = Inl e' \<and> trace w' = trace w @ [(S3Delete k, Some e)])"
    and d2: "\<forall>w r w'. del2 w = (r, w') \<longrightarrow>
               trace w' = trace w \<or> (\<exists>res. trace w' = trace w @ [(LocalDelete p, res)])"
    and fin: "\<forall>x w r w'. fin x w = (r, w') \<longrightarrow> trace w' = trace w"
    and run: "and_then pre (\<lambda>x. and_then del1 (\<lambda>_. and_then del2 (\<lambda>_. fin x))) w = (r, w')"
  shows "\<exists>A D. trace w' = trace w @ A @ D \<and> list_all no_delete A \<and> delete_phase k p D
           \<and> (D \<noteq> [] \<longrightarrow> list_all upload_done A)
           \<and> ((\<exists>e. fst (pre w) = Inl e) \<longrightarrow> D = [])"
proof -
  obtain r1 w1 where p1: "pre w = (r1, w1)" by (cases "pre w")
  from addsD[OF pre p1] obtain A where
    A: "trace w1 = trace w @ A" "list_all no_delete A" "(\<exists>x. r1 = Inr x) \<longrightarrow> list_all upload_done A"
    by blast
  show ?thesis
  proof (cases r1)
    case (Inl e)
    with run p1 have "w' = w1" by (simp add: and_then_def)
    with A show ?thesis
      by (intro exI[of _ A] exI[of _ "[]"]) (simp add: delete_phase_def)
  next
    case (Inr x)
    with A have Aok: "list_all upload_done A" by blast
    obtain r2 w2 where p2: "del1 w1 = (r2, w2)" by (cases "del1 w1")
    from Inr p1 have nofail: "\<not> (\<exists>e. fst (pre w) = Inl e)" by simp
    from d1 p2 have "(r2 = Inr () \<and> trace w2 = trace w1 @ [(S3Delete k, None)]) \<or>
               (\<exists>e e'. r2 = Inl e' \<and> trace w2 = trace w1 @ [(S3Delete k, Some e)])" by blast
    then show ?thesis
    proof
      assume "\<exists>e e'. r2 = Inl e' \<and> trace w2 = trace w1 @ [(S3Delete k, Some e)]"
      then obtain e e' where f: "r2 = Inl e'" "trace w2 = trace w1 @ [(S3Delete k, Some e)]" by blast
      with run p1 p2 Inr have "w' = w2" by (simp add: and_then_def)
      with A Aok f nofail show ?thesis
        by (intro exI[of _ A] exI[of _ "[(S3Delete k, Some e)]"]) (simp add: delete_phase_def)
    next
      assume ok: "r2 = Inr () \<and> trace w2 = trace w1 @ [(S3Delete k, None)]"
      obtain r3 w3 where p3: "del2 w2 = (r3, w3)" by (cases "del2 w2")
      have last: "trace w' = trace w3"
      proof (cases r3)
        case (Inl e)
        with run p1 p2 p3 Inr ok show ?thesis by (simp add: and_then_def)
      next
        case (Inr u)
        with run p1 p2 p3 \<open>r1 = Inr x\<close> ok have "fin x w3 = (r, w')" by (simp add: and_then_def)
        with fin show ?thesis by blast
      qed
      from d2 p3 have "trace w3 = trace w2 \<or> (\<exists>res. trace w3 = trace w2 @ [(LocalDelete p, res)])" by blast
      then show ?thesis
      proof
        assume "trace w3 = trace w2"
        with last ok A Aok nofail show ?thesis
          by (intro exI[of _ A] exI[of _ "[(S3Delete k, None)]"]) (simp add: delete_phase_def)
      next
        assume "\<exists>res. trace w3 = trace w2 @ [(LocalDelete p, res)]"
        then obtain res where "trace w3 = trace w2 @ [(LocalDelete p, res)]" by blast
        with last ok A Aok nofail show ?thesis
          by (intro exI[of _ A] exI[of _ "[(S3Delete k, None), (LocalDelete p, res)]"])
             (simp add: delete_phase_def)
      qed
    qed
  qed
qed

lemma handle_file_shape:
  assumes "handle_file_with io dc env lp k w = (r, w')"
  shows "\<exists>A D. trace w' = trace w @ A @ D \<and> list_all no_delete A \<and> delete_phase k lp D
           \<and> (D \<noteq> [] \<longrightarrow> list_all upload_done A)
           \<and> ((\<exists>e. fst (process_file_with io dc env lp w) = Inl e) \<longrightarrow> D = [])"
proof -
  let ?p1 = "(LocalProcessed, ced_success_filename (path_name lp))"
  let ?p2 = "(LocalError, ced_error_filename (path_name lp))"
  let ?pre = "and_then (process_file_with io dc env lp) (\<lambda>ok.
      and_then (when_exists ?p1 (upload_result_file env ?p1 False)) (\<lambda>_.
      and_then (when_exists ?p2 (upload_result_file env ?p2 True)) (\<lambda>_. ret ok)))"
  have eq: "handle_file_with io dc env lp k =
      and_then ?pre (\<lambda>x. and_then (delete_file env k) (\<lambda>_. and_then (unlink env lp) (\<lambda>_. ret x)))"
    by (simp add: handle_file_with_def Let_def and_then_assoc and_then_def ret_def fun_eq_iff
          split: prod.splits sum.splits)
  have d1: "\<forall>w r w'. delete_file env k w = (r, w') \<longrightarrow>
               (r = Inr () \<and> trace w' = trace w @ [(S3Delete k, None)]) \<or>
               (\<exists>e e'. r = Inl e' \<and> trace w' = trace w @ [(S3Delete k, Some e)])"
    using delete_file_trace by blast
  have d2: "\<forall>w r w'. unlink env lp w = (r, w') \<longrightarrow>
               trace w' = trace w \<or> (\<exists>res. trace w' = trace w @ [(LocalDelete lp, res)])"
    using unlink_trace by blast
  have fin: "\<forall>x w r w'. ret x w = (r, w') \<longrightarrow> trace w' = trace w" by simp
  from assms eq have run: "and_then ?pre (\<lambda>x. and_then (delete_file env k) (\<lambda>_. and_then (unlink env lp) (\<lambda>_. ret x))) w = (r, w')"
    by simp
  from staged_shape[where pre = ?pre and ?del1.0 = "delete_file env k" and ?del2.0 = "unlink env lp"
         and fin = ret and k = k and p = lp and w = w and r = r and w' = w',
         OF adds_ced_before_delete d1 d2 fin run]
  obtain A D where s: "trace w' = trace w @ A @ D" "list_all no_delete A" "delete_phase k lp D"
    "D \<noteq> [] \<longrightarrow> list_all upload_done A" "(\<exists>e. fst (?pre w) = Inl e) \<longrightarrow> D = []" by blast
  have "(\<exists>e. fst (process_file_with io dc env lp w) = Inl e) \<longrightarrow> (\<exists>e. fst (?pre w) = Inl e)"
    by (auto simp: and_then_def split: prod.splits sum.splits)
  with s show ?thesis by blast
qed


lemma adds_cond:
  "adds P Q m \<Longrightarrow> adds P Q n \<Longrightarrow> adds P Q (\<lambda>w. if c w then m w else n w)"
  by (auto simp: adds_def)

lemma adds_client_error_as: "adds P Q m \<Longrightarrow> adds P Q (client_error_as msg m)"
  unfolding client_error_as_def
  by (rule adds_reraise) (auto split: exn.splits)

lemma adds_any_error_as: "adds P Q m \<Longrightarrow> adds P Q (any_error_as msg m)"
  unfolding any_error_as_def
  by (rule adds_reraise) auto

lemma adds_call_exchange_rate_service: "adds quiet quiet (call_exchange_rate_service env r)"
  unfolding call_exchange_rate_service_def
  by (intro adds_try_except adds_and_then adds_perform adds_ret)
     (auto split: exn.splits option.splits)

lemma adds_submit_rows: "adds quiet quiet (submit_rows env rows acc)"
proof (induction rows arbitrary: acc)
  case Nil
  show ?case by (cases acc) simp
next
  case (Cons row rest)
  show ?case
    by (cases acc) (auto simp: Let_def intro!: adds_and_then adds_call_exchange_rate_service Cons.IH)
qed

lemma adds_xrt_upload_file: "adds no_delete upload_done (xrt_upload_file env p d)"
  unfolding xrt_upload_file_def
  by (intro adds_client_error_as adds_and_then adds_perform adds_ret) auto

lemma adds_move_file: "adds quiet quiet (move_file env p d)"
  unfolding move_file_def Let_def
  by (intro adds_any_error_as adds_and_then adds_perform adds_cond adds_modify adds_ret) auto

lemma adds_write_local': "adds quiet quiet (write_local env p t)"
  by (rule adds_self[OF adds_write_local])

lemma adds_save_group: "adds no_delete upload_done (save_group env records name suffix d k)"
  unfolding save_group_def save_and_upload_results_def Let_def
  by (auto intro!: adds_and_then adds_xrt_upload_file
        adds_weaken[OF adds_move_file] adds_weaken[OF adds_write_local'])

lemma adds_process_exchange_rate_file:
  "adds no_delete upload_done (process_exchange_rate_file env p)"
  unfolding process_exchange_rate_file_def
  by (auto split: sum.splits prod.splits
        intro!: adds_any_error_as adds_and_then adds_save_group adds_weaken[OF adds_submit_rows])

lemma adds_log_file: "adds P Q (log_file n st)"
  unfolding log_file_def by (rule adds_modify) simp

lemma xrt_delete_file_trace:
  "xrt_delete_file env d n w = (r, w') \<Longrightarrow>
     (r = Inr () \<and> trace w' = trace w @ [(S3Delete (d, n), None)]) \<or>
     (\<exists>e e'. r = Inl e' \<and> trace w' = trace w @ [(S3Delete (d, n), Some e)])"
  by (auto simp: xrt_delete_file_def client_error_as_def try_except_def perform_def
        split: option.splits exn.splits)

lemma delete_local_file_trace:
  "delete_local_file env p w = (r, w') \<Longrightarrow>
     trace w' = trace w \<or> (\<exists>res. trace w' = trace w @ [(LocalDelete p, res)])"
proof -
  assume a: "delete_local_file env p w = (r, w')"
  obtain r1 w1 where u: "when_exists p (unlink env p) w = (r1, w1)"
    by (cases "when_exists p (unlink env p) w")
  with a have "w' = w1"
    by (auto simp: delete_local_file_def any_error_as_def try_except_def split: sum.splits)
  moreover from u have "trace w1 = trace w \<or> (\<exists>res. trace w1 = trace w @ [(LocalDelete p, res)])"
    using unlink_trace[of env p w r1 w1] by (auto simp: when_exists_def split: if_splits)
  ultimately show ?thesis by simp
qed

lemma xrt_handle_file_shape:
  assumes "xrt_handle_file env filename lp w = (r, w')"
  shows "\<exists>A D. trace w' = trace w @ A @ D \<and> list_all no_delete A
           \<and> delete_phase (S3Pending, filename) lp D
           \<and> (D \<noteq> [] \<longrightarrow> list_all upload_done A)
           \<and> ((\<exists>e. fst (process_exchange_rate_file env lp w) = Inl e) \<longrightarrow> D = [])"
proof -
  let ?pre = "and_then (process_exchange_rate_file env lp) (\<lambda>result.
      and_then (log_file filename Completed) (\<lambda>_. ret result))"
  have pre: "adds no_delete upload_done ?pre"
    by (intro adds_and_then adds_process_exchange_rate_file adds_log_file adds_ret)
  have eq: "xrt_handle_file env filename lp =
      and_then ?pre (\<lambda>x. and_then (xrt_delete_file env S3Pending filename) (\<lambda>_.
         and_then (delete_local_file env lp) (\<lambda>_. ret ())))"
    by (simp add: xrt_handle_file_def and_then_def ret_def fun_eq_iff
          split: prod.splits sum.splits)
  have d1: "\<forall>w r w'. xrt_delete_file env S3Pending filename w = (r, w') \<longrightarrow>
               (r = Inr () \<and> trace w' = trace w @ [(S3Delete (S3Pending, filename), None)]) \<or>
               (\<exists>e e'. r = Inl e' \<and> trace w' = trace w @ [(S3Delete (S3Pending, filename), Some e)])"
    using xrt_delete_file_trace by blast
  have d2: "\<forall>w r w'. delete_local_file env lp w = (r, w') \<longrightarrow>
               trace w' = trace w \<or> (\<exists>res. trace w' = trace w @ [(LocalDelete lp, res)])"
    using delete_local_file_trace by blast
  have fin: "\<forall>x w r w'. (\<lambda>x. ret ()) x w = (r, w') \<longrightarrow> trace w' = trace w" by simp
  from assms eq have run: "and_then ?pre (\<lambda>x. and_then (xrt_delete_file env S3Pending filename) (\<lambda>_.
         and_then (delete_local_file env lp) (\<lambda>_. (\<lambda>x. ret ()) x))) w = (r, w')"
    by simp
  from staged_shape[where pre = ?pre and ?del1.0 = "xrt_delete_file env S3Pending filename"
         and ?del2.0 = "delete_local_file env lp"
         and fin = "\<lambda>x. ret ()" and k = "(S3Pending, filename)" and p = lp and w = w and r = r and w' = w',
         OF pre d1 d2 fin run]
  obtain A D where s: "trace w' = trace w @ A @ D" "list_all no_delete A"
    "delete_phase (S3Pending, filename) lp D"
    "D \<noteq> [] \<longrightarrow> list_all upload_done A" "(\<exists>e. fst (?pre w) = Inl e) \<longrightarrow> D = []" by blast
  have "(\<exists>e. fst (process_exchange_rate_file env lp w) = Inl e) \<longrightarrow> (\<exists>e. fst (?pre w) = Inl e)"
    by (auto simp: and_then_def split: prod.splits sum.splits)
  with s show ?thesis by blast
qed

lemma order_from_shape:
  assumes t: "t = A @ D" and A: "list_all no_delete A" and D: "delete_phase k p D"
    and ok: "D \<noteq> [] \<longrightarrow> list_all upload_done A"
  shows "\<forall>i<length t. \<forall>j<length t. is_upload (fst (t ! i)) \<and> fst (t ! j) = S3Delete k
            \<longrightarrow> i < j \<and> snd (t ! i) = None"
    and "\<forall>i<length t. \<forall>j<length t. fst (t ! i) = S3Delete k \<and> fst (t ! j) = LocalDelete p
            \<longrightarrow> i < j \<and> snd (t ! i) = None"
proof -
  have inA: "\<And>i. i < length A \<Longrightarrow> \<not> is_delete (fst (t ! i))"
    using A t by (simp add: list_all_length nth_append)
  have Ddel: "\<And>e. e \<in> set D \<Longrightarrow> is_delete (fst e) \<and> \<not> is_upload (fst e)"
    using D by (auto simp: delete_phase_def)
  have inD: "\<And>i. length A \<le> i \<Longrightarrow> i < length t \<Longrightarrow> t ! i = D ! (i - length A) \<and> D ! (i - length A) \<in> set D"
    using t by (auto simp: nth_append)
  show "\<forall>i<length t. \<forall>j<length t. is_upload (fst (t ! i)) \<and> fst (t ! j) = S3Delete k
            \<longrightarrow> i < j \<and> snd (t ! i) = None"
  proof (intro allI impI)
    fix i j assume i: "i < length t" and j: "j < length t"
      and h: "is_upload (fst (t ! i)) \<and> fst (t ! j) = S3Delete k"
    have jA: "length A \<le> j"
    proof (rule ccontr)
      assume "\<not> length A \<le> j"
      then have "\<not> is_delete (fst (t ! j))" using inA by simp
      with h show False by simp
    qed
    have iA: "i < length A"
    proof (rule ccontr)
      assume "\<not> i < length A"
      then have "length A \<le> i" by simp
      from inD[OF this i] Ddel have "\<not> is_upload (fst (t ! i))" by metis
      with h show False by simp
    qed
    from jA j t have "D \<noteq> []" by auto
    with ok have "list_all upload_done A" by blast
    with iA t h have "snd (t ! i) = None" by (simp add: list_all_length nth_append)
    with iA jA show "i < j \<and> snd (t ! i) = None" by simp
  qed
  show "\<forall>i<length t. \<forall>j<length t. fst (t ! i) = S3Delete k \<and> fst (t ! j) = LocalDelete p
            \<longrightarrow> i < j \<and> snd (t ! i) = None"
  proof (intro allI impI)
    fix i j assume i: "i < length t" and j: "j < length t"
      and h: "fst (t ! i) = S3Delete k \<and> fst (t ! j) = LocalDelete p"
    have iA: "length A \<le> i"
    proof (rule ccontr)
      assume "\<not> length A \<le> i"
      then have "\<not> is_delete (fst (t ! i))" using inA by simp
      with h show False by simp
    qed
    have jA: "length A \<le> j"
    proof (rule ccontr)
      assume "\<not> length A \<le> j"
      then have "\<not> is_delete (fst (t ! j))" using inA by simp
      with h show False by simp
    qed
    define i' where "i' = i - length A"
    define j' where "j' = j - length A"
    from iA jA i j t have b: "i' < length D" "j' < length D" by (auto simp: i'_def j'_def)
    from inD[OF iA i] inD[OF jA j] h
    have e: "fst (D ! i') = S3Delete k" "fst (D ! j') = LocalDelete p" "t ! i = D ! i'"
      by (simp_all add: i'_def j'_def)
    from D b e have "i' = 0 \<and> j' = 1 \<and> snd (D ! i') = None"
      by (auto simp: delete_phase_def nth_Cons split: nat.splits)
    then have "i' = 0" "j' = 1" "snd (D ! i') = None" by blast+
    with e(3) have "snd (t ! i) = None" by simp
    moreover from \<open>i' = 0\<close> \<open>j' = 1\<close> iA jA have "i < j" unfolding i'_def j'_def by arith
    ultimately show "i < j \<and> snd (t ! i) = None" by simp
  qed
qed


lemma new_entries_append: "trace w' = trace w @ ext \<Longrightarrow> new_entries w w' = ext"
  by (simp add: new_entries_def)

lemma upload_step_exact:
  assumes "when_exists p (upload_result_file env p b) w = (r, w')"
  shows "localfs w' = localfs w \<and>
     ((\<exists>e. r = Inl e \<and> trace w' = trace w @ [(S3Upload p ((if b then S3Error else S3Processed), path_name p), Some e)])
      \<or> (r = Inr () \<and> file_exists p w
            \<and> trace w' = trace w @ [(S3Upload p ((if b then S3Error else S3Processed), path_name p), None)])
      \<or> (r = Inr () \<and> \<not> file_exists p w \<and> trace w' = trace w))"
  using assms
  by (auto simp: when_exists_def upload_result_file_def upload_file_def perform_def
        split: if_splits option.splits)

lemma ced_artifacts_uploaded:
  assumes run: "handle_file_with io dc env lp k w = (r, w')"
    and del: "(S3Delete k, x) \<in> set (new_entries w w')"
  shows "(file_exists (LocalProcessed, ced_success_filename (path_name lp)) (snd (process_file_with io dc env lp w)) \<longrightarrow>
            (S3Upload (LocalProcessed, ced_success_filename (path_name lp))
                      (S3Processed, ced_success_filename (path_name lp)), None) \<in> set (new_entries w w'))
       \<and> (file_exists (LocalError, ced_error_filename (path_name lp)) (snd (process_file_with io dc env lp w)) \<longrightarrow>
            (S3Upload (LocalError, ced_error_filename (path_name lp))
                      (S3Error, ced_error_filename (path_name lp)), None) \<in> set (new_entries w w'))"
proof -
  let ?p1 = "(LocalProcessed, ced_success_filename (path_name lp))"
  let ?p2 = "(LocalError, ced_error_filename (path_name lp))"
  obtain r1 w1 where p: "process_file_with io dc env lp w = (r1, w1)"
    by (cases "process_file_with io dc env lp w")
  from addsD[OF adds_process_file p] obtain A where A: "trace w1 = trace w @ A" "list_all quiet A"
    by blast
  have nodelA: "(S3Delete k, x) \<notin> set A" using A(2) by (auto simp: list_all_iff)
  show ?thesis
  proof (cases r1)
    case (Inl e)
    with run p have "w' = w1" by (simp add: handle_file_with_def and_then_def)
    with A del nodelA show ?thesis by (simp add: new_entries_append)
  next
    case (Inr ok)
    obtain r2 w2 where u1: "when_exists ?p1 (upload_result_file env ?p1 False) w1 = (r2, w2)"
      by (cases "when_exists ?p1 (upload_result_file env ?p1 False) w1")
    note x1 = upload_step_exact[OF u1]
    show ?thesis
    proof (cases r2)
      case (Inl e)
      with run p u1 \<open>r1 = Inr ok\<close> have "w' = w2"
        by (simp add: handle_file_with_def and_then_def Let_def)
      with x1 Inl A del nodelA show ?thesis by (auto simp: new_entries_append)
    next
      case (Inr u)
      obtain r3 w3 where u2: "when_exists ?p2 (upload_result_file env ?p2 True) w2 = (r3, w3)"
        by (cases "when_exists ?p2 (upload_result_file env ?p2 True) w2")
      note x2 = upload_step_exact[OF u2]
      show ?thesis
      proof (cases r3)
        case (Inl e)
        with run p u1 u2 \<open>r1 = Inr ok\<close> \<open>r2 = Inr u\<close> have "w' = w3"
          by (simp add: handle_file_with_def and_then_def Let_def)
        with x1 x2 Inl \<open>r2 = Inr u\<close> A del nodelA show ?thesis
          by (auto simp: new_entries_append)
      next
        case (Inr u')
        have ext: "\<exists>ext. trace w' = trace w3 @ ext"
        proof -
          from run p u1 u2 \<open>r1 = Inr ok\<close> \<open>r2 = Inr u\<close> \<open>r3 = Inr u'\<close>
          have rest: "and_then (delete_file env k) (\<lambda>_. and_then (unlink env lp) (\<lambda>_. ret ok)) w3 = (r, w')"
            by (simp add: handle_file_with_def and_then_def Let_def)
          obtain r4 w4 where d: "delete_file env k w3 = (r4, w4)" by (cases "delete_file env k w3")
          from delete_file_trace[OF d] have t4: "\<exists>e. trace w4 = trace w3 @ e" by auto
          show ?thesis
          proof (cases r4)
            case (Inl e)
            with rest d have "w' = w4" by (simp add: and_then_def)
            with t4 show ?thesis by simp
          next
            case (Inr u4)
            obtain r5 w5 where l: "unlink env lp w4 = (r5, w5)" by (cases "unlink env lp w4")
            from unlink_trace[OF l] have t5: "\<exists>e. trace w5 = trace w4 @ e" by auto
            from rest d l Inr have "trace w' = trace w5"
              by (cases r5) (auto simp: and_then_def)
            with t4 t5 show ?thesis by auto
          qed
        qed
        then obtain ext where ext: "trace w' = trace w3 @ ext" by blast
        from x1 \<open>r2 = Inr u\<close> have fs: "localfs w2 = localfs w1" by simp
        have e1: "file_exists ?p1 w1 \<longrightarrow> (S3Upload ?p1 (S3Processed, path_name ?p1), None) \<in> set (new_entries w w')"
          using x1 x2 \<open>r2 = Inr u\<close> \<open>r3 = Inr u'\<close> A ext by (auto simp: new_entries_def)
        have e2: "file_exists ?p2 w1 \<longrightarrow> (S3Upload ?p2 (S3Error, path_name ?p2), None) \<in> set (new_entries w w')"
          using x1 x2 fs \<open>r2 = Inr u\<close> \<open>r3 = Inr u'\<close> A ext by (auto simp: new_entries_def file_exists_def)
        from e1 e2 p show ?thesis by simp
      qed
    qed
  qed
qed


lemma adds_anything:
  "adds P Q m \<Longrightarrow> adds anything anything m"
  by (erule adds_weaken) simp_all

lemma adds_tail:
  assumes "\<And>w r w'. m w = (r, w') \<Longrightarrow> \<exists>ext. trace w' = trace w @ ext"
  shows "adds anything anything m"
  unfolding adds_def using assms by (simp add: list_all_iff)

lemma adds_xrt_delete_file: "adds anything anything (xrt_delete_file env d n)"
  by (rule adds_tail) (auto dest: xrt_delete_file_trace)

lemma adds_delete_local_file: "adds anything anything (delete_local_file env p)"
  by (rule adds_tail) (auto dest: delete_local_file_trace)

lemma extends_new_entries:
  "trace a = trace w @ x \<Longrightarrow> trace b = trace a @ y \<Longrightarrow> trace c = trace b @ z \<Longrightarrow>
     e \<in> set y \<Longrightarrow> e \<in> set (new_entries w c)"
  by (simp add: new_entries_def)

lemma save_group_uploads:
  assumes "save_group env records name suffix d k w = (Inr (n, f), w')" and "0 < n"
  shows "\<exists>x y z. trace w' = trace w @ x @ y @ z \<and>
           (S3Upload (LocalPending, xrt_output_filename name suffix)
                     (k, path_name (LocalPending, xrt_output_filename name suffix)), None) \<in> set y"
proof -
  let ?out = "(LocalPending, xrt_output_filename name suffix)"
  from assms have ne: "records \<noteq> []"
    by (auto simp: save_group_def split: if_splits)
  with assms(1) obtain wa kk wb where
    a: "write_local env ?out (pad_table records) w = (Inr (), wa)" and
    b: "xrt_upload_file env ?out k wa = (Inr kk, wb)" and
    c: "move_file env ?out d wb = (Inr f, w')"
    by (auto simp: save_group_def save_and_upload_results_def Let_def and_then_Inr)
  from addsD[OF adds_write_local a] obtain x where x: "trace wa = trace w @ x" by blast
  from b have y: "trace wb = trace wa @ [(S3Upload ?out (k, path_name ?out), None)]"
    by (auto simp: xrt_upload_file_def client_error_as_def try_except_def and_then_def perform_def
          ret_def throw_def split: option.splits exn.splits)
  from addsD[OF adds_move_file c] obtain z where z: "trace w' = trace wb @ z" by blast
  from x y z show ?thesis
    by (intro exI[of _ x] exI[of _ "[(S3Upload ?out (k, path_name ?out), None)]"] exI[of _ z]) simp
qed

lemma xrt_artifacts_uploaded:
  assumes run: "xrt_handle_file env filename lp w = (r, w')"
    and pr: "fst (process_exchange_rate_file env lp w) = Inr result"
  shows "(0 < error_count result \<longrightarrow>
            (S3Upload (LocalPending, xrt_output_filename (path_name lp) ''_error'')
                      (S3Error, xrt_output_filename (path_name lp) ''_error''), None) \<in> set (new_entries w w'))
       \<and> (0 < success_count result \<longrightarrow>
            (S3Upload (LocalPending, xrt_output_filename (path_name lp) ''_ok'')
                      (S3Processed, xrt_output_filename (path_name lp) ''_ok''), None) \<in> set (new_entries w w'))"
proof -
  obtain w1 where p: "process_exchange_rate_file env lp w = (Inr result, w1)"
    using pr by (cases "process_exchange_rate_file env lp w") simp
  from run p have rest: "and_then (log_file filename Completed) (\<lambda>_.
       and_then (xrt_delete_file env S3Pending filename) (\<lambda>_. delete_local_file env lp)) w1 = (r, w')"
    by (simp add: xrt_handle_file_def and_then_def)
  have "adds anything anything (and_then (log_file filename Completed) (\<lambda>_.
       and_then (xrt_delete_file env S3Pending filename) (\<lambda>_. delete_local_file env lp)))"
    by (intro adds_and_then adds_log_file adds_xrt_delete_file adds_delete_local_file)
  from addsD[OF this rest] obtain tl where tl: "trace w' = trace w1 @ tl" by blast
  obtain df where df: "read_csv env lp = Inr df"
    using p by (cases "read_csv env lp")
               (simp_all add: process_exchange_rate_file_def any_error_as_Inr)
  with p obtain s f wa n_err f_err wb n_ok f_ok where
    sub: "submit_rows env (df_rows df) ([], []) w = (Inr (s, f), wa)" and
    g1: "save_group env f (path_name lp) ''_error'' LocalError S3Error wa = (Inr (n_err, f_err), wb)" and
    g2: "save_group env s (path_name lp) ''_ok'' LocalProcessed S3Processed wb = (Inr (n_ok, f_ok), w1)" and
    res: "result = \<lparr>success_count = n_ok, error_count = n_err, success_file = f_ok, error_file = f_err\<rparr>"
    unfolding process_exchange_rate_file_def any_error_as_Inr
    by (simp add: and_then_Inr split: prod.splits) blast
  from addsD[OF adds_submit_rows sub] obtain a where a: "trace wa = trace w @ a" by blast
  from addsD[OF adds_save_group g1] obtain b where b: "trace wb = trace wa @ b" by blast
  from addsD[OF adds_save_group g2] obtain c where c: "trace w1 = trace wb @ c" by blast
  have "0 < n_err \<longrightarrow> (S3Upload (LocalPending, xrt_output_filename (path_name lp) ''_error'')
                      (S3Error, xrt_output_filename (path_name lp) ''_error''), None) \<in> set (new_entries w w')"
  proof
    assume "0 < n_err"
    from save_group_uploads[OF g1 this] obtain x y z where
      "trace wb = trace wa @ x @ y @ z"
      "(S3Upload (LocalPending, xrt_output_filename (path_name lp) ''_error'')
                      (S3Error, xrt_output_filename (path_name lp) ''_error''), None) \<in> set y"
      unfolding xrt_result_names by blast
    with a c tl show "(S3Upload (LocalPending, xrt_output_filename (path_name lp) ''_error'')
                      (S3Error, xrt_output_filename (path_name lp) ''_error''), None) \<in> set (new_entries w w')"
      by (simp add: new_entries_def)
  qed
  moreover have "0 < n_ok \<longrightarrow> (S3Upload (LocalPending, xrt_output_filename (path_name lp) ''_ok'')
                      (S3Processed, xrt_output_filename (path_name lp) ''_ok''), None) \<in> set (new_entries w w')"
  proof
    assume "0 < n_ok"
    from save_group_uploads[OF g2 this] obtain x y z where
      "trace w1 = trace wb @ x @ y @ z"
      "(S3Upload (LocalPending, xrt_output_filename (path_name lp) ''_ok'')
                      (S3Processed, xrt_output_filename (path_name lp) ''_ok''), None) \<in> set y"
      unfolding xrt_result_names by blast
    with a b tl show "(S3Upload (LocalPending, xrt_output_filename (path_name lp) ''_ok'')
                      (S3Processed, xrt_output_filename (path_name lp) ''_ok''), None) \<in> set (new_entries w w')"
      by (simp add: new_entries_def)
  qed
  ultimately show ?thesis using res by simp
qed

subsection \<open>The submit boundary\<close>

lemma execute_insert_cases:
  "(fault env (trace w) (DbExecute data) = None \<longrightarrow> fst (execute_insert env data w) = Inr None)
   \<and> (fault env (trace w) (DbExecute data) = Some (PyodbcError m) \<longrightarrow>
        fst (execute_insert env data w) = Inr (Some (sanitize env m)))"
  by (auto simp: execute_insert_def try_except_def and_then_def perform_def modify_def ret_def)

lemma call_exchange_rate_service_cases:
  "(fault env (trace w) (WsCall r) = None \<longrightarrow> fst (call_exchange_rate_service env r w) = Inr None)
   \<and> (fault env (trace w) (WsCall r) = Some (ZeepFault (Some x)) \<longrightarrow>
        fst (call_exchange_rate_service env r w) = Inr (Some x))"
  by (auto simp: call_exchange_rate_service_def try_except_def and_then_def perform_def ret_def)

lemma passes_onD:
  "passes_on m \<Longrightarrow> m w = (r, w') \<Longrightarrow>
     \<exists>ext. trace w' = trace w @ ext \<and>
       (\<forall>d e. (DbExecute d, Some e) \<in> set ext \<and> \<not> caught_by_execute_insert e \<longrightarrow> r = Inl e)"
  unfolding passes_on_def by blast

lemma passes_on_ret [simp]: "passes_on (ret x)"
  by (simp add: passes_on_def)

lemma passes_on_throw [simp]: "passes_on (throw e)"
  by (simp add: passes_on_def)

lemma passes_on_modify: "(\<And>w. trace (f w) = trace w) \<Longrightarrow> passes_on (modify f)"
  by (simp add: passes_on_def modify_def)

lemma passes_on_perform: "(\<And>d. ev \<noteq> DbExecute d) \<Longrightarrow> passes_on (perform env ev)"
  by (auto simp: passes_on_def perform_def split: option.splits)

lemma passes_on_and_then:
  assumes "passes_on m" and "\<And>x. passes_on (f x)"
  shows "passes_on (and_then m f)"
  unfolding passes_on_def
proof (intro allI impI)
  fix w r w'
  assume a: "and_then m f w = (r, w')"
  obtain r1 w1 where m: "m w = (r1, w1)" by (cases "m w")
  from passes_onD[OF assms(1) m] obtain e1 where
    e1: "trace w1 = trace w @ e1"
        "\<forall>d e. (DbExecute d, Some e) \<in> set e1 \<and> \<not> caught_by_execute_insert e \<longrightarrow> r1 = Inl e"
    by blast
  show "\<exists>ext. trace w' = trace w @ ext \<and>
         (\<forall>d e. (DbExecute d, Some e) \<in> set ext \<and> \<not> caught_by_execute_insert e \<longrightarrow> r = Inl e)"
  proof (cases r1)
    case (Inl e)
    with a m have "r = Inl e" "w' = w1" by (simp_all add: and_then_def)
    with e1 Inl show ?thesis by auto
  next
    case (Inr x)
    with a m have f: "f x w1 = (r, w')" by (simp add: and_then_def)
    from passes_onD[OF assms(2) f] obtain e2 where
      e2: "trace w' = trace w1 @ e2"
          "\<forall>d e. (DbExecute d, Some e) \<in> set e2 \<and> \<not> caught_by_execute_insert e \<longrightarrow> r = Inl e"
      by blast
    from e1(2) Inr have "\<forall>d e. (DbExecute d, Some e) \<in> set e1 \<longrightarrow> caught_by_execute_insert e"
      by auto
    with e1(1) e2 show ?thesis by (intro exI[of _ "e1 @ e2"]) auto
  qed
qed

lemma passes_on_execute_insert: "passes_on (execute_insert env data)"
  unfolding passes_on_def execute_insert_def try_except_def and_then_def perform_def modify_def
    ret_def throw_def
  by (auto split: option.splits exn.splits)

lemma passes_on_insert_rows: "passes_on (insert_rows env io cols rows acc)"
proof (induction rows arbitrary: acc)
  case Nil
  show ?case by (cases acc) simp
next
  case (Cons row rest)
  show ?case
    by (cases acc)
       (auto split: sum.splits option.splits intro!: passes_on_and_then passes_on_execute_insert Cons.IH)
qed

lemma passes_on_write_local: "passes_on (write_local env p t)"
  unfolding write_local_def
  by (intro passes_on_and_then passes_on_perform passes_on_modify) auto

lemma passes_on_process_file: "passes_on (process_file_with io dc env p)"
  unfolding process_file_with_def connect_and_insert_def db_connect_def db_commit_def
    validate_csv_columns_def write_error_file_def write_success_file_def Let_def
  by (auto split: sum.splits prod.splits
        intro!: passes_on_and_then passes_on_insert_rows passes_on_write_local passes_on_perform
                passes_on_modify)

lemma execute_insert_passes_on:
  "fault env (trace w) (DbExecute data) = Some e \<Longrightarrow> \<not> caught_by_execute_insert e \<Longrightarrow>
     fst (execute_insert env data w) = Inl e"
  by (cases e)
     (auto simp: execute_insert_def try_except_def and_then_def perform_def throw_def)

lemma call_exchange_rate_service_passes_on:
  "fault env (trace w) (WsCall r) = Some e \<Longrightarrow> \<not> caught_by_call_exchange_rate_service e \<Longrightarrow>
     fst (call_exchange_rate_service env r w) = Inl e"
  by (cases e)
     (auto simp: call_exchange_rate_service_def try_except_def and_then_def perform_def throw_def)

lemma call_exchange_rate_service_unreadable_fault:
  "fault env (trace w) (WsCall r) = Some (ZeepFault None) \<Longrightarrow>
     fst (call_exchange_rate_service env r w) = Inl (OtherException ''fault without explanation'')"
  by (auto simp: call_exchange_rate_service_def try_except_def and_then_def perform_def throw_def)

text \<open>
  When \<open>process_exchange_rate_file\<close> returns, every call to the web service was
  acknowledged or raised an exception that \<open>call_exchange_rate_service\<close> turns into a
  reason.
\<close>

lemma adds_call_returned:
  "adds anything
     (\<lambda>en. \<forall>x e. en = (WsCall x, Some e) \<longrightarrow> caught_by_call_exchange_rate_service e \<and> e \<noteq> ZeepFault None)
     (call_exchange_rate_service env r)"
  unfolding adds_def call_exchange_rate_service_def try_except_def and_then_def perform_def
    ret_def throw_def
  by (auto split: option.splits exn.splits)

lemma adds_submit_rows_returned:
  "adds anything
     (\<lambda>en. \<forall>x e. en = (WsCall x, Some e) \<longrightarrow> caught_by_call_exchange_rate_service e \<and> e \<noteq> ZeepFault None)
     (submit_rows env rows acc)"
proof (induction rows arbitrary: acc)
  case Nil
  show ?case by (cases acc) simp
next
  case (Cons row rest)
  then show ?case
    by (cases acc) (auto simp: Let_def intro!: adds_and_then adds_call_returned)
qed

lemma adds_process_exchange_rate_file_returned:
  "adds anything
     (\<lambda>en. \<forall>x e. en = (WsCall x, Some e) \<longrightarrow> caught_by_call_exchange_rate_service e \<and> e \<noteq> ZeepFault None)
     (process_exchange_rate_file env p)"
proof -
  let ?Q = "\<lambda>en::entry. \<forall>x e. en = (WsCall x, Some e) \<longrightarrow>
              caught_by_call_exchange_rate_service e \<and> e \<noteq> ZeepFault None"
  have w: "\<And>p t. adds anything ?Q (write_local env p t)"
    unfolding write_local_def
    by (intro adds_and_then adds_perform adds_modify) auto
  have u: "\<And>p d. adds anything ?Q (xrt_upload_file env p d)"
    unfolding xrt_upload_file_def
    by (intro adds_client_error_as adds_and_then adds_perform adds_ret) auto
  have m: "\<And>p d. adds anything ?Q (move_file env p d)"
    unfolding move_file_def Let_def
    by (intro adds_any_error_as adds_and_then adds_perform adds_cond adds_modify adds_ret) auto
  have g: "\<And>records name suffix d k. adds anything ?Q (save_group env records name suffix d k)"
    unfolding save_group_def save_and_upload_results_def Let_def
    by (auto intro!: adds_and_then w u m)
  show ?thesis
    unfolding process_exchange_rate_file_def
    by (auto split: sum.splits prod.splits
          intro!: adds_any_error_as adds_and_then g adds_submit_rows_returned)
qed

lemma process_exchange_rate_file_error:
  "process_exchange_rate_file env p w = (Inl e, w') \<Longrightarrow>
     e = FileProcessingError (''Failed to process '' @ path_name p)"
  by (auto simp: process_exchange_rate_file_def any_error_as_def try_except_def throw_def
        split: prod.splits sum.splits)

text \<open>
  Claim C4, as amended. \<open>execute_insert\<close> returns an outcome when the statement is
  accepted and when the driver raises a \<open>pyodbc.Error\<close> (the sanitized message).
  \<open>call_exchange_rate_service\<close> returns an outcome when the call is acknowledged,
  when it raises a SOAP fault with an explanation (the explanation), and when it
  raises a timeout or a connection error, and in these two cases the reason is the
  fixed message. An exception of any class that the function has no handler for is
  not caught: it leaves \<open>execute_insert\<close>, and \<open>call_exchange_rate_service\<close>, as that
  exception, and a SOAP fault whose explanation cannot be read leaves
  \<open>call_exchange_rate_service\<close> as an exception too. The file then fails: when a
  statement has raised such an exception while \<open>process_file\<close> ran, \<open>process_file\<close>
  raises that exception; when a call has raised such an exception or such a fault
  while \<open>process_exchange_rate_file\<close> ran, \<open>process_exchange_rate_file\<close> raises
  \<open>FileProcessingError\<close>.
\<close>

theorem C4_submit_returns_outcome_for_handled_classes:
  "(fault env (trace w) (DbExecute data1) = None \<longrightarrow> fst (execute_insert env data1 w) = Inr None)
   \<and> (fault env (trace w) (DbExecute data2) = Some (PyodbcError m) \<longrightarrow>
        fst (execute_insert env data2 w) = Inr (Some (sanitize env m)))
   \<and> (fault env (trace w) (WsCall r1) = None \<longrightarrow> fst (call_exchange_rate_service env r1 w) = Inr None)
   \<and> (fault env (trace w) (WsCall r2) = Some (ZeepFault (Some x)) \<longrightarrow>
        fst (call_exchange_rate_service env r2 w) = Inr (Some x))
   \<and> (fault env (trace w) (WsCall r3) = Some RequestsTimeout \<longrightarrow>
        fst (call_exchange_rate_service env r3 w)
          = Inr (Some ''SICS server connection attempt has failed. Please try again.''))
   \<and> (fault env (trace w) (WsCall r4) = Some RequestsConnectionError \<longrightarrow>
        fst (call_exchange_rate_service env r4 w)
          = Inr (Some ''SICS server connection attempt has failed. Please try again.''))
   \<and> (fault env (trace w) (WsCall r5) = Some (OtherException t) \<longrightarrow>
        fst (call_exchange_rate_service env r5 w) = Inl (OtherException t))
   \<and> (fault env (trace w) (DbExecute data3) = Some e1 \<and> \<not> caught_by_execute_insert e1 \<longrightarrow>
        fst (execute_insert env data3 w) = Inl e1)
   \<and> (fault env (trace w) (WsCall r6) = Some e2 \<and> \<not> caught_by_call_exchange_rate_service e2 \<longrightarrow>
        fst (call_exchange_rate_service env r6 w) = Inl e2)
   \<and> (fault env (trace w) (WsCall r7) = Some (ZeepFault None) \<longrightarrow>
        (\<exists>e. fst (call_exchange_rate_service env r7 w) = Inl e))
   \<and> ((DbExecute data4, Some e3)
          \<in> set (new_entries w (snd (process_file_with insert_order display_columns env file_path w)))
        \<and> \<not> caught_by_execute_insert e3 \<longrightarrow>
        fst (process_file_with insert_order display_columns env file_path w) = Inl e3)
   \<and> ((WsCall r8, Some e4) \<in> set (new_entries w (snd (process_exchange_rate_file env file_path w)))
        \<and> (e4 = ZeepFault None \<or> \<not> caught_by_call_exchange_rate_service e4) \<longrightarrow>
        fst (process_exchange_rate_file env file_path w)
          = Inl (FileProcessingError (''Failed to process '' @ path_name file_path)))"
proof -
  have c1_7: "(fault env (trace w) (DbExecute data1) = None \<longrightarrow> fst (execute_insert env data1 w) = Inr None)
   \<and> (fault env (trace w) (DbExecute data2) = Some (PyodbcError m) \<longrightarrow>
        fst (execute_insert env data2 w) = Inr (Some (sanitize env m)))
   \<and> (fault env (trace w) (WsCall r1) = None \<longrightarrow> fst (call_exchange_rate_service env r1 w) = Inr None)
   \<and> (fault env (trace w) (WsCall r2) = Some (ZeepFault (Some x)) \<longrightarrow>
        fst (call_exchange_rate_service env r2 w) = Inr (Some x))
   \<and> (fault env (trace w) (WsCall r3) = Some RequestsTimeout \<longrightarrow>
        fst (call_exchange_rate_service env r3 w)
          = Inr (Some ''SICS server connection attempt has failed. Please try again.''))
   \<and> (fault env (trace w) (WsCall r4) = Some RequestsConnectionError \<longrightarrow>
        fst (call_exchange_rate_service env r4 w)
          = Inr (Some ''SICS server connection attempt has failed. Please try again.''))
   \<and> (fault env (trace w) (WsCall r5) = Some (OtherException t) \<longrightarrow>
        fst (call_exchange_rate_service env r5 w) = Inl (OtherException t))"
    using execute_insert_cases[of env w data1] execute_insert_cases[of env w data2 m]
      call_exchange_rate_service_cases[of env w r1] call_exchange_rate_service_cases[of env w r2 x]
      call_timeout[of env w r3] call_timeout[of env w r4]
    by (auto simp: connection_failed_message_def call_exchange_rate_service_def try_except_def
          and_then_def perform_def throw_def)
  have c8: "fault env (trace w) (DbExecute data3) = Some e1 \<and> \<not> caught_by_execute_insert e1 \<longrightarrow>
        fst (execute_insert env data3 w) = Inl e1"
    using execute_insert_passes_on by blast
  have c9: "fault env (trace w) (WsCall r6) = Some e2 \<and> \<not> caught_by_call_exchange_rate_service e2 \<longrightarrow>
        fst (call_exchange_rate_service env r6 w) = Inl e2"
    using call_exchange_rate_service_passes_on by blast
  have c10: "fault env (trace w) (WsCall r7) = Some (ZeepFault None) \<longrightarrow>
        (\<exists>e. fst (call_exchange_rate_service env r7 w) = Inl e)"
    using call_exchange_rate_service_unreadable_fault by blast
  have c11: "(DbExecute data4, Some e3)
          \<in> set (new_entries w (snd (process_file_with insert_order display_columns env file_path w)))
        \<and> \<not> caught_by_execute_insert e3 \<longrightarrow>
        fst (process_file_with insert_order display_columns env file_path w) = Inl e3"
  proof
    assume a: "(DbExecute data4, Some e3)
          \<in> set (new_entries w (snd (process_file_with insert_order display_columns env file_path w)))
        \<and> \<not> caught_by_execute_insert e3"
    obtain r w' where p: "process_file_with insert_order display_columns env file_path w = (r, w')"
      by (cases "process_file_with insert_order display_columns env file_path w")
    from passes_onD[OF passes_on_process_file p] obtain ext where
      ext: "trace w' = trace w @ ext"
           "\<forall>d e. (DbExecute d, Some e) \<in> set ext \<and> \<not> caught_by_execute_insert e \<longrightarrow> r = Inl e"
      by blast
    from ext(1) have "new_entries w w' = ext" by (simp add: new_entries_def)
    with a p ext(2) have "r = Inl e3" by auto
    with p show "fst (process_file_with insert_order display_columns env file_path w) = Inl e3" by simp
  qed
  have c12: "(WsCall r8, Some e4) \<in> set (new_entries w (snd (process_exchange_rate_file env file_path w)))
        \<and> (e4 = ZeepFault None \<or> \<not> caught_by_call_exchange_rate_service e4) \<longrightarrow>
        fst (process_exchange_rate_file env file_path w)
          = Inl (FileProcessingError (''Failed to process '' @ path_name file_path))"
  proof
    assume a: "(WsCall r8, Some e4) \<in> set (new_entries w (snd (process_exchange_rate_file env file_path w)))
        \<and> (e4 = ZeepFault None \<or> \<not> caught_by_call_exchange_rate_service e4)"
    obtain r w' where p: "process_exchange_rate_file env file_path w = (r, w')"
      by (cases "process_exchange_rate_file env file_path w")
    from addsD[OF adds_process_exchange_rate_file_returned p] obtain ext where
      ext: "trace w' = trace w @ ext"
           "(\<exists>x. r = Inr x) \<longrightarrow> list_all (\<lambda>en. \<forall>x e. en = (WsCall x, Some e) \<longrightarrow>
               caught_by_call_exchange_rate_service e \<and> e \<noteq> ZeepFault None) ext"
      by blast
    from ext(1) have ne: "new_entries w w' = ext" by (simp add: new_entries_def)
    have "\<not> (\<exists>x. r = Inr x)"
    proof
      assume "\<exists>x. r = Inr x"
      with ext(2) have "list_all (\<lambda>en. \<forall>x e. en = (WsCall x, Some e) \<longrightarrow>
               caught_by_call_exchange_rate_service e \<and> e \<noteq> ZeepFault None) ext" by blast
      with a p ne show False by (auto simp: list_all_iff)
    qed
    then obtain e where "r = Inl e" by (cases r) auto
    with p process_exchange_rate_file_error[of env file_path w e w']
    show "fst (process_exchange_rate_file env file_path w)
          = Inl (FileProcessingError (''Failed to process '' @ path_name file_path))"
      by simp
  qed
  note k1 = c1_7[THEN conjunct1]
  note k2 = c1_7[THEN conjunct2, THEN conjunct1]
  note k3 = c1_7[THEN conjunct2, THEN conjunct2, THEN conjunct1]
  note k4 = c1_7[THEN conjunct2, THEN conjunct2, THEN conjunct2, THEN conjunct1]
  note k5 = c1_7[THEN conjunct2, THEN conjunct2, THEN conjunct2, THEN conjunct2, THEN conjunct1]
  note k6 = c1_7[THEN conjunct2, THEN conjunct2, THEN conjunct2, THEN conjunct2, THEN conjunct2,
                 THEN conjunct1]
  note k7 = c1_7[THEN conjunct2, THEN conjunct2, THEN conjunct2, THEN conjunct2, THEN conjunct2,
                 THEN conjunct2]
  show ?thesis by (intro conjI k1 k2 k3 k4 k5 k6 k7 c8 c9 c10 c11 c12)
qed

theorem C4_submit_returns_outcome_for_handled_classes_witness:
  "fault scenario_env (trace empty_world) (DbExecute [Text ''100'', Text ''1'']) = None
   \<and> fault scenario_env (trace empty_world) (DbExecute [Text ''BAD'', Text ''2'']) = Some (PyodbcError ''invalid amount'')
   \<and> fault scenario_env (trace empty_world) (WsCall ''1,100'') = None
   \<and> fault scenario_env (trace empty_world) (WsCall ''2,BAD'') = Some (ZeepFault (Some ''invalid amount. Check the rate.''))
   \<and> fault scenario_env (trace empty_world) (WsCall ''3,DOWN'') = Some RequestsTimeout
   \<and> fault scenario_env (trace empty_world) (WsCall ''4,REFUSED'') = Some RequestsConnectionError
   \<and> fault scenario_env (trace empty_world) (WsCall ''5,DENIED'') = Some (OtherException ''HTTPError: 401 Client Error'')
   \<and> fault scenario_env (trace empty_world) (DbExecute [Text ''ODD'', Text ''3''])
        = Some (OtherException ''TypeError: bad parameter'')
   \<and> fault scenario_env (trace empty_world) (WsCall ''6,VAGUE'') = Some (ZeepFault None)
   \<and> fst (execute_insert scenario_env [Text ''100'', Text ''1''] empty_world) = Inr None
   \<and> fst (execute_insert scenario_env [Text ''BAD'', Text ''2''] empty_world)
        = Inr (Some (sanitize scenario_env ''invalid amount''))
   \<and> fst (call_exchange_rate_service scenario_env ''1,100'' empty_world) = Inr None
   \<and> fst (call_exchange_rate_service scenario_env ''2,BAD'' empty_world)
        = Inr (Some ''invalid amount. Check the rate.'')
   \<and> fst (call_exchange_rate_service scenario_env ''3,DOWN'' empty_world)
        = Inr (Some ''SICS server connection attempt has failed. Please try again.'')
   \<and> fst (call_exchange_rate_service scenario_env ''4,REFUSED'' empty_world)
        = Inr (Some ''SICS server connection attempt has failed. Please try again.'')
   \<and> fst (call_exchange_rate_service scenario_env ''5,DENIED'' empty_world)
        = Inl (OtherException ''HTTPError: 401 Client Error'')
   \<and> fst (execute_insert scenario_env [Text ''ODD'', Text ''3''] empty_world)
        = Inl (OtherException ''TypeError: bad parameter'')
   \<and> (\<exists>e. fst (call_exchange_rate_service scenario_env ''6,VAGUE'' empty_world) = Inl e)
   \<and> (DbExecute [Text ''ODD'', Text ''3''], Some (OtherException ''TypeError: bad parameter''))
        \<in> set (new_entries (downloaded ''odd.csv'')
                 (snd (process_file_with [''AMOUNT'', ''ID''] [''ID'', ''AMOUNT''] scenario_env
                         (LocalPending, ''odd.csv'') (downloaded ''odd.csv''))))
   \<and> fst (process_file_with [''AMOUNT'', ''ID''] [''ID'', ''AMOUNT''] scenario_env
             (LocalPending, ''odd.csv'') (downloaded ''odd.csv''))
        = Inl (OtherException ''TypeError: bad parameter'')
   \<and> (WsCall ''5,DENIED'', Some (OtherException ''HTTPError: 401 Client Error''))
        \<in> set (new_entries (downloaded ''denied.csv'')
                 (snd (process_exchange_rate_file scenario_env (LocalPending, ''denied.csv'')
                         (downloaded ''denied.csv''))))
   \<and> fst (process_exchange_rate_file scenario_env (LocalPending, ''denied.csv'') (downloaded ''denied.csv''))
        = Inl (FileProcessingError ''Failed to process denied.csv'')"
proof -
  have h: "fault scenario_env (trace empty_world) (DbExecute [Text ''100'', Text ''1'']) = None"
    "fault scenario_env (trace empty_world) (DbExecute [Text ''BAD'', Text ''2'']) = Some (PyodbcError ''invalid amount'')"
    "fault scenario_env (trace empty_world) (WsCall ''1,100'') = None"
    "fault scenario_env (trace empty_world) (WsCall ''2,BAD'') = Some (ZeepFault (Some ''invalid amount. Check the rate.''))"
    "fault scenario_env (trace empty_world) (WsCall ''3,DOWN'') = Some RequestsTimeout"
    "fault scenario_env (trace empty_world) (WsCall ''4,REFUSED'') = Some RequestsConnectionError"
    "fault scenario_env (trace empty_world) (WsCall ''5,DENIED'') = Some (OtherException ''HTTPError: 401 Client Error'')"
    "fault scenario_env (trace empty_world) (DbExecute [Text ''ODD'', Text ''3''])
        = Some (OtherException ''TypeError: bad parameter'')"
    "fault scenario_env (trace empty_world) (WsCall ''6,VAGUE'') = Some (ZeepFault None)"
    by (simp_all add: scenario_env_def scenario_fault_def)
  have nc: "\<not> caught_by_execute_insert (OtherException ''TypeError: bad parameter'')"
           "\<not> caught_by_call_exchange_rate_service (OtherException ''HTTPError: 401 Client Error'')"
    by simp_all
  have t1: "(DbExecute [Text ''ODD'', Text ''3''], Some (OtherException ''TypeError: bad parameter''))
        \<in> set (new_entries (downloaded ''odd.csv'')
                 (snd (process_file_with [''AMOUNT'', ''ID''] [''ID'', ''AMOUNT''] scenario_env
                         (LocalPending, ''odd.csv'') (downloaded ''odd.csv''))))"
    by code_simp
  have t2: "(WsCall ''5,DENIED'', Some (OtherException ''HTTPError: 401 Client Error''))
        \<in> set (new_entries (downloaded ''denied.csv'')
                 (snd (process_exchange_rate_file scenario_env (LocalPending, ''denied.csv'')
                         (downloaded ''denied.csv''))))"
    by code_simp
  have n: "path_name (LocalPending, ''denied.csv'') = ''denied.csv''"
    by code_simp
  note calls = C4_submit_returns_outcome_for_handled_classes
      [where env = scenario_env and w = empty_world
         and ?data1.0 = "[Text ''100'', Text ''1'']" and ?data2.0 = "[Text ''BAD'', Text ''2'']"
         and m = "''invalid amount''" and ?r1.0 = "''1,100''" and ?r2.0 = "''2,BAD''"
         and x = "''invalid amount. Check the rate.''" and ?r3.0 = "''3,DOWN''"
         and ?r4.0 = "''4,REFUSED''" and ?r5.0 = "''5,DENIED''"
         and t = "''HTTPError: 401 Client Error''"
         and ?data3.0 = "[Text ''ODD'', Text ''3'']"
         and ?e1.0 = "OtherException ''TypeError: bad parameter''"
         and ?r6.0 = "''5,DENIED''" and ?e2.0 = "OtherException ''HTTPError: 401 Client Error''"
         and ?r7.0 = "''6,VAGUE''"]
  note odd = C4_submit_returns_outcome_for_handled_classes
      [where env = scenario_env and w = "downloaded ''odd.csv''"
         and insert_order = "[''AMOUNT'', ''ID'']" and display_columns = "[''ID'', ''AMOUNT'']"
         and file_path = "(LocalPending, ''odd.csv'')"
         and ?data4.0 = "[Text ''ODD'', Text ''3'']"
         and ?e3.0 = "OtherException ''TypeError: bad parameter''"]
  note denied = C4_submit_returns_outcome_for_handled_classes
      [where env = scenario_env and w = "downloaded ''denied.csv''"
         and file_path = "(LocalPending, ''denied.csv'')"
         and ?r8.0 = "''5,DENIED''" and ?e4.0 = "OtherException ''HTTPError: 401 Client Error''"]
  from calls[THEN conjunct1] h(1)
  have a1: "fst (execute_insert scenario_env [Text ''100'', Text ''1''] empty_world) = Inr None"
    by blast
  from calls[THEN conjunct2, THEN conjunct1] h(2)
  have a2: "fst (execute_insert scenario_env [Text ''BAD'', Text ''2''] empty_world)
        = Inr (Some (sanitize scenario_env ''invalid amount''))"
    by blast
  from calls[THEN conjunct2, THEN conjunct2, THEN conjunct1] h(3)
  have a3: "fst (call_exchange_rate_service scenario_env ''1,100'' empty_world) = Inr None"
    by blast
  from calls[THEN conjunct2, THEN conjunct2, THEN conjunct2, THEN conjunct1] h(4)
  have a4: "fst (call_exchange_rate_service scenario_env ''2,BAD'' empty_world)
        = Inr (Some ''invalid amount. Check the rate.'')"
    by blast
  from calls[THEN conjunct2, THEN conjunct2, THEN conjunct2, THEN conjunct2, THEN conjunct1] h(5)
  have a5: "fst (call_exchange_rate_service scenario_env ''3,DOWN'' empty_world)
        = Inr (Some ''SICS server connection attempt has failed. Please try again.'')"
    by blast
  from calls[THEN conjunct2, THEN conjunct2, THEN conjunct2, THEN conjunct2, THEN conjunct2,
             THEN conjunct1] h(6)
  have a6: "fst (call_exchange_rate_service scenario_env ''4,REFUSED'' empty_world)
        = Inr (Some ''SICS server connection attempt has failed. Please try again.'')"
    by blast
  note rest = calls[THEN conjunct2, THEN conjunct2, THEN conjunct2, THEN conjunct2, THEN conjunct2,
             THEN conjunct2]
  from rest[THEN conjunct1] h(7)
  have a7: "fst (call_exchange_rate_service scenario_env ''5,DENIED'' empty_world)
        = Inl (OtherException ''HTTPError: 401 Client Error'')"
    by blast
  from rest[THEN conjunct2, THEN conjunct1] h(8) nc(1)
  have a8: "fst (execute_insert scenario_env [Text ''ODD'', Text ''3''] empty_world)
        = Inl (OtherException ''TypeError: bad parameter'')"
    by blast
  from rest[THEN conjunct2, THEN conjunct2, THEN conjunct1] h(7) nc(2)
  have a9: "fst (call_exchange_rate_service scenario_env ''5,DENIED'' empty_world)
        = Inl (OtherException ''HTTPError: 401 Client Error'')"
    by blast
  from rest[THEN conjunct2, THEN conjunct2, THEN conjunct2, THEN conjunct1] h(9)
  have a10: "\<exists>e. fst (call_exchange_rate_service scenario_env ''6,VAGUE'' empty_world) = Inl e"
    by blast
  from odd[THEN conjunct2, THEN conjunct2, THEN conjunct2, THEN conjunct2, THEN conjunct2,
           THEN conjunct2, THEN conjunct2, THEN conjunct2, THEN conjunct2, THEN conjunct2,
           THEN conjunct1] t1 nc(1)
  have a11: "fst (process_file_with [''AMOUNT'', ''ID''] [''ID'', ''AMOUNT''] scenario_env
             (LocalPending, ''odd.csv'') (downloaded ''odd.csv''))
        = Inl (OtherException ''TypeError: bad parameter'')"
    by blast
  from denied[THEN conjunct2, THEN conjunct2, THEN conjunct2, THEN conjunct2, THEN conjunct2,
           THEN conjunct2, THEN conjunct2, THEN conjunct2, THEN conjunct2, THEN conjunct2,
           THEN conjunct2] t2 nc(2)
  have "fst (process_exchange_rate_file scenario_env (LocalPending, ''denied.csv'') (downloaded ''denied.csv''))
        = Inl (FileProcessingError (''Failed to process '' @ path_name (LocalPending, ''denied.csv'')))"
    by blast
  with n have a12: "fst (process_exchange_rate_file scenario_env (LocalPending, ''denied.csv'')
                           (downloaded ''denied.csv''))
        = Inl (FileProcessingError ''Failed to process denied.csv'')"
    by simp
  from h a1 a2 a3 a4 a5 a6 a7 a8 a10 t1 a11 t2 a12 show ?thesis
    by (intro conjI) assumption+
qed

text \<open>
  The claim as stated fails: the call for the record \<open>5,DENIED\<close> raises an exception
  that is neither a fault, a timeout nor a connection error, and
  \<open>call_exchange_rate_service\<close> raises it instead of returning an outcome.
\<close>

theorem C4_submit_raises_counterexample:
  "fst (call_exchange_rate_service scenario_env ''5,DENIED'' empty_world)
     = Inl (OtherException ''HTTPError: 401 Client Error'')"
  by code_simp

subsection \<open>Order of uploads and deletions\<close>

lemma no_delete_from_shape:
  assumes "t = A @ D" and "list_all no_delete A" and "delete_phase k p D"
    and "D \<noteq> [] \<longrightarrow> list_all upload_done A"
  shows "(\<exists>en\<in>set t. is_upload (fst en) \<and> snd en \<noteq> None) \<longrightarrow> list_all no_delete t"
proof
  assume "\<exists>en\<in>set t. is_upload (fst en) \<and> snd en \<noteq> None"
  then obtain en where en: "en \<in> set t" "is_upload (fst en)" "snd en \<noteq> None" by blast
  have "en \<notin> set D" using assms(3) en(2) by (auto simp: delete_phase_def)
  with en(1) assms(1) have "en \<in> set A" by simp
  with en have "\<not> list_all upload_done A" by (auto simp: list_all_iff)
  with assms(4) have "D = []" by blast
  with assms(1,2) show "list_all no_delete t" by simp
qed

lemma local_delete_from_shape:
  assumes t: "t = A @ D" and A: "list_all no_delete A" and D: "delete_phase k p D"
  shows "\<forall>j<length t. fst (t ! j) = LocalDelete q \<longrightarrow>
           q = p \<and> 0 < j \<and> t ! (j - 1) = (S3Delete k, None) \<and> Suc j = length t"
proof (intro allI impI)
  fix j assume j: "j < length t" and h: "fst (t ! j) = LocalDelete q"
  have jA: "length A \<le> j"
  proof (rule ccontr)
    assume "\<not> length A \<le> j"
    then have "\<not> is_delete (fst (t ! j))" using A t by (simp add: list_all_length nth_append)
    with h show False by simp
  qed
  with t j h have d: "j - length A < length D" "fst (D ! (j - length A)) = LocalDelete q"
    by (auto simp: nth_append)
  from D d obtain r where D2: "D = [(S3Delete k, None), (LocalDelete p, r)]"
    by (auto simp: delete_phase_def)
  with d have i: "j - length A = 1" "q = p"
    by (auto simp: nth_Cons split: nat.splits)
  with jA have j': "j = Suc (length A)" by arith
  with t D2 have "t ! (j - 1) = (S3Delete k, None)" by (simp add: nth_append)
  with j' i t D2 show "q = p \<and> 0 < j \<and> t ! (j - 1) = (S3Delete k, None) \<and> Suc j = length t"
    by simp
qed

text \<open>
  Claim C3. Take the calls made while one downloaded file is handled, in
  \<open>dataCED.py\<close> (the body of the loop of \<open>main\<close>) and in \<open>dataXRT.py\<close> (the body of the
  loop of \<open>run_exchange_rate_pipeline\<close>). Every upload comes before the deletion of
  the original object and has completed by then; the deletion of the object comes
  before the deletion of the local copy and has completed by then. When the
  processing of the file raises, or when an upload raises, no deletion is attempted
  at all. Once the deletion of the object is attempted in \<open>dataCED.py\<close>, each result
  file that exists after processing has been uploaded to its prefix; once
  \<open>process_exchange_rate_file\<close> has returned, each non-empty group has been uploaded
  to its prefix. The calls are, in this order: calls that delete nothing, then at most
  the deletion of the original object, then (only after that deletion has completed)
  at most the deletion of the local copy; every upload has completed when a deletion
  is attempted. So a local file is deleted only as the last call, it is the local
  copy of the file handled, and the call just before it is the completed deletion of
  the original object.
\<close>

theorem C3_uploads_before_remote_delete_before_local_delete:
  "(\<forall>i<length (new_entries w (snd (handle_file_with insert_order display_columns env local_path s3_key w))).
    \<forall>j<length (new_entries w (snd (handle_file_with insert_order display_columns env local_path s3_key w))).
      is_upload (fst (new_entries w (snd (handle_file_with insert_order display_columns env local_path s3_key w)) ! i)) \<and>
      fst (new_entries w (snd (handle_file_with insert_order display_columns env local_path s3_key w)) ! j) = S3Delete s3_key
      \<longrightarrow> i < j \<and> snd (new_entries w (snd (handle_file_with insert_order display_columns env local_path s3_key w)) ! i) = None)
   \<and> (\<forall>i<length (new_entries w (snd (handle_file_with insert_order display_columns env local_path s3_key w))).
    \<forall>j<length (new_entries w (snd (handle_file_with insert_order display_columns env local_path s3_key w))).
      fst (new_entries w (snd (handle_file_with insert_order display_columns env local_path s3_key w)) ! i) = S3Delete s3_key \<and>
      fst (new_entries w (snd (handle_file_with insert_order display_columns env local_path s3_key w)) ! j) = LocalDelete local_path
      \<longrightarrow> i < j \<and> snd (new_entries w (snd (handle_file_with insert_order display_columns env local_path s3_key w)) ! i) = None)
   \<and> ((\<exists>e. fst (process_file_with insert_order display_columns env local_path w) = Inl e) \<longrightarrow>
        list_all no_delete (new_entries w (snd (handle_file_with insert_order display_columns env local_path s3_key w))))
   \<and> ((\<exists>en\<in>set (new_entries w (snd (handle_file_with insert_order display_columns env local_path s3_key w))).
          is_upload (fst en) \<and> snd en \<noteq> None) \<longrightarrow>
        list_all no_delete (new_entries w (snd (handle_file_with insert_order display_columns env local_path s3_key w))))
   \<and> ((S3Delete s3_key, x) \<in> set (new_entries w (snd (handle_file_with insert_order display_columns env local_path s3_key w))) \<longrightarrow>
        (file_exists (LocalProcessed, ced_success_filename (path_name local_path))
           (snd (process_file_with insert_order display_columns env local_path w)) \<longrightarrow>
         (S3Upload (LocalProcessed, ced_success_filename (path_name local_path))
                   (S3Processed, ced_success_filename (path_name local_path)), None)
           \<in> set (new_entries w (snd (handle_file_with insert_order display_columns env local_path s3_key w)))) \<and>
        (file_exists (LocalError, ced_error_filename (path_name local_path))
           (snd (process_file_with insert_order display_columns env local_path w)) \<longrightarrow>
         (S3Upload (LocalError, ced_error_filename (path_name local_path))
                   (S3Error, ced_error_filename (path_name local_path)), None)
           \<in> set (new_entries w (snd (handle_file_with insert_order display_columns env local_path s3_key w)))))
   \<and> (\<forall>i<length (new_entries w (snd (xrt_handle_file env filename local_path w))).
    \<forall>j<length (new_entries w (snd (xrt_handle_file env filename local_path w))).
      is_upload (fst (new_entries w (snd (xrt_handle_file env filename local_path w)) ! i)) \<and>
      fst (new_entries w (snd (xrt_handle_file env filename local_path w)) ! j) = S3Delete (S3Pending, filename)
      \<longrightarrow> i < j \<and> snd (new_entries w (snd (xrt_handle_file env filename local_path w)) ! i) = None)
   \<and> (\<forall>i<length (new_entries w (snd (xrt_handle_file env filename local_path w))).
    \<forall>j<length (new_entries w (snd (xrt_handle_file env filename local_path w))).
      fst (new_entries w (snd (xrt_handle_file env filename local_path w)) ! i) = S3Delete (S3Pending, filename) \<and>
      fst (new_entries w (snd (xrt_handle_file env filename local_path w)) ! j) = LocalDelete local_path
      \<longrightarrow> i < j \<and> snd (new_entries w (snd (xrt_handle_file env filename local_path w)) ! i) = None)
   \<and> ((\<exists>e. fst (process_exchange_rate_file env local_path w) = Inl e) \<longrightarrow>
        list_all no_delete (new_entries w (snd (xrt_handle_file env filename local_path w))))
   \<and> ((\<exists>en\<in>set (new_entries w (snd (xrt_handle_file env filename local_path w))).
          is_upload (fst en) \<and> snd en \<noteq> None) \<longrightarrow>
        list_all no_delete (new_entries w (snd (xrt_handle_file env filename local_path w))))
   \<and> (fst (process_exchange_rate_file env local_path w) = Inr result \<longrightarrow>
        (0 < error_count result \<longrightarrow>
           (S3Upload (LocalPending, xrt_output_filename (path_name local_path) ''_error'')
                     (S3Error, xrt_output_filename (path_name local_path) ''_error''), None)
             \<in> set (new_entries w (snd (xrt_handle_file env filename local_path w)))) \<and>
        (0 < success_count result \<longrightarrow>
           (S3Upload (LocalPending, xrt_output_filename (path_name local_path) ''_ok'')
                     (S3Processed, xrt_output_filename (path_name local_path) ''_ok''), None)
             \<in> set (new_entries w (snd (xrt_handle_file env filename local_path w)))))
   \<and> (\<exists>A D. new_entries w (snd (handle_file_with insert_order display_columns env local_path s3_key w)) = A @ D
          \<and> list_all no_delete A \<and> delete_phase s3_key local_path D
          \<and> (D \<noteq> [] \<longrightarrow> list_all upload_done A))
   \<and> (\<forall>j<length (new_entries w (snd (handle_file_with insert_order display_columns env local_path s3_key w))).
        fst (new_entries w (snd (handle_file_with insert_order display_columns env local_path s3_key w)) ! j) = LocalDelete deleted_path
        \<longrightarrow> deleted_path = local_path \<and> 0 < j
          \<and> new_entries w (snd (handle_file_with insert_order display_columns env local_path s3_key w)) ! (j - 1)
              = (S3Delete s3_key, None)
          \<and> Suc j = length (new_entries w (snd (handle_file_with insert_order display_columns env local_path s3_key w))))
   \<and> (\<exists>A D. new_entries w (snd (xrt_handle_file env filename local_path w)) = A @ D
          \<and> list_all no_delete A \<and> delete_phase (S3Pending, filename) local_path D
          \<and> (D \<noteq> [] \<longrightarrow> list_all upload_done A))
   \<and> (\<forall>j<length (new_entries w (snd (xrt_handle_file env filename local_path w))).
        fst (new_entries w (snd (xrt_handle_file env filename local_path w)) ! j) = LocalDelete deleted_path
        \<longrightarrow> deleted_path = local_path \<and> 0 < j
          \<and> new_entries w (snd (xrt_handle_file env filename local_path w)) ! (j - 1)
              = (S3Delete (S3Pending, filename), None)
          \<and> Suc j = length (new_entries w (snd (xrt_handle_file env filename local_path w))))"
proof -
  obtain r1 w1 where h1: "handle_file_with insert_order display_columns env local_path s3_key w = (r1, w1)"
    by (cases "handle_file_with insert_order display_columns env local_path s3_key w")
  obtain r2 w2 where h2: "xrt_handle_file env filename local_path w = (r2, w2)"
    by (cases "xrt_handle_file env filename local_path w")
  from handle_file_shape[OF h1] obtain A D where
    s1: "trace w1 = trace w @ A @ D" "list_all no_delete A" "delete_phase s3_key local_path D"
        "D \<noteq> [] \<longrightarrow> list_all upload_done A"
        "(\<exists>e. fst (process_file_with insert_order display_columns env local_path w) = Inl e) \<longrightarrow> D = []"
    by blast
  from s1(1) have t1: "new_entries w w1 = A @ D" by (simp add: new_entries_def)
  from xrt_handle_file_shape[OF h2] obtain A' D' where
    s2: "trace w2 = trace w @ A' @ D'" "list_all no_delete A'"
        "delete_phase (S3Pending, filename) local_path D'"
        "D' \<noteq> [] \<longrightarrow> list_all upload_done A'"
        "(\<exists>e. fst (process_exchange_rate_file env local_path w) = Inl e) \<longrightarrow> D' = []"
    by blast
  from s2(1) have t2: "new_entries w w2 = A' @ D'" by (simp add: new_entries_def)
  have c3: "(\<exists>e. fst (process_file_with insert_order display_columns env local_path w) = Inl e) \<longrightarrow>
        list_all no_delete (new_entries w w1)"
    using s1(2,5) t1 by auto
  have c8: "(\<exists>e. fst (process_exchange_rate_file env local_path w) = Inl e) \<longrightarrow>
        list_all no_delete (new_entries w w2)"
    using s2(2,5) t2 by auto
  have c5: "(S3Delete s3_key, x) \<in> set (new_entries w w1) \<longrightarrow>
        (file_exists (LocalProcessed, ced_success_filename (path_name local_path))
           (snd (process_file_with insert_order display_columns env local_path w)) \<longrightarrow>
         (S3Upload (LocalProcessed, ced_success_filename (path_name local_path))
                   (S3Processed, ced_success_filename (path_name local_path)), None)
           \<in> set (new_entries w w1)) \<and>
        (file_exists (LocalError, ced_error_filename (path_name local_path))
           (snd (process_file_with insert_order display_columns env local_path w)) \<longrightarrow>
         (S3Upload (LocalError, ced_error_filename (path_name local_path))
                   (S3Error, ced_error_filename (path_name local_path)), None)
           \<in> set (new_entries w w1))"
    using ced_artifacts_uploaded[OF h1] by blast
  have c10: "fst (process_exchange_rate_file env local_path w) = Inr result \<longrightarrow>
        (0 < error_count result \<longrightarrow>
           (S3Upload (LocalPending, xrt_output_filename (path_name local_path) ''_error'')
                     (S3Error, xrt_output_filename (path_name local_path) ''_error''), None)
             \<in> set (new_entries w w2)) \<and>
        (0 < success_count result \<longrightarrow>
           (S3Upload (LocalPending, xrt_output_filename (path_name local_path) ''_ok'')
                     (S3Processed, xrt_output_filename (path_name local_path) ''_ok''), None)
             \<in> set (new_entries w w2))"
    using xrt_artifacts_uploaded[OF h2] by blast
  note o1 = order_from_shape[OF t1 s1(2,3,4)]
  note o2 = order_from_shape[OF t2 s2(2,3,4)]
  note n1 = no_delete_from_shape[OF t1 s1(2,3,4)]
  note n2 = no_delete_from_shape[OF t2 s2(2,3,4)]
  note l1 = local_delete_from_shape[OF t1 s1(2,3), of deleted_path]
  note l2 = local_delete_from_shape[OF t2 s2(2,3), of deleted_path]
  have e1: "\<exists>A D. new_entries w w1 = A @ D
          \<and> list_all no_delete A \<and> delete_phase s3_key local_path D
          \<and> (D \<noteq> [] \<longrightarrow> list_all upload_done A)"
    using t1 s1(2,3,4) by blast
  have e2: "\<exists>A D. new_entries w w2 = A @ D
          \<and> list_all no_delete A \<and> delete_phase (S3Pending, filename) local_path D
          \<and> (D \<noteq> [] \<longrightarrow> list_all upload_done A)"
    using t2 s2(2,3,4) by blast
  show ?thesis
    unfolding h1 h2 snd_conv
    by (intro conjI o1 o2 n1 n2 c3 c5 c8 c10 e1 e2 l1 l2)
qed

theorem C3_uploads_before_remote_delete_before_local_delete_witness:
  "ced_run ''rates.csv'' =
     [(DbConnect, None), (DbExecute [Text ''100'', Text ''1''], None),
      (DbExecute [Text ''BAD'', Text ''2''], Some (PyodbcError ''invalid amount'')),
      (DbCommit, None), (LocalWrite (LocalError, ''rates_error.csv''), None),
      (LocalWrite (LocalProcessed, ''rates_ok.csv''), None),
      (S3Upload (LocalProcessed, ''rates_ok.csv'') (S3Processed, ''rates_ok.csv''), None),
      (S3Upload (LocalError, ''rates_error.csv'') (S3Error, ''rates_error.csv''), None),
      (S3Delete (S3Pending, ''rates.csv''), None),
      (LocalDelete (LocalPending, ''rates.csv''), None)]
   \<and> xrt_run ''rates.csv'' =
     [(WsCall ''1,100'', None),
      (WsCall ''2,BAD'', Some (ZeepFault (Some ''invalid amount. Check the rate.''))),
      (LocalWrite (LocalPending, ''rates_error.csv''), None),
      (S3Upload (LocalPending, ''rates_error.csv'') (S3Error, ''rates_error.csv''), None),
      (LocalMkdir LocalError, None),
      (LocalMove (LocalPending, ''rates_error.csv'') (LocalError, ''rates_error.csv''), None),
      (LocalWrite (LocalPending, ''rates_ok.csv''), None),
      (S3Upload (LocalPending, ''rates_ok.csv'') (S3Processed, ''rates_ok.csv''), None),
      (LocalMkdir LocalProcessed, None),
      (LocalMove (LocalPending, ''rates_ok.csv'') (LocalProcessed, ''rates_ok.csv''), None),
      (S3Delete (S3Pending, ''rates.csv''), None),
      (LocalDelete (LocalPending, ''rates.csv''), None)]
   \<and> ced_run ''full.csv'' =
     [(DbConnect, None), (DbExecute [Text ''100'', Text ''1''], None),
      (DbExecute [Text ''BAD'', Text ''2''], Some (PyodbcError ''invalid amount'')),
      (DbCommit, None), (LocalWrite (LocalError, ''full_error.csv''), None),
      (LocalWrite (LocalProcessed, ''full_ok.csv''), None),
      (S3Upload (LocalProcessed, ''full_ok.csv'') (S3Processed, ''full_ok.csv''),
       Some (ClientError ''AccessDenied''))]
   \<and> xrt_run ''full.csv'' =
     [(WsCall ''1,100'', None),
      (WsCall ''2,BAD'', Some (ZeepFault (Some ''invalid amount. Check the rate.''))),
      (LocalWrite (LocalPending, ''full_error.csv''), None),
      (S3Upload (LocalPending, ''full_error.csv'') (S3Error, ''full_error.csv''), None),
      (LocalMkdir LocalError, None),
      (LocalMove (LocalPending, ''full_error.csv'') (LocalError, ''full_error.csv''), None),
      (LocalWrite (LocalPending, ''full_ok.csv''), None),
      (S3Upload (LocalPending, ''full_ok.csv'') (S3Processed, ''full_ok.csv''),
       Some (ClientError ''AccessDenied''))]
   \<and> (\<exists>e. fst (process_file_with [''AMOUNT'', ''ID''] [''ID'', ''AMOUNT''] scenario_env
               (LocalPending, ''short.csv'') (downloaded ''short.csv'')) = Inl e)
   \<and> fst (process_exchange_rate_file scenario_env (LocalPending, ''denied.csv'') (downloaded ''denied.csv''))
       = Inl (FileProcessingError ''Failed to process denied.csv'')
   \<and> fst (process_exchange_rate_file scenario_env (LocalPending, ''rates.csv'') (downloaded ''rates.csv''))
       = Inr \<lparr>success_count = 1, error_count = 1,
              success_file = Some (LocalProcessed, ''rates_ok.csv''),
              error_file = Some (LocalError, ''rates_error.csv'')\<rparr>
   \<and> snd (ced_run ''rates.csv'' ! 6) = None
   \<and> snd (ced_run ''rates.csv'' ! 7) = None
   \<and> snd (ced_run ''rates.csv'' ! 8) = None
   \<and> list_all no_delete (ced_run ''short.csv'')
   \<and> list_all no_delete (ced_run ''full.csv'')
   \<and> (S3Upload (LocalProcessed, ''rates_ok.csv'') (S3Processed, ''rates_ok.csv''), None)
         \<in> set (ced_run ''rates.csv'')
   \<and> (S3Upload (LocalError, ''rates_error.csv'') (S3Error, ''rates_error.csv''), None)
         \<in> set (ced_run ''rates.csv'')
   \<and> snd (xrt_run ''rates.csv'' ! 3) = None
   \<and> snd (xrt_run ''rates.csv'' ! 7) = None
   \<and> snd (xrt_run ''rates.csv'' ! 10) = None
   \<and> list_all no_delete (xrt_run ''denied.csv'')
   \<and> list_all no_delete (xrt_run ''full.csv'')
   \<and> (S3Upload (LocalPending, ''rates_error.csv'') (S3Error, ''rates_error.csv''), None)
         \<in> set (xrt_run ''rates.csv'')
   \<and> (S3Upload (LocalPending, ''rates_ok.csv'') (S3Processed, ''rates_ok.csv''), None)
         \<in> set (xrt_run ''rates.csv'')
   \<and> ced_run ''rates.csv'' ! (9 - 1) = (S3Delete (S3Pending, ''rates.csv''), None)
   \<and> xrt_run ''rates.csv'' ! (11 - 1) = (S3Delete (S3Pending, ''rates.csv''), None)
   \<and> (\<exists>A D. ced_run ''rates.csv'' = A @ D \<and> D \<noteq> [] \<and> list_all no_delete A
          \<and> delete_phase (S3Pending, ''rates.csv'') (LocalPending, ''rates.csv'') D
          \<and> list_all (\<lambda>en. snd en = None) (filter (\<lambda>en. is_upload (fst en)) A))
   \<and> (\<exists>A D. xrt_run ''rates.csv'' = A @ D \<and> D \<noteq> [] \<and> list_all no_delete A
          \<and> delete_phase (S3Pending, ''rates.csv'') (LocalPending, ''rates.csv'') D
          \<and> list_all (\<lambda>en. snd en = None) (filter (\<lambda>en. is_upload (fst en)) A))"
proof -
  have t1: "ced_run ''rates.csv'' =
     [(DbConnect, None), (DbExecute [Text ''100'', Text ''1''], None),
      (DbExecute [Text ''BAD'', Text ''2''], Some (PyodbcError ''invalid amount'')),
      (DbCommit, None), (LocalWrite (LocalError, ''rates_error.csv''), None),
      (LocalWrite (LocalProcessed, ''rates_ok.csv''), None),
      (S3Upload (LocalProcessed, ''rates_ok.csv'') (S3Processed, ''rates_ok.csv''), None),
      (S3Upload (LocalError, ''rates_error.csv'') (S3Error, ''rates_error.csv''), None),
      (S3Delete (S3Pending, ''rates.csv''), None),
      (LocalDelete (LocalPending, ''rates.csv''), None)]"
    by code_simp
  have t2: "xrt_run ''rates.csv'' =
     [(WsCall ''1,100'', None),
      (WsCall ''2,BAD'', Some (ZeepFault (Some ''invalid amount. Check the rate.''))),
      (LocalWrite (LocalPending, ''rates_error.csv''), None),
      (S3Upload (LocalPending, ''rates_error.csv'') (S3Error, ''rates_error.csv''), None),
      (LocalMkdir LocalError, None),
      (LocalMove (LocalPending, ''rates_error.csv'') (LocalError, ''rates_error.csv''), None),
      (LocalWrite (LocalPending, ''rates_ok.csv''), None),
      (S3Upload (LocalPending, ''rates_ok.csv'') (S3Processed, ''rates_ok.csv''), None),
      (LocalMkdir LocalProcessed, None),
      (LocalMove (LocalPending, ''rates_ok.csv'') (LocalProcessed, ''rates_ok.csv''), None),
      (S3Delete (S3Pending, ''rates.csv''), None),
      (LocalDelete (LocalPending, ''rates.csv''), None)]"
    by code_simp
  have t3: "ced_run ''full.csv'' =
     [(DbConnect, None), (DbExecute [Text ''100'', Text ''1''], None),
      (DbExecute [Text ''BAD'', Text ''2''], Some (PyodbcError ''invalid amount'')),
      (DbCommit, None), (LocalWrite (LocalError, ''full_error.csv''), None),
      (LocalWrite (LocalProcessed, ''full_ok.csv''), None),
      (S3Upload (LocalProcessed, ''full_ok.csv'') (S3Processed, ''full_ok.csv''),
       Some (ClientError ''AccessDenied''))]"
    by code_simp
  have t4: "xrt_run ''full.csv'' =
     [(WsCall ''1,100'', None),
      (WsCall ''2,BAD'', Some (ZeepFault (Some ''invalid amount. Check the rate.''))),
      (LocalWrite (LocalPending, ''full_error.csv''), None),
      (S3Upload (LocalPending, ''full_error.csv'') (S3Error, ''full_error.csv''), None),
      (LocalMkdir LocalError, None),
      (LocalMove (LocalPending, ''full_error.csv'') (LocalError, ''full_error.csv''), None),
      (LocalWrite (LocalPending, ''full_ok.csv''), None),
      (S3Upload (LocalPending, ''full_ok.csv'') (S3Processed, ''full_ok.csv''),
       Some (ClientError ''AccessDenied''))]"
    by code_simp
  have p1: "fst (process_file_with [''AMOUNT'', ''ID''] [''ID'', ''AMOUNT''] scenario_env
               (LocalPending, ''short.csv'') (downloaded ''short.csv''))
       = Inl (ValueError (''CSV file is missing required columns: ['' @ [CHR 0x27] @ ''AMOUNT'' @ [CHR 0x27] @ '']''))"
    by code_simp
  then have p1': "\<exists>e. fst (process_file_with [''AMOUNT'', ''ID''] [''ID'', ''AMOUNT''] scenario_env
               (LocalPending, ''short.csv'') (downloaded ''short.csv'')) = Inl e"
    by blast
  have p2: "fst (process_exchange_rate_file scenario_env (LocalPending, ''denied.csv'') (downloaded ''denied.csv''))
       = Inl (FileProcessingError ''Failed to process denied.csv'')"
    by code_simp
  then have p2': "\<exists>e. fst (process_exchange_rate_file scenario_env (LocalPending, ''denied.csv'')
                   (downloaded ''denied.csv'')) = Inl e"
    by blast
  have p3: "fst (process_exchange_rate_file scenario_env (LocalPending, ''rates.csv'') (downloaded ''rates.csv''))
       = Inr \<lparr>success_count = 1, error_count = 1,
              success_file = Some (LocalProcessed, ''rates_ok.csv''),
              error_file = Some (LocalError, ''rates_error.csv'')\<rparr>"
    by code_simp
  have f1: "file_exists (LocalProcessed, ced_success_filename (path_name (LocalPending, ''rates.csv'')))
              (snd (process_file_with [''AMOUNT'', ''ID''] [''ID'', ''AMOUNT''] scenario_env
                      (LocalPending, ''rates.csv'') (downloaded ''rates.csv'')))"
    by code_simp
  have f2: "file_exists (LocalError, ced_error_filename (path_name (LocalPending, ''rates.csv'')))
              (snd (process_file_with [''AMOUNT'', ''ID''] [''ID'', ''AMOUNT''] scenario_env
                      (LocalPending, ''rates.csv'') (downloaded ''rates.csv'')))"
    by code_simp
  have n1: "ced_success_filename ''rates.csv'' = ''rates_ok.csv''"
    and n2: "ced_error_filename ''rates.csv'' = ''rates_error.csv''"
    and n3: "xrt_output_filename ''rates.csv'' ''_error'' = ''rates_error.csv''"
    and n4: "xrt_output_filename ''rates.csv'' ''_ok'' = ''rates_ok.csv''"
    and n5: "path_name (LocalPending, ''rates.csv'') = ''rates.csv''"
    by code_simp+
  note rates = C3_uploads_before_remote_delete_before_local_delete
      [where env = scenario_env and w = "downloaded ''rates.csv''"
         and insert_order = "[''AMOUNT'', ''ID'']" and display_columns = "[''ID'', ''AMOUNT'']"
         and local_path = "(LocalPending, ''rates.csv'')" and s3_key = "(S3Pending, ''rates.csv'')"
         and filename = "''rates.csv''" and x = None
         and deleted_path = "(LocalPending, ''rates.csv'')"
         and result = "\<lparr>success_count = 1, error_count = 1,
              success_file = Some (LocalProcessed, ''rates_ok.csv''),
              error_file = Some (LocalError, ''rates_error.csv'')\<rparr>",
       folded ced_run_def xrt_run_def]
  note short = C3_uploads_before_remote_delete_before_local_delete
      [where env = scenario_env and w = "downloaded ''short.csv''"
         and insert_order = "[''AMOUNT'', ''ID'']" and display_columns = "[''ID'', ''AMOUNT'']"
         and local_path = "(LocalPending, ''short.csv'')" and s3_key = "(S3Pending, ''short.csv'')"
         and filename = "''short.csv''",
       folded ced_run_def xrt_run_def]
  note full = C3_uploads_before_remote_delete_before_local_delete
      [where env = scenario_env and w = "downloaded ''full.csv''"
         and insert_order = "[''AMOUNT'', ''ID'']" and display_columns = "[''ID'', ''AMOUNT'']"
         and local_path = "(LocalPending, ''full.csv'')" and s3_key = "(S3Pending, ''full.csv'')"
         and filename = "''full.csv''",
       folded ced_run_def xrt_run_def]
  note denied = C3_uploads_before_remote_delete_before_local_delete
      [where env = scenario_env and w = "downloaded ''denied.csv''"
         and insert_order = "[''AMOUNT'', ''ID'']" and display_columns = "[''ID'', ''AMOUNT'']"
         and local_path = "(LocalPending, ''denied.csv'')" and s3_key = "(S3Pending, ''denied.csv'')"
         and filename = "''denied.csv''",
       folded ced_run_def xrt_run_def]
  have a1: "snd (ced_run ''rates.csv'' ! 6) = None"
    using rates[THEN conjunct1, rule_format, of 6 8] by (simp add: t1)
  have a1': "snd (ced_run ''rates.csv'' ! 7) = None"
    using rates[THEN conjunct1, rule_format, of 7 8] by (simp add: t1)
  have a2: "snd (ced_run ''rates.csv'' ! 8) = None"
    using rates[THEN conjunct2, THEN conjunct1, rule_format, of 8 9] by (simp add: t1)
  have a3: "list_all no_delete (ced_run ''short.csv'')"
    using short[THEN conjunct2, THEN conjunct2, THEN conjunct1] p1' by blast
  have a4: "list_all no_delete (ced_run ''full.csv'')"
    using full[THEN conjunct2, THEN conjunct2, THEN conjunct2, THEN conjunct1]
    by (simp add: t3)
  have a5: "(S3Upload (LocalProcessed, ''rates_ok.csv'') (S3Processed, ''rates_ok.csv''), None)
         \<in> set (ced_run ''rates.csv'')
       \<and> (S3Upload (LocalError, ''rates_error.csv'') (S3Error, ''rates_error.csv''), None)
         \<in> set (ced_run ''rates.csv'')"
    using rates[THEN conjunct2, THEN conjunct2, THEN conjunct2, THEN conjunct2, THEN conjunct1] f1 f2
    by (simp add: t1 n1 n2 n5)
  have a6: "snd (xrt_run ''rates.csv'' ! 3) = None"
    using rates[THEN conjunct2, THEN conjunct2, THEN conjunct2, THEN conjunct2, THEN conjunct2,
                THEN conjunct1, rule_format, of 3 10] by (simp add: t2)
  have a6': "snd (xrt_run ''rates.csv'' ! 7) = None"
    using rates[THEN conjunct2, THEN conjunct2, THEN conjunct2, THEN conjunct2, THEN conjunct2,
                THEN conjunct1, rule_format, of 7 10] by (simp add: t2)
  have a7: "snd (xrt_run ''rates.csv'' ! 10) = None"
    using rates[THEN conjunct2, THEN conjunct2, THEN conjunct2, THEN conjunct2, THEN conjunct2,
                THEN conjunct2, THEN conjunct1, rule_format, of 10 11] by (simp add: t2)
  have a8: "list_all no_delete (xrt_run ''denied.csv'')"
    using denied[THEN conjunct2, THEN conjunct2, THEN conjunct2, THEN conjunct2, THEN conjunct2,
                 THEN conjunct2, THEN conjunct2, THEN conjunct1] p2' by blast
  have a9: "list_all no_delete (xrt_run ''full.csv'')"
    using full[THEN conjunct2, THEN conjunct2, THEN conjunct2, THEN conjunct2, THEN conjunct2,
               THEN conjunct2, THEN conjunct2, THEN conjunct2, THEN conjunct1]
    by (simp add: t4)
  have a10: "(S3Upload (LocalPending, ''rates_error.csv'') (S3Error, ''rates_error.csv''), None)
         \<in> set (xrt_run ''rates.csv'')
       \<and> (S3Upload (LocalPending, ''rates_ok.csv'') (S3Processed, ''rates_ok.csv''), None)
         \<in> set (xrt_run ''rates.csv'')"
    using rates[THEN conjunct2, THEN conjunct2, THEN conjunct2, THEN conjunct2, THEN conjunct2,
                THEN conjunct2, THEN conjunct2, THEN conjunct2, THEN conjunct2, THEN conjunct1] p3
    by (simp add: n3 n4 n5)
  note tail = rates[THEN conjunct2, THEN conjunct2, THEN conjunct2, THEN conjunct2, THEN conjunct2,
                THEN conjunct2, THEN conjunct2, THEN conjunct2, THEN conjunct2, THEN conjunct2]
  have a11: "ced_run ''rates.csv'' ! (9 - 1) = (S3Delete (S3Pending, ''rates.csv''), None)"
    using tail[THEN conjunct2, THEN conjunct1, rule_format, of 9] by (simp add: t1)
  have a12: "xrt_run ''rates.csv'' ! (11 - 1) = (S3Delete (S3Pending, ''rates.csv''), None)"
    using tail[THEN conjunct2, THEN conjunct2, THEN conjunct2, rule_format, of 11] by (simp add: t2)
  have up: "\<And>A. list_all upload_done A \<Longrightarrow>
              list_all (\<lambda>en. snd en = None) (filter (\<lambda>en. is_upload (fst en)) A)"
    by (simp add: list_all_iff)
  have a13: "\<exists>A D. ced_run ''rates.csv'' = A @ D \<and> D \<noteq> [] \<and> list_all no_delete A
          \<and> delete_phase (S3Pending, ''rates.csv'') (LocalPending, ''rates.csv'') D
          \<and> list_all (\<lambda>en. snd en = None) (filter (\<lambda>en. is_upload (fst en)) A)"
  proof -
    from tail[THEN conjunct1] obtain A D where
      s: "ced_run ''rates.csv'' = A @ D" "list_all no_delete A"
         "delete_phase (S3Pending, ''rates.csv'') (LocalPending, ''rates.csv'') D"
         "D \<noteq> [] \<longrightarrow> list_all upload_done A"
      by blast
    have ne: "D \<noteq> []"
    proof
      assume "D = []"
      with s(1,2) have "list_all no_delete (ced_run ''rates.csv'')" by simp
      then show False by (simp add: t1)
    qed
    with s(4) have "list_all upload_done A" by blast
    from up[OF this] s ne show ?thesis by blast
  qed
  have a14: "\<exists>A D. xrt_run ''rates.csv'' = A @ D \<and> D \<noteq> [] \<and> list_all no_delete A
          \<and> delete_phase (S3Pending, ''rates.csv'') (LocalPending, ''rates.csv'') D
          \<and> list_all (\<lambda>en. snd en = None) (filter (\<lambda>en. is_upload (fst en)) A)"
  proof -
    from tail[THEN conjunct2, THEN conjunct2, THEN conjunct1] obtain A D where
      s: "xrt_run ''rates.csv'' = A @ D" "list_all no_delete A"
         "delete_phase (S3Pending, ''rates.csv'') (LocalPending, ''rates.csv'') D"
         "D \<noteq> [] \<longrightarrow> list_all upload_done A"
      by blast
    have ne: "D \<noteq> []"
    proof
      assume "D = []"
      with s(1,2) have "list_all no_delete (xrt_run ''rates.csv'')" by simp
      then show False by (simp add: t2)
    qed
    with s(4) have "list_all upload_done A" by blast
    from up[OF this] s ne show ?thesis by blast
  qed
  from t1 t2 t3 t4 p1' p2 p3 a1 a1' a2 a3 a4 a5 a6 a6' a7 a8 a9 a10 a11 a12 a13 a14 show ?thesis
    by (intro conjI) (rule TrueI | assumption | erule conjunct1 | erule conjunct2)+
qed

subsection \<open>Failures of one file\<close>

lemma keeps_ret [simp]: "keeps f (ret x)"
  by (simp add: keeps_def)

lemma keeps_throw [simp]: "keeps f (throw e)"
  by (simp add: keeps_def)

lemma keepsD: "keeps f m \<Longrightarrow> m w = (r, w') \<Longrightarrow> f w' = f w"
  unfolding keeps_def by (erule allE[of _ w], erule allE[of _ r], erule allE[of _ w']) simp

lemma keeps_modify: "(\<And>w. f (g w) = f w) \<Longrightarrow> keeps f (modify g)"
  by (simp add: keeps_def modify_def)

lemma keeps_perform: "(\<And>w t. f (w\<lparr>trace := t\<rparr>) = f w) \<Longrightarrow> keeps f (perform env ev)"
  by (auto simp: keeps_def perform_def split: option.splits)

lemma keeps_and_then:
  assumes "keeps f m" and "\<And>x. keeps f (g x)"
  shows "keeps f (and_then m g)"
  unfolding keeps_def
proof (intro allI impI)
  fix w r w'
  assume a: "and_then m g w = (r, w')"
  obtain r1 w1 where m: "m w = (r1, w1)" by (cases "m w")
  from keepsD[OF assms(1) m] have k1: "f w1 = f w" .
  show "f w' = f w"
  proof (cases r1)
    case (Inl e)
    with a m k1 show ?thesis by (simp add: and_then_def)
  next
    case (Inr x)
    with a m have "g x w1 = (r, w')" by (simp add: and_then_def)
    from keepsD[OF assms(2) this] k1 show ?thesis by simp
  qed
qed

lemma keeps_try_except:
  assumes "keeps f m" and "\<And>e. keeps f (h e)"
  shows "keeps f (try_except m h)"
  unfolding keeps_def
proof (intro allI impI)
  fix w r w'
  assume a: "try_except m h w = (r, w')"
  obtain r1 w1 where m: "m w = (r1, w1)" by (cases "m w")
  from keepsD[OF assms(1) m] have k1: "f w1 = f w" .
  show "f w' = f w"
  proof (cases r1)
    case (Inr x)
    with a m k1 show ?thesis by (simp add: try_except_def)
  next
    case (Inl e)
    with a m have "h e w1 = (r, w')" by (simp add: try_except_def)
    from keepsD[OF assms(2) this] k1 show ?thesis by simp
  qed
qed

lemma keeps_cond: "keeps f m \<Longrightarrow> keeps f n \<Longrightarrow> keeps f (\<lambda>w. if c w then m w else n w)"
  by (auto simp: keeps_def)

lemma keeps_when_exists: "keeps f m \<Longrightarrow> keeps f (when_exists p m)"
  by (auto simp: keeps_def when_exists_def)

lemma keeps_execute_insert: "keeps report (execute_insert env data)"
  unfolding execute_insert_def
  by (intro keeps_try_except keeps_and_then keeps_perform keeps_modify keeps_ret)
     (auto split: exn.splits)

lemma keeps_insert_rows: "keeps report (insert_rows env io cols rows acc)"
proof (induction rows arbitrary: acc)
  case Nil
  show ?case by (cases acc) simp
next
  case (Cons row rest)
  show ?case
    by (cases acc) (auto split: sum.splits option.splits intro!: keeps_and_then keeps_execute_insert Cons.IH)
qed

lemma keeps_write_local: "keeps report (write_local env p t)"
  unfolding write_local_def
  by (intro keeps_and_then keeps_perform keeps_modify) auto

lemma keeps_process_file: "keeps report (process_file_with io dc env p)"
  unfolding process_file_with_def connect_and_insert_def db_connect_def db_commit_def
    validate_csv_columns_def write_error_file_def write_success_file_def Let_def
  by (auto split: sum.splits prod.splits
        intro!: keeps_and_then keeps_perform keeps_modify keeps_insert_rows keeps_write_local)

lemma keeps_unlink: "keeps report (unlink env p)"
proof -
  have "unlink env p = (\<lambda>w. if file_exists p w
      then and_then (perform env (LocalDelete p)) (\<lambda>_.
             modify (\<lambda>w. w\<lparr>localfs := (localfs w)(p := None)\<rparr>)) w
      else (Inl (OSError ''No such file or directory''),
            w\<lparr>trace := trace w @ [(LocalDelete p, Some (OSError ''No such file or directory''))]\<rparr>))"
    by (simp add: unlink_def fun_eq_iff)
  moreover have "keeps report (\<lambda>w. (Inl (OSError ''No such file or directory'') :: exn + unit,
            w\<lparr>trace := trace w @ [(LocalDelete p, Some (OSError ''No such file or directory''))]\<rparr>))"
    by (simp add: keeps_def)
  ultimately show ?thesis
    by (auto intro!: keeps_cond keeps_and_then keeps_perform keeps_modify)
qed

lemma keeps_handle_file: "keeps report (handle_file_with io dc env lp k)"
  unfolding handle_file_with_def Let_def upload_result_file_def upload_file_def delete_file_def
  by (intro keeps_and_then keeps_process_file keeps_when_exists keeps_perform keeps_unlink keeps_ret)
     auto

text \<open>One iteration of the loop of \<open>main\<close> for a file whose handling raises a caught class.\<close>

lemma process_files_continue:
  assumes "fst (handle_file_with io dc env lp k w) = Inl e" and "caught_per_file e"
  shows "process_files_with io dc env ((lp, k) # rest) w =
           process_files_with io dc env rest
             ((snd (handle_file_with io dc env lp k w))
                \<lparr>report := report (snd (handle_file_with io dc env lp k w)) @ [(path_name lp, Failed e)]\<rparr>)"
  using assms
  by (cases "handle_file_with io dc env lp k w")
     (simp add: and_then_def try_except_def log_file_def modify_def)

lemma process_files_report_ext:
  "process_files_with io dc env files w = (r, w') \<Longrightarrow>
     \<exists>ext. report w' = report w @ ext \<and>
       (\<forall>e. r = Inl e \<longrightarrow> \<not> caught_per_file e) \<and>
       (r = Inr () \<longrightarrow> map fst ext = map (\<lambda>f. path_name (fst f)) files)"
proof (induction files arbitrary: w)
  case Nil
  then show ?case by simp
next
  case (Cons f rest)
  obtain lp k where f: "f = (lp, k)" by (cases f)
  obtain r1 w1 where h: "handle_file_with io dc env lp k w = (r1, w1)"
    by (cases "handle_file_with io dc env lp k w")
  from keepsD[OF keeps_handle_file h] have rep: "report w1 = report w" .
  have step: "\<And>st. process_files_with io dc env rest (w1\<lparr>report := report w1 @ [(path_name lp, st)]\<rparr>) = (r, w')
        \<Longrightarrow> ?case"
  proof -
    fix st
    assume "process_files_with io dc env rest (w1\<lparr>report := report w1 @ [(path_name lp, st)]\<rparr>) = (r, w')"
    from Cons.IH[OF this] obtain ext where
      e: "report w' = (report w1 @ [(path_name lp, st)]) @ ext"
         "\<forall>e. r = Inl e \<longrightarrow> \<not> caught_per_file e"
         "r = Inr () \<longrightarrow> map fst ext = map (\<lambda>f. path_name (fst f)) rest" by auto
    show ?case
      using e rep f by (intro exI[of _ "(path_name lp, st) # ext"]) simp
  qed
  show ?case
  proof (cases r1)
    case (Inr ok)
    with Cons.prems f h
    have "process_files_with io dc env rest (w1\<lparr>report := report w1 @ [(path_name lp, Completed)]\<rparr>) = (r, w')"
      by (simp add: and_then_def try_except_def log_file_def modify_def)
    then show ?thesis by (rule step)
  next
    case (Inl e)
    show ?thesis
    proof (cases "caught_per_file e")
      case True
      with Cons.prems f h Inl
      have "process_files_with io dc env rest (w1\<lparr>report := report w1 @ [(path_name lp, Failed e)]\<rparr>) = (r, w')"
        by (simp add: and_then_def try_except_def log_file_def modify_def)
      then show ?thesis by (rule step)
    next
      case False
      with Cons.prems f h Inl have "r = Inl e" "w' = w1"
        by (simp_all add: and_then_def try_except_def throw_def)
      with False rep show ?thesis by simp
    qed
  qed
qed

lemma xrt_process_files_abort:
  assumes "fst (xrt_handle_file env filename lp w) = Inl e"
  shows "xrt_process_files env ((filename, lp) # rest) w = (Inl e, snd (xrt_handle_file env filename lp w))"
  using assms
  by (cases "xrt_handle_file env filename lp w") (simp add: and_then_def)

lemma run_exchange_rate_pipeline_reraises:
  "run_exchange_rate_pipeline env w =
     and_then (xrt_list_files env) (\<lambda>files_to_process.
        if files_to_process = [] then ret ()
        else and_then (xrt_download_each env files_to_process) (\<lambda>downloaded_files.
             xrt_process_files env downloaded_files)) w"
  by (simp add: run_exchange_rate_pipeline_def try_except_def throw_def split: prod.splits sum.splits)

text \<open>
  Claim C2, as amended. In \<open>dataCED.py\<close>, when the handling of one file raises a
  \<open>ValueError\<close>, a \<open>pyodbc.Error\<close>, a \<open>ClientError\<close> or an \<open>OSError\<close>, the loop logs it
  and goes on with the next file; the loop is left early only by an exception of
  another class, and when it runs to its end it has logged one entry per downloaded
  file, in order. In \<open>dataXRT.py\<close> the loop has no handler: when the handling of one
  file raises, the loop ends with that exception, the remaining files are not
  handled, and \<open>run_exchange_rate_pipeline\<close> raises it again.
\<close>

theorem C2_per_file_isolation_in_ced_only:
  "(fst (handle_file_with insert_order display_columns env local_path s3_key w) = Inl e \<and> caught_per_file e \<longrightarrow>
      process_files_with insert_order display_columns env ((local_path, s3_key) # rest) w =
        process_files_with insert_order display_columns env rest
          ((snd (handle_file_with insert_order display_columns env local_path s3_key w))
             \<lparr>report := report (snd (handle_file_with insert_order display_columns env local_path s3_key w))
                          @ [(path_name local_path, Failed e)]\<rparr>))
   \<and> (\<forall>e'. fst (process_files_with insert_order display_columns env files w) = Inl e' \<longrightarrow> \<not> caught_per_file e')
   \<and> (fst (process_files_with insert_order display_columns env files w) = Inr () \<longrightarrow>
        map fst (drop (length (report w))
                   (report (snd (process_files_with insert_order display_columns env files w))))
          = map (\<lambda>f. path_name (fst f)) files)
   \<and> (fst (xrt_handle_file env filename local_path w) = Inl e2 \<longrightarrow>
        xrt_process_files env ((filename, local_path) # rest2) w
          = (Inl e2, snd (xrt_handle_file env filename local_path w)))
   \<and> run_exchange_rate_pipeline env w =
        and_then (xrt_list_files env) (\<lambda>files_to_process.
          if files_to_process = [] then ret ()
          else and_then (xrt_download_each env files_to_process) (\<lambda>downloaded_files.
               xrt_process_files env downloaded_files)) w"
proof -
  obtain r w' where p: "process_files_with insert_order display_columns env files w = (r, w')"
    by (cases "process_files_with insert_order display_columns env files w")
  from process_files_report_ext[OF p] obtain ext where
    e: "report w' = report w @ ext" "\<forall>e. r = Inl e \<longrightarrow> \<not> caught_per_file e"
       "r = Inr () \<longrightarrow> map fst ext = map (\<lambda>f. path_name (fst f)) files" by blast
  have c2: "\<forall>e'. fst (process_files_with insert_order display_columns env files w) = Inl e' \<longrightarrow> \<not> caught_per_file e'"
    using e(2) p by simp
  have c3: "fst (process_files_with insert_order display_columns env files w) = Inr () \<longrightarrow>
        map fst (drop (length (report w))
                   (report (snd (process_files_with insert_order display_columns env files w))))
          = map (\<lambda>f. path_name (fst f)) files"
    using e(1,3) p by simp
  show ?thesis
    using c2 c3 process_files_continue[of insert_order display_columns env local_path s3_key w e rest]
      xrt_process_files_abort[of env filename local_path w e2 rest2]
      run_exchange_rate_pipeline_reraises[of env w]
    by blast
qed

theorem C2_per_file_isolation_in_ced_only_witness:
  "fst (handle_file_with [''AMOUNT'', ''ID''] [''ID'', ''AMOUNT''] scenario_env
          (LocalPending, ''short.csv'') (S3Pending, ''short.csv'') after_download)
     = Inl (ValueError missing_amount_message)
   \<and> caught_per_file (ValueError missing_amount_message)
   \<and> fst (process_files_with [''AMOUNT'', ''ID''] [''ID'', ''AMOUNT''] scenario_env scenario_files after_download)
     = Inr ()
   \<and> fst (xrt_handle_file scenario_env ''denied.csv'' (LocalPending, ''denied.csv'') (downloaded ''denied.csv''))
     = Inl (FileProcessingError ''Failed to process denied.csv'')
   \<and> process_files_with [''AMOUNT'', ''ID''] [''ID'', ''AMOUNT''] scenario_env
        (((LocalPending, ''short.csv''), (S3Pending, ''short.csv''))
           # [((LocalPending, ''rates.csv''), (S3Pending, ''rates.csv''))]) after_download
     = process_files_with [''AMOUNT'', ''ID''] [''ID'', ''AMOUNT''] scenario_env
        [((LocalPending, ''rates.csv''), (S3Pending, ''rates.csv''))]
        ((snd (handle_file_with [''AMOUNT'', ''ID''] [''ID'', ''AMOUNT''] scenario_env
                 (LocalPending, ''short.csv'') (S3Pending, ''short.csv'') after_download))
           \<lparr>report := report (snd (handle_file_with [''AMOUNT'', ''ID''] [''ID'', ''AMOUNT''] scenario_env
                                   (LocalPending, ''short.csv'') (S3Pending, ''short.csv'') after_download))
                        @ [(path_name (LocalPending, ''short.csv''), Failed (ValueError missing_amount_message))]\<rparr>)
   \<and> map fst (drop (length (report after_download))
         (report (snd (process_files_with [''AMOUNT'', ''ID''] [''ID'', ''AMOUNT''] scenario_env
                         scenario_files after_download))))
     = map (\<lambda>f. path_name (fst f)) scenario_files
   \<and> report (snd (process_files_with [''AMOUNT'', ''ID''] [''ID'', ''AMOUNT''] scenario_env
                     scenario_files after_download))
     = [(''short.csv'', Failed (ValueError missing_amount_message)), (''rates.csv'', Completed)]
   \<and> xrt_process_files scenario_env
        ((''denied.csv'', (LocalPending, ''denied.csv'')) # [(''rates.csv'', (LocalPending, ''rates.csv''))])
        (downloaded ''denied.csv'')
     = (Inl (FileProcessingError ''Failed to process denied.csv''),
        snd (xrt_handle_file scenario_env ''denied.csv'' (LocalPending, ''denied.csv'') (downloaded ''denied.csv'')))"
proof -
  have h1: "fst (handle_file_with [''AMOUNT'', ''ID''] [''ID'', ''AMOUNT''] scenario_env
          (LocalPending, ''short.csv'') (S3Pending, ''short.csv'') after_download)
     = Inl (ValueError missing_amount_message)"
    by code_simp
  have h2: "caught_per_file (ValueError missing_amount_message)" by simp
  have h3: "fst (process_files_with [''AMOUNT'', ''ID''] [''ID'', ''AMOUNT''] scenario_env scenario_files after_download)
     = Inr ()"
    by code_simp
  have h4: "fst (xrt_handle_file scenario_env ''denied.csv'' (LocalPending, ''denied.csv'') (downloaded ''denied.csv''))
     = Inl (FileProcessingError ''Failed to process denied.csv'')"
    by code_simp
  have h5: "report (snd (process_files_with [''AMOUNT'', ''ID''] [''ID'', ''AMOUNT''] scenario_env
                     scenario_files after_download))
     = [(''short.csv'', Failed (ValueError missing_amount_message)), (''rates.csv'', Completed)]"
    by code_simp
  note th = C2_per_file_isolation_in_ced_only
      [where env = scenario_env and w = after_download
         and insert_order = "[''AMOUNT'', ''ID'']" and display_columns = "[''ID'', ''AMOUNT'']"
         and local_path = "(LocalPending, ''short.csv'')" and s3_key = "(S3Pending, ''short.csv'')"
         and e = "ValueError missing_amount_message"
         and rest = "[((LocalPending, ''rates.csv''), (S3Pending, ''rates.csv''))]"
         and files = scenario_files]
  note th2 = C2_per_file_isolation_in_ced_only
      [where env = scenario_env and w = "downloaded ''denied.csv''"
         and filename = "''denied.csv''" and local_path = "(LocalPending, ''denied.csv'')"
         and ?e2.0 = "FileProcessingError ''Failed to process denied.csv''"
         and ?rest2.0 = "[(''rates.csv'', (LocalPending, ''rates.csv''))]"]
  from th h1 h2 have c1: "process_files_with [''AMOUNT'', ''ID''] [''ID'', ''AMOUNT''] scenario_env
        (((LocalPending, ''short.csv''), (S3Pending, ''short.csv''))
           # [((LocalPending, ''rates.csv''), (S3Pending, ''rates.csv''))]) after_download
     = process_files_with [''AMOUNT'', ''ID''] [''ID'', ''AMOUNT''] scenario_env
        [((LocalPending, ''rates.csv''), (S3Pending, ''rates.csv''))]
        ((snd (handle_file_with [''AMOUNT'', ''ID''] [''ID'', ''AMOUNT''] scenario_env
                 (LocalPending, ''short.csv'') (S3Pending, ''short.csv'') after_download))
           \<lparr>report := report (snd (handle_file_with [''AMOUNT'', ''ID''] [''ID'', ''AMOUNT''] scenario_env
                                   (LocalPending, ''short.csv'') (S3Pending, ''short.csv'') after_download))
                        @ [(path_name (LocalPending, ''short.csv''), Failed (ValueError missing_amount_message))]\<rparr>)"
    by blast
  from th h3 have c3: "map fst (drop (length (report after_download))
         (report (snd (process_files_with [''AMOUNT'', ''ID''] [''ID'', ''AMOUNT''] scenario_env
                         scenario_files after_download))))
     = map (\<lambda>f. path_name (fst f)) scenario_files"
    by blast
  from th2 h4 have c4: "xrt_process_files scenario_env
        ((''denied.csv'', (LocalPending, ''denied.csv'')) # [(''rates.csv'', (LocalPending, ''rates.csv''))])
        (downloaded ''denied.csv'')
     = (Inl (FileProcessingError ''Failed to process denied.csv''),
        snd (xrt_handle_file scenario_env ''denied.csv'' (LocalPending, ''denied.csv'') (downloaded ''denied.csv'')))"
    by blast
  from h1 h2 h3 h4 h5 c1 c3 c4 show ?thesis
    by (intro conjI) assumption+
qed

text \<open>
  The claim as stated fails in \<open>dataXRT.py\<close>: with \<open>denied.csv\<close> and \<open>rates.csv\<close>
  pending, the transport error met by \<open>denied.csv\<close> ends the run. The run raises, no
  record of \<open>rates.csv\<close> is submitted, and no file is logged as completed.
\<close>

theorem C2_xrt_run_aborted_counterexample:
  "fst (run_exchange_rate_pipeline (scenario_env\<lparr>s3_listing := [''denied.csv'', ''rates.csv'']\<rparr>) empty_world)
     = Inl (FileProcessingError ''Failed to process denied.csv'')
   \<and> trace (snd (run_exchange_rate_pipeline
                   (scenario_env\<lparr>s3_listing := [''denied.csv'', ''rates.csv'']\<rparr>) empty_world))
     = [(S3List, None), (LocalMkdir LocalPending, None),
        (S3Download (S3Pending, ''denied.csv'') (LocalPending, ''denied.csv''), None),
        (LocalMkdir LocalPending, None),
        (S3Download (S3Pending, ''rates.csv'') (LocalPending, ''rates.csv''), None),
        (WsCall ''5,DENIED'', Some (OtherException ''HTTPError: 401 Client Error''))]
   \<and> report (snd (run_exchange_rate_pipeline
                    (scenario_env\<lparr>s3_listing := [''denied.csv'', ''rates.csv'']\<rparr>) empty_world))
     = []"
  by code_simp

subsection \<open>Schema validation\<close>














subsection \<open>Result files\<close>

lemma keeps_localfs_execute_insert: "keeps localfs (execute_insert env data)"
  unfolding execute_insert_def
  by (intro keeps_try_except keeps_and_then keeps_perform keeps_modify keeps_ret)
     (auto split: exn.splits)

lemma keeps_localfs_insert_rows: "keeps localfs (insert_rows env io cols rows acc)"
proof (induction rows arbitrary: acc)
  case Nil
  show ?case by (cases acc) simp
next
  case (Cons row rest)
  show ?case
    by (cases acc)
       (auto split: sum.splits option.splits intro!: keeps_and_then keeps_localfs_execute_insert Cons.IH)
qed

lemma keeps_localfs_connect_and_insert: "keeps localfs (connect_and_insert env io df)"
  unfolding connect_and_insert_def db_connect_def db_commit_def
  by (auto intro!: keeps_and_then keeps_perform keeps_modify keeps_localfs_insert_rows)

lemma write_local_localfs:
  "write_local env path t w = (Inr u, w') \<Longrightarrow> localfs w' = (localfs w)(path \<mapsto> Artifact t)"
  by (auto simp: write_local_def and_then_def perform_def modify_def split: option.splits)

lemma write_error_file_result:
  assumes "write_error_file env dc name records w = (Inr recs', w')"
  shows "(records = [] \<longrightarrow> w' = w) \<and>
         (records \<noteq> [] \<longrightarrow>
            localfs w' = (localfs w)((LocalError, ced_error_filename name)
                            \<mapsto> Artifact (pad_table (map Text (dc @ [''ERROR'']) # records))))"
  using assms
  by (auto simp: write_error_file_def Let_def and_then_Inr dest: write_local_localfs split: if_splits)

lemma write_success_file_result:
  assumes "write_success_file env dc name records w = (Inr recs', w')"
  shows "(records = [] \<longrightarrow> w' = w) \<and>
         (records \<noteq> [] \<longrightarrow>
            localfs w' = (localfs w)((LocalProcessed, ced_success_filename name)
                            \<mapsto> Artifact (pad_table (map Text dc # records))))"
  using assms
  by (auto simp: write_success_file_def Let_def and_then_Inr dest: write_local_localfs split: if_splits)

lemma process_file_artifacts:
  assumes "process_file_with io dc env p w = (Inr ok, w')"
  shows "\<exists>df s f w1. read_csv env p = Inr df
          \<and> connect_and_insert env io (replace_nan df) w = (Inr (s, f), w1)
          \<and> localfs w' (LocalError, ced_error_filename (path_name p)) =
              (if f = [] then localfs w (LocalError, ced_error_filename (path_name p))
               else Some (Artifact (pad_table (map Text (dc @ [''ERROR'']) # f))))
          \<and> localfs w' (LocalProcessed, ced_success_filename (path_name p)) =
              (if s = [] then localfs w (LocalProcessed, ced_success_filename (path_name p))
               else Some (Artifact (pad_table (map Text dc # s))))"
proof -
  obtain df where df: "read_csv env p = Inr df"
    using assms by (cases "read_csv env p") (simp_all add: process_file_with_def)
  with assms obtain w0 s f w1 f' w2 s' where
    v: "validate_csv_columns df io w = (Inr (), w0)" and
    c: "connect_and_insert env io (replace_nan df) w0 = (Inr (s, f), w1)" and
    e: "write_error_file env dc (path_name p) f w1 = (Inr f', w2)" and
    k: "write_success_file env dc (path_name p) s w2 = (Inr s', w')"
    by (auto simp: process_file_with_def and_then_Inr)
  from v have w0: "w0 = w" by (simp add: validate_csv_columns_def split: if_splits)
  from keepsD[OF keeps_localfs_connect_and_insert c] w0 have l1: "localfs w1 = localfs w" by simp
  note re = write_error_file_result[OF e]
  note rs = write_success_file_result[OF k]
  have "localfs w' (LocalError, ced_error_filename (path_name p)) =
              (if f = [] then localfs w (LocalError, ced_error_filename (path_name p))
               else Some (Artifact (pad_table (map Text (dc @ [''ERROR'']) # f))))"
    using re rs l1 by (cases "f = []"; cases "s = []") auto
  moreover have "localfs w' (LocalProcessed, ced_success_filename (path_name p)) =
              (if s = [] then localfs w (LocalProcessed, ced_success_filename (path_name p))
               else Some (Artifact (pad_table (map Text dc # s))))"
    using re rs l1 by (cases "f = []"; cases "s = []") auto
  ultimately show ?thesis using df c w0 by auto
qed

text \<open>Rows of one length give groups of one length.\<close>

lemma insert_rows_lengths:
  "insert_rows env io cols rows (s0, f0) w = (Inr (s, f), w') \<Longrightarrow>
     \<forall>r\<in>set rows \<union> set s0. length r = n \<Longrightarrow> \<forall>r\<in>set f0. length r = Suc n \<Longrightarrow>
     (\<forall>r\<in>set s. length r = n) \<and> (\<forall>r\<in>set f. length r = Suc n)"
proof (induction rows arbitrary: s0 f0 w)
  case Nil
  then show ?case by simp
next
  case (Cons row rest)
  from Cons.prems(1) obtain error :: "string option" and w1 where
    step: "insert_rows env io cols rest
             (case error of Some msg \<Rightarrow> (s0, f0 @ [row @ [Text msg]]) | None \<Rightarrow> (s0 @ [row], f0)) w1
           = (Inr (s, f), w')"
    by (fastforce simp: and_then_Inr split: sum.splits option.splits)
  show ?case
  proof (cases error)
    case None
    with step have "insert_rows env io cols rest (s0 @ [row], f0) w1 = (Inr (s, f), w')" by simp
    from Cons.IH[OF this] Cons.prems(2,3) show ?thesis by auto
  next
    case (Some msg)
    with step have "insert_rows env io cols rest (s0, f0 @ [row @ [Text msg]]) w1 = (Inr (s, f), w')"
      by simp
    from Cons.IH[OF this] Cons.prems(2,3) show ?thesis by auto
  qed
qed

lemma connect_and_insert_lengths:
  assumes "connect_and_insert env io (replace_nan df) w = (Inr (s, f), w')"
    and "\<forall>row\<in>set (df_rows df). length row = n"
  shows "(\<forall>r\<in>set s. length r = n) \<and> (\<forall>r\<in>set f. length r = Suc n)"
proof -
  from assms(1) obtain w1 w2 where
    i: "insert_rows env io (df_columns (replace_nan df)) (df_rows (replace_nan df)) ([], []) w1 = (Inr (s, f), w2)"
    by (auto simp: connect_and_insert_def and_then_Inr)
  from assms(2) have "\<forall>r\<in>set (df_rows (replace_nan df)) \<union> set []. length r = n"
    by (auto simp: replace_nan_def)
  from insert_rows_lengths[OF i this] show ?thesis by simp
qed

lemma submit_rows_lengths:
  "submit_rows env rows (s0, f0) w = (Inr (s, f), w') \<Longrightarrow>
     \<forall>r\<in>set rows \<union> set s0. length r = n \<Longrightarrow> \<forall>r\<in>set f0. length r = Suc n \<Longrightarrow>
     (\<forall>r\<in>set s. length r = n) \<and> (\<forall>r\<in>set f. length r = Suc n)"
proof (induction rows arbitrary: s0 f0 w)
  case Nil
  then show ?case by simp
next
  case (Cons row rest)
  from Cons.prems(1) obtain error :: "string option" and w1 where
    step: "submit_rows env rest
             (if truthy error then (s0, f0 @ [row @ [Text (error_reason (the error))]])
              else (s0 @ [row], f0)) w1
           = (Inr (s, f), w')"
    by (fastforce simp: and_then_Inr Let_def split: if_splits)
  show ?case
  proof (cases "truthy error")
    case False
    with step have "submit_rows env rest (s0 @ [row], f0) w1 = (Inr (s, f), w')" by simp
    from Cons.IH[OF this] Cons.prems(2,3) show ?thesis by auto
  next
    case True
    with step have "submit_rows env rest (s0, f0 @ [row @ [Text (error_reason (the error))]]) w1
                      = (Inr (s, f), w')"
      by simp
    from Cons.IH[OF this] Cons.prems(2,3) show ?thesis by auto
  qed
qed

lemma pad_header_exact:
  assumes "\<forall>r\<in>set records. length r = length header"
  shows "pad_table (header # records) = header # records"
  by (rule pad_table_same_length[where n = "length header"]) (use assms in auto)

lemma xrt_upload_file_localfs:
  "xrt_upload_file env p k w = (r, w') \<Longrightarrow> localfs w' = localfs w"
  by (auto simp: xrt_upload_file_def client_error_as_def try_except_def and_then_def perform_def
        ret_def throw_def split: option.splits exn.splits)

lemma move_file_result:
  assumes "move_file env src d w = (Inr f, w')" and "localfs w src = Some c" and "d \<noteq> fst src"
  shows "f = Some (d, path_name src) \<and> localfs w' (d, path_name src) = Some c
         \<and> (\<forall>p. fst p \<noteq> fst src \<and> fst p \<noteq> d \<longrightarrow> localfs w' p = localfs w p)"
proof -
  let ?body = "and_then (perform env (LocalMkdir d)) (\<lambda>_.
        (let dest_path = (d, path_name src)
         in (\<lambda>w. if file_exists src w
                  then and_then (perform env (LocalMove src dest_path)) (\<lambda>_.
                       and_then (modify (\<lambda>w. w\<lparr>localfs := (localfs w)(dest_path := localfs w src,
                                                                       src := None)\<rparr>)) (\<lambda>_.
                       ret (Some dest_path))) w
                  else ret None w)))"
  from assms(1) have b: "?body w = (Inr f, w')"
    by (simp add: move_file_def any_error_as_Inr)
  then obtain w1 where m: "perform env (LocalMkdir d) w = (Inr (), w1)"
    and r: "(if file_exists src w1
                  then and_then (perform env (LocalMove src (d, path_name src))) (\<lambda>_.
                       and_then (modify (\<lambda>w. w\<lparr>localfs := (localfs w)((d, path_name src) := localfs w src,
                                                                       src := None)\<rparr>)) (\<lambda>_.
                       ret (Some (d, path_name src)))) w1
                  else ret None w1) = (Inr f, w')"
    by (auto simp: and_then_Inr Let_def)
  from m have l1: "localfs w1 = localfs w"
    by (auto simp: perform_def split: option.splits)
  with assms(2) have ex: "file_exists src w1" by (simp add: file_exists_def)
  with r obtain w2 where mv: "perform env (LocalMove src (d, path_name src)) w1 = (Inr (), w2)"
    and fin: "f = Some (d, path_name src)"
             "w' = w2\<lparr>localfs := (localfs w2)((d, path_name src) := localfs w2 src, src := None)\<rparr>"
    by (auto simp: and_then_Inr modify_def)
  from mv have l2: "localfs w2 = localfs w1"
    by (auto simp: perform_def split: option.splits)
  from assms(3) have ne: "(d, path_name src) \<noteq> src" by (cases src) auto
  have frame: "\<forall>p. fst p \<noteq> fst src \<and> fst p \<noteq> d \<longrightarrow> localfs w' p = localfs w p"
    using fin(2) l1 l2 by auto
  from ne fin l1 l2 assms(2) have "f = Some (d, path_name src) \<and> localfs w' (d, path_name src) = Some c"
    by simp
  with frame show ?thesis by blast
qed

lemma save_group_artifact:
  assumes "save_group env records name suffix d k w = (Inr (n, f), w')"
  shows "(records = [] \<longrightarrow> w' = w \<and> f = None \<and> n = 0) \<and>
         (records \<noteq> [] \<and> d \<noteq> LocalPending \<longrightarrow>
            f = Some (d, path_name (LocalPending, xrt_output_filename name suffix)) \<and>
            localfs w' (d, path_name (LocalPending, xrt_output_filename name suffix))
              = Some (Artifact (pad_table records))) \<and>
         (d \<noteq> LocalPending \<longrightarrow>
            (\<forall>p. fst p \<noteq> LocalPending \<and> fst p \<noteq> d \<longrightarrow> localfs w' p = localfs w p))"
proof (cases "records = []")
  case True
  with assms show ?thesis by (simp add: save_group_def)
next
  case False
  let ?out = "(LocalPending, xrt_output_filename name suffix)"
  from False assms obtain wa kk wb where
    a: "write_local env ?out (pad_table records) w = (Inr (), wa)" and
    b: "xrt_upload_file env ?out k wa = (Inr kk, wb)" and
    c: "move_file env ?out d wb = (Inr f, w')"
    by (auto simp: save_group_def save_and_upload_results_def Let_def and_then_Inr)
  from write_local_localfs[OF a] xrt_upload_file_localfs[OF b]
  have fs: "localfs wb = (localfs w)(?out \<mapsto> Artifact (pad_table records))" by simp
  then have out: "localfs wb ?out = Some (Artifact (pad_table records))" by simp
  show ?thesis
  proof (cases "d = LocalPending")
    case True
    with False show ?thesis by simp
  next
    case dne: False
    then have "d \<noteq> fst ?out" by simp
    from move_file_result[OF c out this]
    have r: "f = Some (d, path_name ?out)" "localfs w' (d, path_name ?out) = Some (Artifact (pad_table records))"
      "\<forall>p. fst p \<noteq> fst ?out \<and> fst p \<noteq> d \<longrightarrow> localfs w' p = localfs wb p"
      by blast+
    from r(3) fs have "\<forall>p. fst p \<noteq> LocalPending \<and> fst p \<noteq> d \<longrightarrow> localfs w' p = localfs w p"
      by auto
    with r(1,2) False show ?thesis by simp
  qed
qed

lemma process_exchange_rate_file_artifacts:
  assumes "process_exchange_rate_file env p w = (Inr result, w')"
  shows "\<exists>df s f w1. read_csv env p = Inr df
           \<and> submit_rows env (df_rows df) ([], []) w = (Inr (s, f), w1)
           \<and> (if s = [] then success_file result = None
               else success_file result = Some (LocalProcessed, xrt_output_filename (path_name p) ''_ok'')
                 \<and> localfs w' (LocalProcessed, xrt_output_filename (path_name p) ''_ok'')
                     = Some (Artifact (pad_table s)))
           \<and> (if f = [] then error_file result = None
               else error_file result = Some (LocalError, xrt_output_filename (path_name p) ''_error'')
                 \<and> localfs w' (LocalError, xrt_output_filename (path_name p) ''_error'')
                     = Some (Artifact (pad_table f)))"
proof (cases "read_csv env p")
  case (Inl e)
  with assms show ?thesis
    by (simp add: process_exchange_rate_file_def any_error_as_Inr)
next
  case (Inr df)
  with assms obtain s f w1 n_err f_err w2 n_ok f_ok where
    sub: "submit_rows env (df_rows df) ([], []) w = (Inr (s, f), w1)" and
    g1: "save_group env f (path_name p) ''_error'' LocalError S3Error w1 = (Inr (n_err, f_err), w2)" and
    g2: "save_group env s (path_name p) ''_ok'' LocalProcessed S3Processed w2 = (Inr (n_ok, f_ok), w')" and
    res: "result = \<lparr>success_count = n_ok, error_count = n_err, success_file = f_ok, error_file = f_err\<rparr>"
    unfolding process_exchange_rate_file_def any_error_as_Inr
    by (simp add: and_then_Inr split: prod.splits) blast
  note a1 = save_group_artifact[OF g1, unfolded xrt_result_names]
  note a2 = save_group_artifact[OF g2, unfolded xrt_result_names]
  from a2 have keep: "localfs w' (LocalError, xrt_output_filename (path_name p) ''_error'')
                        = localfs w2 (LocalError, xrt_output_filename (path_name p) ''_error'')"
    by simp
  have ok: "if s = [] then success_file result = None
               else success_file result = Some (LocalProcessed, xrt_output_filename (path_name p) ''_ok'')
                 \<and> localfs w' (LocalProcessed, xrt_output_filename (path_name p) ''_ok'')
                     = Some (Artifact (pad_table s))"
    using a2 res by (cases "s = []") simp_all
  have er: "if f = [] then error_file result = None
               else error_file result = Some (LocalError, xrt_output_filename (path_name p) ''_error'')
                 \<and> localfs w' (LocalError, xrt_output_filename (path_name p) ''_error'')
                     = Some (Artifact (pad_table f))"
    using a1 keep res by (cases "f = []") simp_all
  from Inr sub ok er show ?thesis by blast
qed

text \<open>
  Claim C8, as amended. In \<open>dataCED.py\<close>, when \<open>process_file\<close> returns, the failure
  file of a non-empty failure group is the frame made of the header row (the display
  columns and \<open>ERROR\<close>) followed by the group, the success file of a non-empty
  success group is the frame made of the header row (the display columns) followed
  by the group, and an empty group leaves its file as it was before (none is
  written). A frame fills every row up to the longest one with empty cells: the first
  line of the file is the header row, followed by an empty cell for each cell that
  the longest record has more; when every row of the input has as many cells as
  there are display columns, the first line is exactly the header row and the other
  lines are exactly the group. In \<open>dataXRT.py\<close>, which reads and writes files without
  a header row, the file of a non-empty group is the frame made of the rows of the
  group alone (exactly these rows when the input rows have one length), and an empty
  group changes nothing and names no file; this holds of each block that saves a
  group and of \<open>process_exchange_rate_file\<close> as a whole.
\<close>

theorem C8_header_row_in_ced_only:
  "(fst (process_file_with insert_order display_columns env file_path w) = Inr ok \<longrightarrow>
      (\<exists>df successful_records failed_records.
         read_csv env file_path = Inr df
         \<and> fst (connect_and_insert env insert_order (replace_nan df) w) = Inr (successful_records, failed_records)
         \<and> localfs (snd (process_file_with insert_order display_columns env file_path w))
               (LocalError, ced_error_filename (path_name file_path)) =
              (if failed_records = [] then localfs w (LocalError, ced_error_filename (path_name file_path))
               else Some (Artifact (pad_table (map Text (display_columns @ [''ERROR'']) # failed_records))))
         \<and> localfs (snd (process_file_with insert_order display_columns env file_path w))
               (LocalProcessed, ced_success_filename (path_name file_path)) =
              (if successful_records = [] then localfs w (LocalProcessed, ced_success_filename (path_name file_path))
               else Some (Artifact (pad_table (map Text display_columns # successful_records))))
         \<and> hd (pad_table (map Text (display_columns @ [''ERROR'']) # failed_records))
             = map Text (display_columns @ [''ERROR''])
               @ replicate (frame_width (map Text (display_columns @ [''ERROR'']) # failed_records)
                             - Suc (length display_columns)) PyNone
         \<and> hd (pad_table (map Text display_columns # successful_records))
             = map Text display_columns
               @ replicate (frame_width (map Text display_columns # successful_records)
                             - length display_columns) PyNone
         \<and> ((\<forall>row\<in>set (df_rows df). length row = length display_columns) \<longrightarrow>
              pad_table (map Text (display_columns @ [''ERROR'']) # failed_records)
                = map Text (display_columns @ [''ERROR'']) # failed_records
              \<and> pad_table (map Text display_columns # successful_records)
                = map Text display_columns # successful_records)))
   \<and> (fst (save_group env records name suffix local_dest_dir s3_folder w) = Inr (n, f) \<longrightarrow>
      (records = [] \<longrightarrow> snd (save_group env records name suffix local_dest_dir s3_folder w) = w \<and> f = None) \<and>
      (records \<noteq> [] \<and> local_dest_dir \<noteq> LocalPending \<longrightarrow>
         f = Some (local_dest_dir, path_name (LocalPending, xrt_output_filename name suffix)) \<and>
         localfs (snd (save_group env records name suffix local_dest_dir s3_folder w))
           (local_dest_dir, path_name (LocalPending, xrt_output_filename name suffix))
           = Some (Artifact (pad_table records))) \<and>
      ((\<forall>row\<in>set records. length row = row_length) \<longrightarrow> pad_table records = records))
   \<and> (fst (process_exchange_rate_file env xrt_path w) = Inr result \<longrightarrow>
      (\<exists>df success_records error_records.
         read_csv env xrt_path = Inr df
         \<and> fst (submit_rows env (df_rows df) ([], []) w) = Inr (success_records, error_records)
         \<and> (if success_records = [] then success_file result = None
             else success_file result = Some (LocalProcessed, xrt_output_filename (path_name xrt_path) ''_ok'')
               \<and> localfs (snd (process_exchange_rate_file env xrt_path w))
                    (LocalProcessed, xrt_output_filename (path_name xrt_path) ''_ok'')
                   = Some (Artifact (pad_table success_records)))
         \<and> (if error_records = [] then error_file result = None
             else error_file result = Some (LocalError, xrt_output_filename (path_name xrt_path) ''_error'')
               \<and> localfs (snd (process_exchange_rate_file env xrt_path w))
                    (LocalError, xrt_output_filename (path_name xrt_path) ''_error'')
                   = Some (Artifact (pad_table error_records)))
         \<and> ((\<forall>row\<in>set (df_rows df). length row = row_length) \<longrightarrow>
              pad_table success_records = success_records \<and> pad_table error_records = error_records)))"
proof -
  have ced: "fst (process_file_with insert_order display_columns env file_path w) = Inr ok \<longrightarrow>
      (\<exists>df successful_records failed_records.
         read_csv env file_path = Inr df
         \<and> fst (connect_and_insert env insert_order (replace_nan df) w) = Inr (successful_records, failed_records)
         \<and> localfs (snd (process_file_with insert_order display_columns env file_path w))
               (LocalError, ced_error_filename (path_name file_path)) =
              (if failed_records = [] then localfs w (LocalError, ced_error_filename (path_name file_path))
               else Some (Artifact (pad_table (map Text (display_columns @ [''ERROR'']) # failed_records))))
         \<and> localfs (snd (process_file_with insert_order display_columns env file_path w))
               (LocalProcessed, ced_success_filename (path_name file_path)) =
              (if successful_records = [] then localfs w (LocalProcessed, ced_success_filename (path_name file_path))
               else Some (Artifact (pad_table (map Text display_columns # successful_records))))
         \<and> hd (pad_table (map Text (display_columns @ [''ERROR'']) # failed_records))
             = map Text (display_columns @ [''ERROR''])
               @ replicate (frame_width (map Text (display_columns @ [''ERROR'']) # failed_records)
                             - Suc (length display_columns)) PyNone
         \<and> hd (pad_table (map Text display_columns # successful_records))
             = map Text display_columns
               @ replicate (frame_width (map Text display_columns # successful_records)
                             - length display_columns) PyNone
         \<and> ((\<forall>row\<in>set (df_rows df). length row = length display_columns) \<longrightarrow>
              pad_table (map Text (display_columns @ [''ERROR'']) # failed_records)
                = map Text (display_columns @ [''ERROR'']) # failed_records
              \<and> pad_table (map Text display_columns # successful_records)
                = map Text display_columns # successful_records))"
  proof
    assume "fst (process_file_with insert_order display_columns env file_path w) = Inr ok"
    then obtain w' where p: "process_file_with insert_order display_columns env file_path w = (Inr ok, w')"
      by (cases "process_file_with insert_order display_columns env file_path w") simp
    from process_file_artifacts[OF p] obtain df s f w1 where
      r: "read_csv env file_path = Inr df"
         "connect_and_insert env insert_order (replace_nan df) w = (Inr (s, f), w1)"
         "localfs w' (LocalError, ced_error_filename (path_name file_path)) =
              (if f = [] then localfs w (LocalError, ced_error_filename (path_name file_path))
               else Some (Artifact (pad_table (map Text (display_columns @ [''ERROR'']) # f))))"
         "localfs w' (LocalProcessed, ced_success_filename (path_name file_path)) =
              (if s = [] then localfs w (LocalProcessed, ced_success_filename (path_name file_path))
               else Some (Artifact (pad_table (map Text display_columns # s))))"
      by blast
    have h1: "hd (pad_table (map Text (display_columns @ [''ERROR'']) # f))
             = map Text (display_columns @ [''ERROR''])
               @ replicate (frame_width (map Text (display_columns @ [''ERROR'']) # f)
                             - Suc (length display_columns)) PyNone"
      using pad_table_hd[of "map Text (display_columns @ [''ERROR''])" f] by simp
    have h2: "hd (pad_table (map Text display_columns # s))
             = map Text display_columns
               @ replicate (frame_width (map Text display_columns # s)
                             - length display_columns) PyNone"
      using pad_table_hd[of "map Text display_columns" s] by simp
    have ex: "(\<forall>row\<in>set (df_rows df). length row = length display_columns) \<longrightarrow>
              pad_table (map Text (display_columns @ [''ERROR'']) # f)
                = map Text (display_columns @ [''ERROR'']) # f
              \<and> pad_table (map Text display_columns # s) = map Text display_columns # s"
    proof
      assume "\<forall>row\<in>set (df_rows df). length row = length display_columns"
      from connect_and_insert_lengths[OF r(2) this]
      have l: "\<forall>r\<in>set s. length r = length display_columns"
              "\<forall>r\<in>set f. length r = Suc (length display_columns)" by blast+
      from l(2) have "pad_table (map Text (display_columns @ [''ERROR'']) # f)
                = map Text (display_columns @ [''ERROR'']) # f"
        by (intro pad_header_exact) simp
      moreover from l(1) have "pad_table (map Text display_columns # s) = map Text display_columns # s"
        by (intro pad_header_exact) simp
      ultimately show "pad_table (map Text (display_columns @ [''ERROR'']) # f)
                = map Text (display_columns @ [''ERROR'']) # f
              \<and> pad_table (map Text display_columns # s) = map Text display_columns # s"
        by blast
    qed
    from p have sp: "snd (process_file_with insert_order display_columns env file_path w) = w'" by simp
    from r(2) have fc: "fst (connect_and_insert env insert_order (replace_nan df) w) = Inr (s, f)" by simp
    show "\<exists>df successful_records failed_records.
         read_csv env file_path = Inr df
         \<and> fst (connect_and_insert env insert_order (replace_nan df) w) = Inr (successful_records, failed_records)
         \<and> localfs (snd (process_file_with insert_order display_columns env file_path w))
               (LocalError, ced_error_filename (path_name file_path)) =
              (if failed_records = [] then localfs w (LocalError, ced_error_filename (path_name file_path))
               else Some (Artifact (pad_table (map Text (display_columns @ [''ERROR'']) # failed_records))))
         \<and> localfs (snd (process_file_with insert_order display_columns env file_path w))
               (LocalProcessed, ced_success_filename (path_name file_path)) =
              (if successful_records = [] then localfs w (LocalProcessed, ced_success_filename (path_name file_path))
               else Some (Artifact (pad_table (map Text display_columns # successful_records))))
         \<and> hd (pad_table (map Text (display_columns @ [''ERROR'']) # failed_records))
             = map Text (display_columns @ [''ERROR''])
               @ replicate (frame_width (map Text (display_columns @ [''ERROR'']) # failed_records)
                             - Suc (length display_columns)) PyNone
         \<and> hd (pad_table (map Text display_columns # successful_records))
             = map Text display_columns
               @ replicate (frame_width (map Text display_columns # successful_records)
                             - length display_columns) PyNone
         \<and> ((\<forall>row\<in>set (df_rows df). length row = length display_columns) \<longrightarrow>
              pad_table (map Text (display_columns @ [''ERROR'']) # failed_records)
                = map Text (display_columns @ [''ERROR'']) # failed_records
              \<and> pad_table (map Text display_columns # successful_records)
                = map Text display_columns # successful_records)"
      unfolding sp
      by (intro exI[of _ df] exI[of _ s] exI[of _ f] conjI r(1) fc r(3) r(4) h1 h2 ex)
  qed
  have grp: "fst (save_group env records name suffix local_dest_dir s3_folder w) = Inr (n, f) \<longrightarrow>
      (records = [] \<longrightarrow> snd (save_group env records name suffix local_dest_dir s3_folder w) = w \<and> f = None) \<and>
      (records \<noteq> [] \<and> local_dest_dir \<noteq> LocalPending \<longrightarrow>
         f = Some (local_dest_dir, path_name (LocalPending, xrt_output_filename name suffix)) \<and>
         localfs (snd (save_group env records name suffix local_dest_dir s3_folder w))
           (local_dest_dir, path_name (LocalPending, xrt_output_filename name suffix))
           = Some (Artifact (pad_table records))) \<and>
      ((\<forall>row\<in>set records. length row = row_length) \<longrightarrow> pad_table records = records)"
  proof
    assume "fst (save_group env records name suffix local_dest_dir s3_folder w) = Inr (n, f)"
    then obtain w' where s: "save_group env records name suffix local_dest_dir s3_folder w = (Inr (n, f), w')"
      by (cases "save_group env records name suffix local_dest_dir s3_folder w") simp
    from s have sw: "snd (save_group env records name suffix local_dest_dir s3_folder w) = w'" by simp
    have pd: "(\<forall>row\<in>set records. length row = row_length) \<longrightarrow> pad_table records = records"
      using pad_table_same_length[of records row_length] by blast
    from save_group_artifact[OF s] pd
    show "(records = [] \<longrightarrow> snd (save_group env records name suffix local_dest_dir s3_folder w) = w \<and> f = None) \<and>
      (records \<noteq> [] \<and> local_dest_dir \<noteq> LocalPending \<longrightarrow>
         f = Some (local_dest_dir, path_name (LocalPending, xrt_output_filename name suffix)) \<and>
         localfs (snd (save_group env records name suffix local_dest_dir s3_folder w))
           (local_dest_dir, path_name (LocalPending, xrt_output_filename name suffix))
           = Some (Artifact (pad_table records))) \<and>
      ((\<forall>row\<in>set records. length row = row_length) \<longrightarrow> pad_table records = records)"
      unfolding sw by blast
  qed
  have xrt: "fst (process_exchange_rate_file env xrt_path w) = Inr result \<longrightarrow>
      (\<exists>df success_records error_records.
         read_csv env xrt_path = Inr df
         \<and> fst (submit_rows env (df_rows df) ([], []) w) = Inr (success_records, error_records)
         \<and> (if success_records = [] then success_file result = None
             else success_file result = Some (LocalProcessed, xrt_output_filename (path_name xrt_path) ''_ok'')
               \<and> localfs (snd (process_exchange_rate_file env xrt_path w))
                    (LocalProcessed, xrt_output_filename (path_name xrt_path) ''_ok'')
                   = Some (Artifact (pad_table success_records)))
         \<and> (if error_records = [] then error_file result = None
             else error_file result = Some (LocalError, xrt_output_filename (path_name xrt_path) ''_error'')
               \<and> localfs (snd (process_exchange_rate_file env xrt_path w))
                    (LocalError, xrt_output_filename (path_name xrt_path) ''_error'')
                   = Some (Artifact (pad_table error_records)))
         \<and> ((\<forall>row\<in>set (df_rows df). length row = row_length) \<longrightarrow>
              pad_table success_records = success_records \<and> pad_table error_records = error_records))"
  proof
    assume "fst (process_exchange_rate_file env xrt_path w) = Inr result"
    then obtain w' where p: "process_exchange_rate_file env xrt_path w = (Inr result, w')"
      by (cases "process_exchange_rate_file env xrt_path w") simp
    from process_exchange_rate_file_artifacts[OF p] obtain df s f w1 where
      r: "read_csv env xrt_path = Inr df"
         "submit_rows env (df_rows df) ([], []) w = (Inr (s, f), w1)"
         "if s = [] then success_file result = None
               else success_file result = Some (LocalProcessed, xrt_output_filename (path_name xrt_path) ''_ok'')
                 \<and> localfs w' (LocalProcessed, xrt_output_filename (path_name xrt_path) ''_ok'')
                     = Some (Artifact (pad_table s))"
         "if f = [] then error_file result = None
               else error_file result = Some (LocalError, xrt_output_filename (path_name xrt_path) ''_error'')
                 \<and> localfs w' (LocalError, xrt_output_filename (path_name xrt_path) ''_error'')
                     = Some (Artifact (pad_table f))"
      by blast
    have ex: "(\<forall>row\<in>set (df_rows df). length row = row_length) \<longrightarrow>
              pad_table s = s \<and> pad_table f = f"
    proof
      assume a: "\<forall>row\<in>set (df_rows df). length row = row_length"
      then have "\<forall>r\<in>set (df_rows df) \<union> set []. length r = row_length" by simp
      from submit_rows_lengths[OF r(2) this]
      have l: "\<forall>r\<in>set s. length r = row_length" "\<forall>r\<in>set f. length r = Suc row_length" by simp_all
      from pad_table_same_length[OF l(1)] pad_table_same_length[OF l(2)]
      show "pad_table s = s \<and> pad_table f = f" by blast
    qed
    from p have sp: "snd (process_exchange_rate_file env xrt_path w) = w'" by simp
    from r(2) have fc: "fst (submit_rows env (df_rows df) ([], []) w) = Inr (s, f)" by simp
    show "\<exists>df success_records error_records.
         read_csv env xrt_path = Inr df
         \<and> fst (submit_rows env (df_rows df) ([], []) w) = Inr (success_records, error_records)
         \<and> (if success_records = [] then success_file result = None
             else success_file result = Some (LocalProcessed, xrt_output_filename (path_name xrt_path) ''_ok'')
               \<and> localfs (snd (process_exchange_rate_file env xrt_path w))
                    (LocalProcessed, xrt_output_filename (path_name xrt_path) ''_ok'')
                   = Some (Artifact (pad_table success_records)))
         \<and> (if error_records = [] then error_file result = None
             else error_file result = Some (LocalError, xrt_output_filename (path_name xrt_path) ''_error'')
               \<and> localfs (snd (process_exchange_rate_file env xrt_path w))
                    (LocalError, xrt_output_filename (path_name xrt_path) ''_error'')
                   = Some (Artifact (pad_table error_records)))
         \<and> ((\<forall>row\<in>set (df_rows df). length row = row_length) \<longrightarrow>
              pad_table success_records = success_records \<and> pad_table error_records = error_records)"
      unfolding sp
      by (intro exI[of _ df] exI[of _ s] exI[of _ f] conjI r(1) fc r(3) r(4) ex)
  qed
  from ced grp xrt show ?thesis by (intro conjI)
qed

theorem C8_header_row_in_ced_only_witness:
  "fst (process_file_with [''AMOUNT'', ''ID''] [''ID'', ''AMOUNT''] scenario_env (LocalPending, ''rates.csv'')
          (downloaded ''rates.csv'')) = Inr False
   \<and> fst (process_file_with [''AMOUNT'', ''ID''] [''ID'', ''AMOUNT''] scenario_env (LocalPending, ''good.csv'')
          (downloaded ''good.csv'')) = Inr True
   \<and> fst (process_file_with [''AMOUNT'', ''ID''] [''ID'', ''AMOUNT''] scenario_env (LocalPending, ''wide.csv'')
          (downloaded ''wide.csv'')) = Inr False
   \<and> fst (save_group scenario_env [[Text ''1'', Text ''100'']] ''rates.csv'' ''_ok'' LocalProcessed S3Processed
          (downloaded ''rates.csv'')) = Inr (1, Some (LocalProcessed, ''rates_ok.csv''))
   \<and> fst (save_group scenario_env [] ''rates.csv'' ''_error'' LocalError S3Error
          (downloaded ''rates.csv'')) = Inr (0, None)
   \<and> fst (process_exchange_rate_file scenario_env (LocalPending, ''rates.csv'') (downloaded ''rates.csv''))
       = Inr \<lparr>success_count = 1, error_count = 1,
              success_file = Some (LocalProcessed, ''rates_ok.csv''),
              error_file = Some (LocalError, ''rates_error.csv'')\<rparr>
   \<and> localfs (snd (process_file_with [''AMOUNT'', ''ID''] [''ID'', ''AMOUNT''] scenario_env
                     (LocalPending, ''rates.csv'') (downloaded ''rates.csv'')))
        (LocalError, ''rates_error.csv'')
      = Some (Artifact [[Text ''ID'', Text ''AMOUNT'', Text ''ERROR''],
                        [Text ''2'', Text ''BAD'', Text ''invalid amount'']])
   \<and> localfs (snd (process_file_with [''AMOUNT'', ''ID''] [''ID'', ''AMOUNT''] scenario_env
                     (LocalPending, ''rates.csv'') (downloaded ''rates.csv'')))
        (LocalProcessed, ''rates_ok.csv'')
      = Some (Artifact [[Text ''ID'', Text ''AMOUNT''], [Text ''1'', Text ''100'']])
   \<and> localfs (snd (process_file_with [''AMOUNT'', ''ID''] [''ID'', ''AMOUNT''] scenario_env
                     (LocalPending, ''good.csv'') (downloaded ''good.csv'')))
        (LocalError, ''good_error.csv'')
      = None
   \<and> localfs (snd (process_file_with [''AMOUNT'', ''ID''] [''ID'', ''AMOUNT''] scenario_env
                     (LocalPending, ''wide.csv'') (downloaded ''wide.csv'')))
        (LocalError, ''wide_error.csv'')
      = Some (Artifact [[Text ''ID'', Text ''AMOUNT'', Text ''ERROR'', PyNone],
                        [Text ''2'', Text ''BAD'', Text ''late'', Text ''invalid amount'']])
   \<and> localfs (snd (save_group scenario_env [[Text ''1'', Text ''100'']] ''rates.csv'' ''_ok''
                     LocalProcessed S3Processed (downloaded ''rates.csv'')))
        (LocalProcessed, ''rates_ok.csv'')
      = Some (Artifact [[Text ''1'', Text ''100'']])
   \<and> snd (save_group scenario_env [] ''rates.csv'' ''_error'' LocalError S3Error (downloaded ''rates.csv''))
      = downloaded ''rates.csv''
   \<and> localfs (snd (process_exchange_rate_file scenario_env (LocalPending, ''rates.csv'')
                     (downloaded ''rates.csv'')))
        (LocalError, ''rates_error.csv'')
      = Some (Artifact [[Text ''2'', Text ''BAD'', Text ''invalid amount'']])"
proof -
  let ?io = "[''AMOUNT'', ''ID'']" and ?dc = "[''ID'', ''AMOUNT'']"
  let ?res = "\<lparr>success_count = 1, error_count = 1,
              success_file = Some (LocalProcessed, ''rates_ok.csv''),
              error_file = Some (LocalError, ''rates_error.csv'')\<rparr>"
  have h1: "fst (process_file_with ?io ?dc scenario_env (LocalPending, ''rates.csv'')
          (downloaded ''rates.csv'')) = Inr False"
    by code_simp
  have h2: "fst (process_file_with ?io ?dc scenario_env (LocalPending, ''good.csv'')
          (downloaded ''good.csv'')) = Inr True"
    by code_simp
  have h2': "fst (process_file_with ?io ?dc scenario_env (LocalPending, ''wide.csv'')
          (downloaded ''wide.csv'')) = Inr False"
    by code_simp
  have h3: "fst (save_group scenario_env [[Text ''1'', Text ''100'']] ''rates.csv'' ''_ok'' LocalProcessed S3Processed
          (downloaded ''rates.csv'')) = Inr (1, Some (LocalProcessed, ''rates_ok.csv''))"
    by code_simp
  have h4: "fst (save_group scenario_env [] ''rates.csv'' ''_error'' LocalError S3Error
          (downloaded ''rates.csv'')) = Inr (0, None)"
    by code_simp
  have h5: "fst (process_exchange_rate_file scenario_env (LocalPending, ''rates.csv'') (downloaded ''rates.csv''))
       = Inr ?res"
    by code_simp
  have r1: "read_csv scenario_env (LocalPending, ''rates.csv'')
              = Inr \<lparr>df_columns = [''ID'', ''AMOUNT''], df_rows = scenario_rows\<rparr>"
    by (simp add: scenario_env_def scenario_read_csv_def)
  have r2: "read_csv scenario_env (LocalPending, ''good.csv'')
              = Inr \<lparr>df_columns = [''ID'', ''AMOUNT''], df_rows = [[Text ''1'', Text ''100'']]\<rparr>"
    by (simp add: scenario_env_def scenario_read_csv_def)
  have r3: "read_csv scenario_env (LocalPending, ''wide.csv'')
              = Inr \<lparr>df_columns = [''ID'', ''AMOUNT'', ''NOTE''],
                     df_rows = [[Text ''2'', Text ''BAD'', Text ''late'']]\<rparr>"
    by (simp add: scenario_env_def scenario_read_csv_def)
  have g1: "fst (connect_and_insert scenario_env ?io
                   (replace_nan \<lparr>df_columns = [''ID'', ''AMOUNT''], df_rows = scenario_rows\<rparr>)
                   (downloaded ''rates.csv''))
              = Inr ([[Text ''1'', Text ''100'']], [[Text ''2'', Text ''BAD'', Text ''invalid amount'']])"
    by code_simp
  have g2: "fst (connect_and_insert scenario_env ?io
                   (replace_nan \<lparr>df_columns = [''ID'', ''AMOUNT''], df_rows = [[Text ''1'', Text ''100'']]\<rparr>)
                   (downloaded ''good.csv''))
              = Inr ([[Text ''1'', Text ''100'']], [])"
    by code_simp
  have g3: "fst (connect_and_insert scenario_env ?io
                   (replace_nan \<lparr>df_columns = [''ID'', ''AMOUNT'', ''NOTE''],
                                 df_rows = [[Text ''2'', Text ''BAD'', Text ''late'']]\<rparr>)
                   (downloaded ''wide.csv''))
              = Inr ([], [[Text ''2'', Text ''BAD'', Text ''late'', Text ''invalid amount'']])"
    by code_simp
  have g4: "fst (submit_rows scenario_env scenario_rows ([], []) (downloaded ''rates.csv''))
              = Inr ([[Text ''1'', Text ''100'']], [[Text ''2'', Text ''BAD'', Text ''invalid amount'']])"
    by code_simp
  have n: "ced_error_filename ''rates.csv'' = ''rates_error.csv''"
          "ced_success_filename ''rates.csv'' = ''rates_ok.csv''"
          "ced_error_filename ''good.csv'' = ''good_error.csv''"
          "ced_error_filename ''wide.csv'' = ''wide_error.csv''"
          "xrt_output_filename ''rates.csv'' ''_ok'' = ''rates_ok.csv''"
          "xrt_output_filename ''rates.csv'' ''_error'' = ''rates_error.csv''"
          "path_name (LocalPending, ''rates.csv'') = ''rates.csv''"
          "path_name (LocalPending, ''good.csv'') = ''good.csv''"
          "path_name (LocalPending, ''wide.csv'') = ''wide.csv''"
          "path_name (LocalPending, ''rates_ok.csv'') = ''rates_ok.csv''"
    by code_simp+
  have wide: "pad_table [[Text ''ID'', Text ''AMOUNT'', Text ''ERROR''],
                         [Text ''2'', Text ''BAD'', Text ''late'', Text ''invalid amount'']]
                = [[Text ''ID'', Text ''AMOUNT'', Text ''ERROR'', PyNone],
                   [Text ''2'', Text ''BAD'', Text ''late'', Text ''invalid amount'']]"
    by code_simp
  have len: "\<forall>row\<in>set scenario_rows. length row = length ?dc"
    by (simp add: scenario_rows_def)
  have e0: "localfs (downloaded ''good.csv'') (LocalError, ''good_error.csv'') = None"
    by (simp add: downloaded_def empty_world_def)
  note rates = C8_header_row_in_ced_only
      [where env = scenario_env and insert_order = ?io and display_columns = ?dc
         and file_path = "(LocalPending, ''rates.csv'')" and w = "downloaded ''rates.csv''" and ok = False
         and records = "[[Text ''1'', Text ''100'']]" and name = "''rates.csv''" and suffix = "''_ok''"
         and local_dest_dir = LocalProcessed and s3_folder = S3Processed and n = 1
         and f = "Some (LocalProcessed, ''rates_ok.csv'')" and row_length = 2
         and xrt_path = "(LocalPending, ''rates.csv'')" and result = ?res]
  note good = C8_header_row_in_ced_only
      [where env = scenario_env and insert_order = ?io and display_columns = ?dc
         and file_path = "(LocalPending, ''good.csv'')" and w = "downloaded ''good.csv''" and ok = True]
  note wider = C8_header_row_in_ced_only
      [where env = scenario_env and insert_order = ?io and display_columns = ?dc
         and file_path = "(LocalPending, ''wide.csv'')" and w = "downloaded ''wide.csv''" and ok = False]
  note none = C8_header_row_in_ced_only
      [where env = scenario_env and w = "downloaded ''rates.csv''"
         and records = "[]" and name = "''rates.csv''" and suffix = "''_error''"
         and local_dest_dir = LocalError and s3_folder = S3Error and n = 0 and f = None]
  from rates[THEN conjunct1] h1 obtain df s f where
    a: "read_csv scenario_env (LocalPending, ''rates.csv'') = Inr df"
       "fst (connect_and_insert scenario_env ?io (replace_nan df) (downloaded ''rates.csv'')) = Inr (s, f)"
       "localfs (snd (process_file_with ?io ?dc scenario_env (LocalPending, ''rates.csv'') (downloaded ''rates.csv'')))
               (LocalError, ced_error_filename (path_name (LocalPending, ''rates.csv''))) =
              (if f = [] then localfs (downloaded ''rates.csv'') (LocalError, ced_error_filename (path_name (LocalPending, ''rates.csv'')))
               else Some (Artifact (pad_table (map Text (?dc @ [''ERROR'']) # f))))"
       "localfs (snd (process_file_with ?io ?dc scenario_env (LocalPending, ''rates.csv'') (downloaded ''rates.csv'')))
               (LocalProcessed, ced_success_filename (path_name (LocalPending, ''rates.csv''))) =
              (if s = [] then localfs (downloaded ''rates.csv'') (LocalProcessed, ced_success_filename (path_name (LocalPending, ''rates.csv'')))
               else Some (Artifact (pad_table (map Text ?dc # s))))"
       "(\<forall>row\<in>set (df_rows df). length row = length ?dc) \<longrightarrow>
              pad_table (map Text (?dc @ [''ERROR'']) # f) = map Text (?dc @ [''ERROR'']) # f
              \<and> pad_table (map Text ?dc # s) = map Text ?dc # s"
    by blast
  from a(1) r1 have df: "df = \<lparr>df_columns = [''ID'', ''AMOUNT''], df_rows = scenario_rows\<rparr>" by simp
  from a(2) g1 df have sf: "s = [[Text ''1'', Text ''100'']]"
      "f = [[Text ''2'', Text ''BAD'', Text ''invalid amount'']]" by simp_all
  from a(5) df len have exact:
      "pad_table (map Text (?dc @ [''ERROR'']) # f) = map Text (?dc @ [''ERROR'']) # f"
      "pad_table (map Text ?dc # s) = map Text ?dc # s"
    by simp_all
  from a(3) sf n have "localfs (snd (process_file_with ?io ?dc scenario_env
                     (LocalPending, ''rates.csv'') (downloaded ''rates.csv'')))
        (LocalError, ''rates_error.csv'')
      = Some (Artifact (pad_table (map Text (?dc @ [''ERROR'']) # f)))"
    by simp
  with exact(1) sf have c1: "localfs (snd (process_file_with ?io ?dc scenario_env
                     (LocalPending, ''rates.csv'') (downloaded ''rates.csv'')))
        (LocalError, ''rates_error.csv'')
      = Some (Artifact [[Text ''ID'', Text ''AMOUNT'', Text ''ERROR''],
                        [Text ''2'', Text ''BAD'', Text ''invalid amount'']])"
    by simp
  from a(4) sf n have "localfs (snd (process_file_with ?io ?dc scenario_env
                     (LocalPending, ''rates.csv'') (downloaded ''rates.csv'')))
        (LocalProcessed, ''rates_ok.csv'')
      = Some (Artifact (pad_table (map Text ?dc # s)))"
    by simp
  with exact(2) sf have c2: "localfs (snd (process_file_with ?io ?dc scenario_env
                     (LocalPending, ''rates.csv'') (downloaded ''rates.csv'')))
        (LocalProcessed, ''rates_ok.csv'')
      = Some (Artifact [[Text ''ID'', Text ''AMOUNT''], [Text ''1'', Text ''100'']])"
    by simp
  from good[THEN conjunct1] h2 obtain df' s' f' where
    b: "read_csv scenario_env (LocalPending, ''good.csv'') = Inr df'"
       "fst (connect_and_insert scenario_env ?io (replace_nan df') (downloaded ''good.csv'')) = Inr (s', f')"
       "localfs (snd (process_file_with ?io ?dc scenario_env (LocalPending, ''good.csv'') (downloaded ''good.csv'')))
               (LocalError, ced_error_filename (path_name (LocalPending, ''good.csv''))) =
              (if f' = [] then localfs (downloaded ''good.csv'') (LocalError, ced_error_filename (path_name (LocalPending, ''good.csv'')))
               else Some (Artifact (pad_table (map Text (?dc @ [''ERROR'']) # f'))))"
    by blast
  from b(1) r2 have df': "df' = \<lparr>df_columns = [''ID'', ''AMOUNT''], df_rows = [[Text ''1'', Text ''100'']]\<rparr>"
    by simp
  from b(2) g2 df' have "f' = []" by simp
  with b(3) n e0 have c3: "localfs (snd (process_file_with ?io ?dc scenario_env
                     (LocalPending, ''good.csv'') (downloaded ''good.csv'')))
        (LocalError, ''good_error.csv'') = None"
    by simp
  from wider[THEN conjunct1] h2' obtain df'' s'' f'' where
    c: "read_csv scenario_env (LocalPending, ''wide.csv'') = Inr df''"
       "fst (connect_and_insert scenario_env ?io (replace_nan df'') (downloaded ''wide.csv'')) = Inr (s'', f'')"
       "localfs (snd (process_file_with ?io ?dc scenario_env (LocalPending, ''wide.csv'') (downloaded ''wide.csv'')))
               (LocalError, ced_error_filename (path_name (LocalPending, ''wide.csv''))) =
              (if f'' = [] then localfs (downloaded ''wide.csv'') (LocalError, ced_error_filename (path_name (LocalPending, ''wide.csv'')))
               else Some (Artifact (pad_table (map Text (?dc @ [''ERROR'']) # f''))))"
    by blast
  from c(1) r3 have df'': "df'' = \<lparr>df_columns = [''ID'', ''AMOUNT'', ''NOTE''],
                     df_rows = [[Text ''2'', Text ''BAD'', Text ''late'']]\<rparr>"
    by simp
  from c(2) g3 df'' have f'': "f'' = [[Text ''2'', Text ''BAD'', Text ''late'', Text ''invalid amount'']]"
    by simp
  from c(3) f'' n have "localfs (snd (process_file_with ?io ?dc scenario_env
                     (LocalPending, ''wide.csv'') (downloaded ''wide.csv'')))
        (LocalError, ''wide_error.csv'')
      = Some (Artifact (pad_table [[Text ''ID'', Text ''AMOUNT'', Text ''ERROR''],
                         [Text ''2'', Text ''BAD'', Text ''late'', Text ''invalid amount'']]))"
    by simp
  with wide have c6: "localfs (snd (process_file_with ?io ?dc scenario_env
                     (LocalPending, ''wide.csv'') (downloaded ''wide.csv'')))
        (LocalError, ''wide_error.csv'')
      = Some (Artifact [[Text ''ID'', Text ''AMOUNT'', Text ''ERROR'', PyNone],
                        [Text ''2'', Text ''BAD'', Text ''late'', Text ''invalid amount'']])"
    by simp
  have one: "\<forall>row\<in>set [[Text ''1'', Text ''100'']]. length row = 2" by simp
  from rates[THEN conjunct2, THEN conjunct1] h3 one
  have "localfs (snd (save_group scenario_env [[Text ''1'', Text ''100'']] ''rates.csv'' ''_ok''
                     LocalProcessed S3Processed (downloaded ''rates.csv'')))
        (LocalProcessed, path_name (LocalPending, xrt_output_filename ''rates.csv'' ''_ok''))
      = Some (Artifact (pad_table [[Text ''1'', Text ''100'']]))"
     and "pad_table [[Text ''1'', Text ''100'']] = [[Text ''1'', Text ''100'']]"
    by blast+
  with n have c4: "localfs (snd (save_group scenario_env [[Text ''1'', Text ''100'']] ''rates.csv'' ''_ok''
                     LocalProcessed S3Processed (downloaded ''rates.csv'')))
        (LocalProcessed, ''rates_ok.csv'')
      = Some (Artifact [[Text ''1'', Text ''100'']])"
    by simp
  from none[THEN conjunct2, THEN conjunct1] h4 have c5:
    "snd (save_group scenario_env [] ''rates.csv'' ''_error'' LocalError S3Error (downloaded ''rates.csv''))
      = downloaded ''rates.csv''"
    by simp
  from rates[THEN conjunct2, THEN conjunct2] h5 obtain xdf xs xf where
    d: "read_csv scenario_env (LocalPending, ''rates.csv'') = Inr xdf"
       "fst (submit_rows scenario_env (df_rows xdf) ([], []) (downloaded ''rates.csv'')) = Inr (xs, xf)"
       "if xf = [] then error_file ?res = None
             else error_file ?res = Some (LocalError, xrt_output_filename (path_name (LocalPending, ''rates.csv'')) ''_error'')
               \<and> localfs (snd (process_exchange_rate_file scenario_env (LocalPending, ''rates.csv'') (downloaded ''rates.csv'')))
                    (LocalError, xrt_output_filename (path_name (LocalPending, ''rates.csv'')) ''_error'')
                   = Some (Artifact (pad_table xf))"
       "(\<forall>row\<in>set (df_rows xdf). length row = 2) \<longrightarrow> pad_table xs = xs \<and> pad_table xf = xf"
    by blast
  from d(1) r1 have xdf: "xdf = \<lparr>df_columns = [''ID'', ''AMOUNT''], df_rows = scenario_rows\<rparr>" by simp
  from d(2) g4 xdf have xf: "xf = [[Text ''2'', Text ''BAD'', Text ''invalid amount'']]" by simp
  from d(4) xdf len have "pad_table xf = xf" by simp
  with d(3) xf n have c7: "localfs (snd (process_exchange_rate_file scenario_env (LocalPending, ''rates.csv'')
                     (downloaded ''rates.csv'')))
        (LocalError, ''rates_error.csv'')
      = Some (Artifact [[Text ''2'', Text ''BAD'', Text ''invalid amount'']])"
    by simp
  from h1 h2 h2' h3 h4 h5 c1 c2 c3 c6 c4 c5 c7 show ?thesis
    by (intro conjI) assumption+
qed

text \<open>
  The claim as stated fails in \<open>dataXRT.py\<close>: for \<open>headed.csv\<close>, whose first line is
  the header \<open>ID,AMOUNT\<close> and which the service accepts but for that line, the
  success file holds the data row only, with no header row, and the failure file
  holds the header line as a failed record with its reason, with no \<open>ERROR\<close> column
  name.
\<close>

theorem C8_xrt_files_have_no_header_counterexample:
  "localfs (snd (process_exchange_rate_file scenario_env (LocalPending, ''headed.csv'') (downloaded ''headed.csv'')))
     (LocalProcessed, ''headed_ok.csv'')
     = Some (Artifact [[Text ''1'', Text ''100'']])
   \<and> localfs (snd (process_exchange_rate_file scenario_env (LocalPending, ''headed.csv'') (downloaded ''headed.csv'')))
     (LocalError, ''headed_error.csv'')
     = Some (Artifact [[Text ''ID'', Text ''AMOUNT'', Text ''not a rate'']])"
  by code_simp

subsection \<open>The transaction of one file\<close>

lemma accepted_statements_append [simp]:
  "accepted_statements (xs @ ys) = accepted_statements xs @ accepted_statements ys"
  by (induction xs rule: accepted_statements.induct) simp_all











subsection \<open>Absent values\<close>

lemma replace_nan_cell_cases:
  "replace_nan_cell c = (case c of NaN \<Rightarrow> PyNone | _ \<Rightarrow> c)"
  by (cases c) simp_all

lemma replace_nan_no_nan: "row \<in> set (df_rows (replace_nan df)) \<Longrightarrow> NaN \<notin> set row"
proof -
  assume "row \<in> set (df_rows (replace_nan df))"
  then obtain row0 where "row = map replace_nan_cell row0" by (auto simp: replace_nan_def)
  moreover have "\<And>c. replace_nan_cell c \<noteq> NaN"
  proof -
    fix c show "replace_nan_cell c \<noteq> NaN" by (cases c) simp_all
  qed
  ultimately show ?thesis by (metis imageE list.set_map)
qed

lemma clean_statement_simps [simp]:
  "clean_statement (DbExecute data, r) = (NaN \<notin> set data)"
  "clean_statement (DbConnect, r)"
  "clean_statement (DbCommit, r)"
  "clean_statement (LocalWrite p, r)"
  by (simp_all add: clean_statement_def)

lemma build_data_subset: "build_data columns row cols = Inr data \<Longrightarrow> set data \<subseteq> set row"
proof (induction cols arbitrary: data)
  case Nil
  then show ?case by simp
next
  case (Cons col cols)
  from Cons.prems obtain v vs where
    v: "map_of (zip columns row) col = Some v" and vs: "build_data columns row cols = Inr vs"
    and d: "data = v # vs"
    by (auto split: option.splits sum.splits)
  from v have "v \<in> set row" by (meson map_of_SomeD set_zip_rightD)
  with Cons.IH[OF vs] d show ?case by simp
qed

lemma adds_execute_insert_clean:
  "NaN \<notin> set data \<Longrightarrow> adds clean_statement clean_statement (execute_insert env data)"
  unfolding execute_insert_def
  by (intro adds_try_except adds_and_then adds_perform adds_modify adds_ret)
     (auto split: exn.splits)

lemma adds_insert_rows_clean:
  "\<forall>row\<in>set rows. NaN \<notin> set row \<Longrightarrow>
     adds clean_statement clean_statement (insert_rows env io cols rows acc)"
proof (induction rows arbitrary: acc)
  case Nil
  show ?case by (cases acc) simp
next
  case (Cons row rest)
  have "\<And>data. build_data cols row io = Inr data \<Longrightarrow> NaN \<notin> set data"
    using build_data_subset Cons.prems by fastforce
  with Cons show ?case
    by (cases acc)
       (auto split: sum.splits option.splits intro!: adds_and_then adds_execute_insert_clean)
qed

lemma adds_process_file_clean:
  "adds clean_statement clean_statement (process_file_with io dc env p)"
proof -
  have w: "\<And>p t. adds clean_statement clean_statement (write_local env p t)"
    unfolding write_local_def
    by (intro adds_and_then adds_perform adds_modify) auto
  have r: "\<And>df. adds clean_statement clean_statement
             (insert_rows env io (df_columns (replace_nan df)) (df_rows (replace_nan df)) ([], []))"
    by (rule adds_insert_rows_clean) (auto dest: replace_nan_no_nan)
  show ?thesis
    unfolding process_file_with_def connect_and_insert_def db_connect_def db_commit_def
      validate_csv_columns_def write_error_file_def write_success_file_def Let_def
    by (auto split: sum.splits prod.splits
          intro!: adds_and_then adds_perform adds_modify r w)
qed

lemma insert_rows_groups_clean:
  "insert_rows env io cols rows (s0, f0) w = (Inr (s, f), w') \<Longrightarrow>
     \<forall>row\<in>set rows \<union> set s0 \<union> set f0. NaN \<notin> set row \<Longrightarrow>
     \<forall>row\<in>set s \<union> set f. NaN \<notin> set row"
proof (induction rows arbitrary: s0 f0 w)
  case Nil
  then show ?case by simp
next
  case (Cons row rest)
  from Cons.prems(1) obtain error :: "string option" and w1 where
    step: "insert_rows env io cols rest
             (case error of Some msg \<Rightarrow> (s0, f0 @ [row @ [Text msg]]) | None \<Rightarrow> (s0 @ [row], f0)) w1
           = (Inr (s, f), w')"
    by (fastforce simp: and_then_Inr split: sum.splits option.splits)
  show ?case
  proof (cases error)
    case None
    with step have "insert_rows env io cols rest (s0 @ [row], f0) w1 = (Inr (s, f), w')" by simp
    from Cons.IH[OF this] Cons.prems(2) show ?thesis by auto
  next
    case (Some msg)
    with step have "insert_rows env io cols rest (s0, f0 @ [row @ [Text msg]]) w1 = (Inr (s, f), w')"
      by simp
    from Cons.IH[OF this] Cons.prems(2) show ?thesis by auto
  qed
qed

lemma connect_and_insert_groups_clean:
  assumes "connect_and_insert env io (replace_nan df) w = (Inr (s, f), w')"
  shows "\<forall>row\<in>set s \<union> set f. NaN \<notin> set row"
proof -
  from assms obtain w1 w2 where
    "insert_rows env io (df_columns (replace_nan df)) (df_rows (replace_nan df)) ([], []) w1 = (Inr (s, f), w2)"
    by (auto simp: connect_and_insert_def and_then_Inr)
  from insert_rows_groups_clean[OF this] show ?thesis
    by (auto dest: replace_nan_no_nan)
qed

text \<open>What \<open>dataXRT.py\<close> submits: the rows as read, each cell printed by \<open>str\<close>.\<close>

lemma adds_call_record:
  "r \<in> R \<Longrightarrow> adds (\<lambda>en. \<forall>x. fst en = WsCall x \<longrightarrow> x \<in> R) (\<lambda>en. \<forall>x. fst en = WsCall x \<longrightarrow> x \<in> R)
     (call_exchange_rate_service env r)"
  unfolding call_exchange_rate_service_def
  by (intro adds_try_except adds_and_then adds_perform adds_ret)
     (auto split: exn.splits option.splits)

lemma adds_submit_rows_records:
  "(\<lambda>row. str_join '','' (map py_str row)) ` set rows \<subseteq> R \<Longrightarrow>
   adds (\<lambda>en. \<forall>x. fst en = WsCall x \<longrightarrow> x \<in> R) (\<lambda>en. \<forall>x. fst en = WsCall x \<longrightarrow> x \<in> R)
     (submit_rows env rows acc)"
proof (induction rows arbitrary: acc)
  case Nil
  show ?case by (cases acc) simp
next
  case (Cons row rest)
  then show ?case
    by (cases acc) (auto simp: Let_def intro!: adds_and_then adds_call_record)
qed

lemma adds_process_exchange_rate_file_records:
  assumes "read_csv env p = Inr df"
  shows "adds (\<lambda>en. \<forall>x. fst en = WsCall x \<longrightarrow> x \<in> (\<lambda>row. str_join '','' (map py_str row)) ` set (df_rows df))
              (\<lambda>en. \<forall>x. fst en = WsCall x \<longrightarrow> x \<in> (\<lambda>row. str_join '','' (map py_str row)) ` set (df_rows df))
              (process_exchange_rate_file env p)"
proof -
  let ?P = "\<lambda>en::entry. \<forall>x. fst en = WsCall x \<longrightarrow> x \<in> (\<lambda>row. str_join '','' (map py_str row)) ` set (df_rows df)"
  have w: "\<And>p t. adds ?P ?P (write_local env p t)"
    unfolding write_local_def
    by (intro adds_and_then adds_perform adds_modify) auto
  have u: "\<And>p d. adds ?P ?P (xrt_upload_file env p d)"
    unfolding xrt_upload_file_def
    by (intro adds_client_error_as adds_and_then adds_perform adds_ret) auto
  have m: "\<And>p d. adds ?P ?P (move_file env p d)"
    unfolding move_file_def Let_def
    by (intro adds_any_error_as adds_and_then adds_perform adds_cond adds_modify adds_ret) auto
  have g: "\<And>records name suffix d k. adds ?P ?P (save_group env records name suffix d k)"
    unfolding save_group_def save_and_upload_results_def Let_def
    by (auto intro!: adds_and_then w u m)
  have s: "adds ?P ?P (submit_rows env (df_rows df) ([], []))"
    by (rule adds_submit_rows_records) simp
  show ?thesis
    unfolding process_exchange_rate_file_def
    using assms by (auto split: prod.splits intro!: adds_any_error_as adds_and_then g s)
qed

text \<open>
  Claim C9 fails in \<open>dataXRT.py\<close>. \<open>blank.csv\<close> has the one line \<open>,7\<close>. \<open>read_csv\<close> puts
  the float \<open>nan\<close> for the empty field, \<open>dataXRT.py\<close> replaces nothing, and
  \<open>','.join(str(val) for val in row.values)\<close> prints it: the record is submitted to
  the web service as \<open>nan,7\<close>, and the record kept for the success file holds the
  float \<open>nan\<close>, not \<open>None\<close>. \<open>dataCED.py\<close> replaces every \<open>nan\<close> by \<open>None\<close> before its
  loop (\<open>adds_process_file_clean\<close>, \<open>connect_and_insert_groups_clean\<close>).
\<close>

theorem C9_xrt_submits_nan_as_text:
  "read_csv scenario_env (LocalPending, ''blank.csv'')
     = Inr \<lparr>df_columns = [''0'', ''1''], df_rows = [[NaN, Text ''7'']]\<rparr>
   \<and> filter (\<lambda>en. is_sink_call (fst en))
       (new_entries (downloaded ''blank.csv'')
          (snd (process_exchange_rate_file scenario_env (LocalPending, ''blank.csv'') (downloaded ''blank.csv''))))
     = [(WsCall ''nan,7'', None)]
   \<and> localfs (snd (process_exchange_rate_file scenario_env (LocalPending, ''blank.csv'') (downloaded ''blank.csv'')))
        (LocalProcessed, ''blank_ok.csv'')
     = Some (Artifact [[NaN, Text ''7'']])
   \<and> df_rows (replace_nan \<lparr>df_columns = [''0'', ''1''], df_rows = [[NaN, Text ''7'']]\<rparr>)
     = [[PyNone, Text ''7'']]"
  by code_simp

end
